(* ===== verification/School_Prelude.thy ===== *)
theory School_Prelude
  imports Complex_Main "HOL-Library.Word"
begin

text \<open>
  Shared vocabulary of the development: the machine types of the C++ program
  (\<open>int\<close> as a 32-bit word, \<open>double\<close> as an exact rational or NaN), the
  exceptions the program can raise as a datatype with a result type over it, and
  the list lemmas about splitting at a separator character that the serializer
  and the loader proofs share.
\<close>

section \<open>Lemma collections\<close>

named_theorems cxx_defs "definitions of the modelled standard-library operations"
named_theorems school_defs "definitions of the school operations, unfolded for evaluation"
named_theorems sep_simps "splitting a character list at a separator"

section \<open>Machine integers\<close>

text \<open>
  A C++ \<open>int\<close> is a 32-bit two's complement value: \<open>+\<close> wraps, \<open>sint\<close> reads
  the signed value.
\<close>

type_synonym cint = "32 word"

abbreviation INT_MIN :: int where "INT_MIN \<equiv> - 2147483648"
abbreviation INT_MAX :: int where "INT_MAX \<equiv> 2147483647"

definition in_int_range :: "int \<Rightarrow> bool" where
  "in_int_range v \<longleftrightarrow> INT_MIN \<le> v \<and> v \<le> INT_MAX"

lemma sint_cint_range: "INT_MIN \<le> sint (w :: cint) \<and> sint w \<le> INT_MAX"
  using sint_ge [of w] sint_lt [of w] by simp

lemma in_int_range_sint [simp]: "in_int_range (sint (w :: cint))"
  using sint_cint_range [of w] by (simp add: in_int_range_def)

lemma sint_word_of_int_cint:
  "in_int_range v \<Longrightarrow> sint (word_of_int v :: cint) = v"
  by (simp add: in_int_range_def sint_sbintrunc' signed_take_bit_int_eq_self)

lemma sint_add_cint:
  "in_int_range (sint a + sint b) \<Longrightarrow> sint (a + b :: cint) = sint a + sint b"
  by (simp add: in_int_range_def sint_word_add signed_take_bit_int_eq_self)

section \<open>Doubles\<close>

text \<open>
  The only \<open>double\<close> of the program is the average grade: an \<open>int\<close> converted
  to \<open>double\<close> (exact, since every 32-bit integer is representable) divided by a
  vector size. It is modelled by its exact rational value, or \<open>NaN\<close> for
  \<open>0.0 / 0\<close>. For a size that is a power of two, such as the four grades every
  student of the program has, the IEEE quotient is this rational exactly; for other sizes
  it is the value the double approximates. Comparison follows IEEE: every
  comparison with \<open>NaN\<close> is false, so only \<open>ord\<close> is instantiated (the relation
  is not reflexive).
\<close>

datatype cdouble = Fin rat | NaN

instantiation cdouble :: ord
begin

fun less_eq_cdouble :: "cdouble \<Rightarrow> cdouble \<Rightarrow> bool" where
  "less_eq_cdouble (Fin a) (Fin b) = (a \<le> b)"
| "less_eq_cdouble _ _ = False"

fun less_cdouble :: "cdouble \<Rightarrow> cdouble \<Rightarrow> bool" where
  "less_cdouble (Fin a) (Fin b) = (a < b)"
| "less_cdouble _ _ = False"

instance ..

end

definition double_div :: "cint \<Rightarrow> nat \<Rightarrow> cdouble" where
  "double_div tot n =
     (if n = 0 then (if tot = 0 then NaN else Fin 0)
      else Fin (of_int (sint tot) / of_nat n))"

text \<open>
  \<open>double_div tot n\<close> is \<open>static_cast<double>(total) / n\<close>. The program only
  divides by zero when the total is zero as well (an empty grade vector), which is
  \<open>NaN\<close>; a non-zero total over zero would be an infinity, which the model does not
  represent and no path of the program produces.
\<close>

lemma double_div_pos [simp]:
  "0 < n \<Longrightarrow> double_div tot n = Fin (of_int (sint tot) / of_nat n)"
  by (simp add: double_div_def)

lemma double_div_zero [simp]: "double_div 0 0 = NaN"
  by (simp add: double_div_def)

lemma NaN_not_ge [simp]: "\<not> (Fin r \<le> NaN)" "\<not> (NaN \<le> d)"
  by (cases d) simp_all

section \<open>Exceptions and results\<close>

text \<open>
  The exceptions \<open>std::stoi\<close> raises. The program catches nothing, so an
  exception ends the run: a computation that can raise returns \<open>exn + 'a\<close>, with
  \<open>Inl\<close> the exception that escaped.
\<close>

datatype exn = InvalidArgument | OutOfRange

type_synonym 'a result = "exn + 'a"

definition rbind :: "'a result \<Rightarrow> ('a \<Rightarrow> 'b result) \<Rightarrow> 'b result" where
  "rbind r f = (case r of Inl e \<Rightarrow> Inl e | Inr x \<Rightarrow> f x)"

lemma rbind_Inl [simp]: "rbind (Inl e) f = Inl e"
  by (simp add: rbind_def)

lemma rbind_Inr [simp]: "rbind (Inr x) f = f x"
  by (simp add: rbind_def)

lemma rbind_eq_Inr_iff: "rbind r f = Inr y \<longleftrightarrow> (\<exists>x. r = Inr x \<and> f x = Inr y)"
  by (cases r) simp_all

lemma rbind_eq_Inl_iff:
  "rbind r f = Inl e \<longleftrightarrow> r = Inl e \<or> (\<exists>x. r = Inr x \<and> f x = Inl e)"
  by (cases r) auto

lemma rbind_assoc: "rbind (rbind r f) g = rbind r (\<lambda>x. rbind (f x) g)"
  by (cases r) simp_all

section \<open>Characters and separators\<close>

abbreviation NL :: char where "NL \<equiv> CHR 0x0A"
abbreviation COMMA :: char where "COMMA \<equiv> CHR '',''"

lemma takeWhile_sep [sep_simps]:
  "c \<notin> set xs \<Longrightarrow> takeWhile (\<lambda>x. x \<noteq> c) (xs @ c # ys) = xs"
  by (induction xs) auto

lemma dropWhile_sep [sep_simps]:
  "c \<notin> set xs \<Longrightarrow> dropWhile (\<lambda>x. x \<noteq> c) (xs @ c # ys) = c # ys"
  by (induction xs) auto

lemma takeWhile_no_sep [sep_simps]:
  "c \<notin> set xs \<Longrightarrow> takeWhile (\<lambda>x. x \<noteq> c) xs = xs"
  by (induction xs) auto

lemma dropWhile_no_sep [sep_simps]:
  "c \<notin> set xs \<Longrightarrow> dropWhile (\<lambda>x. x \<noteq> c) xs = []"
  by (induction xs) auto

lemma length_dropWhile_le_length: "length (dropWhile P xs) \<le> length xs"
  by (induction xs) auto

end
