(* ===== verification/Cxx_String.thy ===== *)
theory Cxx_String
  imports School_Prelude
begin

text \<open>
  The operations of \<open>std::string\<close>, \<open>std::stoi\<close> and the decimal output of an
  \<open>int\<close> that the program calls, modelled from the C++ standard: positions with
  \<open>npos\<close>, \<open>find\<close>, \<open>substr\<close>, \<open>erase\<close>, decimal parsing with its two
  exceptions, decimal printing, and the round trip between the two.
\<close>

section \<open>Positions, find, substr, erase\<close>

text \<open>
  A position is a \<open>size_t\<close>; \<open>std::string::npos\<close> is its largest value. Strings are
  shorter than \<open>npos\<close>, so a position is modelled as \<open>nat option\<close> with \<open>None\<close>
  for \<open>npos\<close>, and the one place where the program's arithmetic on positions wraps
  around, \<open>npos + 1 = 0\<close>, is written out in \<open>pos_succ\<close>.
\<close>

type_synonym pos = "nat option"

abbreviation npos :: pos where "npos \<equiv> None"

primrec find_char :: "char \<Rightarrow> string \<Rightarrow> pos" where
  "find_char c [] = npos"
| "find_char c (x # xs) = (if x = c then Some 0 else map_option Suc (find_char c xs))"

definition substr0 :: "string \<Rightarrow> pos \<Rightarrow> string" where
  [cxx_defs]: "substr0 s n = (case n of None \<Rightarrow> s | Some k \<Rightarrow> take k s)"

definition pos_succ :: "pos \<Rightarrow> nat" where
  [cxx_defs]: "pos_succ p = (case p of None \<Rightarrow> 0 | Some k \<Rightarrow> Suc k)"

definition erase0 :: "string \<Rightarrow> nat \<Rightarrow> string" where
  [cxx_defs]: "erase0 s n = drop n s"

lemma find_char_npos_iff: "find_char c s = npos \<longleftrightarrow> c \<notin> set s"
  by (induction s) auto

lemma find_char_eq_takeWhile:
  "c \<in> set s \<Longrightarrow> find_char c s = Some (length (takeWhile (\<lambda>x. x \<noteq> c) s))"
  by (induction s) (auto simp: find_char_npos_iff)

lemma find_char_append [simp]:
  "c \<notin> set xs \<Longrightarrow> find_char c (xs @ c # ys) = Some (length xs)"
  by (induction xs) auto

lemma find_char_absent [simp]: "c \<notin> set s \<Longrightarrow> find_char c s = npos"
  by (simp add: find_char_npos_iff)

lemma find_char_Some_less: "find_char c s = Some k \<Longrightarrow> k < length s"
  by (induction s arbitrary: k) (auto split: if_splits)

lemma find_char_Some_nth: "find_char c s = Some k \<Longrightarrow> s ! k = c"
  by (induction s arbitrary: k) (auto split: if_splits)

lemma find_char_Some_before:
  "find_char c s = Some k \<Longrightarrow> c \<notin> set (take k s)"
  by (induction s arbitrary: k) (auto split: if_splits)

lemma substr0_npos [simp]: "substr0 s npos = s"
  by (simp add: substr0_def)

lemma substr0_Some [simp]: "substr0 s (Some k) = take k s"
  by (simp add: substr0_def)

lemma pos_succ_simps [simp]: "pos_succ npos = 0" "pos_succ (Some k) = Suc k"
  by (simp_all add: pos_succ_def)

lemma erase0_0 [simp]: "erase0 s 0 = s"
  by (simp add: erase0_def)

lemma length_erase0_le: "length (erase0 s n) \<le> length s"
  by (simp add: erase0_def)

section \<open>Character classes and digits\<close>

definition isspace :: "char \<Rightarrow> bool" where
  "isspace c \<longleftrightarrow>
     c \<in> set [CHR '' '', CHR 0x09, CHR 0x0A, CHR 0x0B, CHR 0x0C, CHR 0x0D]"

definition isdigit :: "char \<Rightarrow> bool" where
  "isdigit c \<longleftrightarrow> c \<in> set ''0123456789''"

definition digit_val :: "char \<Rightarrow> nat" where
  "digit_val c = of_char c - 48"

definition digit_char :: "nat \<Rightarrow> char" where
  "digit_char d = ''0123456789'' ! d"

lemmas char_class_defs [cxx_defs] = isspace_def isdigit_def digit_val_def digit_char_def

lemma less_10_cases:
  "d < 10 \<Longrightarrow> d \<in> {0, 1, 2, 3, 4, 5, 6, 7, 8, 9 :: nat}"
  by auto

lemma digit_val_digit_char [simp]: "d < 10 \<Longrightarrow> digit_val (digit_char d) = d"
  by (drule less_10_cases) (auto simp: digit_val_def digit_char_def)

lemma isdigit_digit_char [simp]: "d < 10 \<Longrightarrow> isdigit (digit_char d)"
  by (drule less_10_cases) (auto simp: isdigit_def digit_char_def)

lemma isdigit_not_special:
  assumes "isdigit c"
  shows "\<not> isspace c" and "c \<noteq> CHR ''-''" and "c \<noteq> CHR ''+''"
    and "c \<noteq> COMMA" and "c \<noteq> NL"
  using assms by (auto simp: isdigit_def isspace_def)

section \<open>Decimal output of an int\<close>

text \<open>
  \<open>operator<<(ostream&, int)\<close> in the default format: a minus sign for a negative
  value, then the decimal digits without leading zeros.
\<close>

fun show_nat :: "nat \<Rightarrow> string" where
  "show_nat n =
     (if n < 10 then [digit_char n]
      else show_nat (n div 10) @ [digit_char (n mod 10)])"

declare show_nat.simps [simp del]

definition show_int :: "int \<Rightarrow> string" where
  "show_int i = (if i < 0 then CHR ''-'' # show_nat (nat (- i)) else show_nat (nat i))"

definition show_cint :: "cint \<Rightarrow> string" where
  "show_cint w = show_int (sint w)"

lemmas show_defs [cxx_defs] = show_nat.simps show_int_def show_cint_def

lemma show_nat_digits: "c \<in> set (show_nat n) \<Longrightarrow> isdigit c"
proof (induction n rule: show_nat.induct)
  case (1 n)
  then show ?case
    by (subst (asm) show_nat.simps) (auto split: if_splits)
qed

lemma show_nat_nonempty [simp]: "show_nat n \<noteq> []"
  by (subst show_nat.simps) simp

lemma hd_show_nat_digit: "isdigit (hd (show_nat n))"
  by (rule show_nat_digits [of _ n]) simp

lemma takeWhile_isdigit_show_nat [simp]:
  "takeWhile isdigit (show_nat n) = show_nat n"
  by (simp add: show_nat_digits)

section \<open>Decimal input: stoi\<close>

text \<open>
  \<open>std::stoi(s)\<close> with base 10: leading white space is skipped, one sign is
  accepted, the longest run of digits is converted, and whatever follows is ignored.
  No digit raises \<open>std::invalid_argument\<close>; a value outside the range of \<open>int\<close>
  raises \<open>std::out_of_range\<close>. \<open>strtol_digits\<close> accumulates from the left as
  \<open>strtol\<close> does.
\<close>

primrec strtol_digits :: "nat \<Rightarrow> string \<Rightarrow> nat" where
  "strtol_digits acc [] = acc"
| "strtol_digits acc (c # cs) = strtol_digits (10 * acc + digit_val c) cs"

definition skip_sign :: "string \<Rightarrow> bool \<times> string" where
  "skip_sign s =
     (case s of
        [] \<Rightarrow> (False, [])
      | c # cs \<Rightarrow>
          if c = CHR ''-'' then (True, cs)
          else if c = CHR ''+'' then (False, cs)
          else (False, s))"

definition stoi :: "string \<Rightarrow> cint result" where
  "stoi s =
     (let (neg, body) = skip_sign (dropWhile isspace s);
          ds = takeWhile isdigit body
      in if ds = [] then Inl InvalidArgument
         else let v = (if neg then - int (strtol_digits 0 ds)
                       else int (strtol_digits 0 ds))
              in if in_int_range v then Inr (word_of_int v) else Inl OutOfRange)"

lemmas stoi_defs [cxx_defs] = stoi_def skip_sign_def in_int_range_def

lemma strtol_digits_snoc [simp]:
  "strtol_digits acc (cs @ [c]) = 10 * strtol_digits acc cs + digit_val c"
  by (induction cs arbitrary: acc) auto

lemma strtol_digits_show_nat [simp]: "strtol_digits 0 (show_nat n) = n"
proof (induction n rule: show_nat.induct)
  case (1 n)
  show ?case
  proof (cases "n < 10")
    case True
    then show ?thesis by (subst show_nat.simps) simp
  next
    case False
    with "1.IH" have "strtol_digits 0 (show_nat (n div 10)) = n div 10" by simp
    with False show ?thesis by (subst show_nat.simps) simp
  qed
qed

lemma skip_sign_minus [simp]: "skip_sign (CHR ''-'' # cs) = (True, cs)"
  by (simp add: skip_sign_def)

lemma skip_sign_digit [simp]: "s \<noteq> [] \<Longrightarrow> isdigit (hd s) \<Longrightarrow> skip_sign s = (False, s)"
  by (cases s) (auto simp: skip_sign_def dest: isdigit_not_special)

lemma dropWhile_isspace_digit [simp]:
  "s \<noteq> [] \<Longrightarrow> isdigit (hd s) \<Longrightarrow> dropWhile isspace s = s"
  by (cases s) (auto dest: isdigit_not_special)

lemma stoi_show_int:
  assumes "in_int_range i"
  shows "stoi (show_int i) = Inr (word_of_int i)"
proof (cases "i < 0")
  case True
  then have "dropWhile isspace (show_int i) = CHR ''-'' # show_nat (nat (- i))"
    by (simp add: show_int_def isspace_def)
  with True assms show ?thesis
    by (simp add: stoi_def)
next
  case False
  then have "show_int i = show_nat (nat i)"
    by (simp add: show_int_def)
  with False assms show ?thesis
    by (simp add: stoi_def hd_show_nat_digit)
qed

lemma stoi_show_cint [simp]: "stoi (show_cint w) = Inr w"
  by (simp add: show_cint_def stoi_show_int)

lemma show_int_digits_or_minus:
  "c \<in> set (show_int i) \<Longrightarrow> isdigit c \<or> c = CHR ''-''"
  by (auto simp: show_int_def dest: show_nat_digits split: if_splits)

lemma show_cint_no_sep [simp]:
  "COMMA \<notin> set (show_cint w)" "NL \<notin> set (show_cint w)"
proof -
  have "c \<noteq> COMMA \<and> c \<noteq> NL" if "c \<in> set (show_cint w)" for c
    using show_int_digits_or_minus [of c "sint w"] isdigit_not_special(4,5) [of c] that
    by (auto simp: show_cint_def)
  then show "COMMA \<notin> set (show_cint w)" "NL \<notin> set (show_cint w)"
    by blast+
qed

lemma show_cint_nonempty [simp]: "show_cint w \<noteq> []"
  by (simp add: show_cint_def show_int_def)

end
