(* ===== verification/School_Records.thy ===== *)
theory School_Records
  imports Cxx_String
begin

text \<open>
  The record classes of \<^verbatim>\<open>src/baseCode.cpp\<close>: \<open>Person\<close> and its two derived
  classes \<open>Student\<close> and \<open>Teacher\<close>, as extensible records, with their
  constructors, accessors, the average computation and the pass mark, and the line
  each record writes to the data file. The lemmas give the class invariant of
  \<open>Student\<close> (the cached average agrees with the grades), the exact value of the
  average when the 32-bit total does not overflow, and the shape of the written line.
\<close>

section \<open>Person\<close>

record Person =
  name :: string
  idn :: cint

definition getName :: "'a Person_scheme \<Rightarrow> string" where
  [school_defs]: "getName p = name p"

definition getId :: "'a Person_scheme \<Rightarrow> cint" where
  [school_defs]: "getId p = idn p"

definition setName :: "string \<Rightarrow> 'a Person_scheme \<Rightarrow> 'a Person_scheme" where
  [school_defs]: "setName newName p = p\<lparr>name := newName\<rparr>"

definition setId :: "cint \<Rightarrow> 'a Person_scheme \<Rightarrow> 'a Person_scheme" where
  [school_defs]: "setId newId p = p\<lparr>idn := newId\<rparr>"

section \<open>Student\<close>

record Student = Person +
  studentClass :: string
  subjects :: "string list"
  grades :: "cint list"
  averageGrade :: cdouble

definition default_subjects :: "string list" where
  [school_defs]: "default_subjects = [''Maths'', ''Physics'', ''CS'', ''Electronics'']"

text \<open>
  The loop of \<open>calculateAverage\<close> adds the grades into an \<open>int\<close>; the addition is
  that of 32-bit words, which wraps where the C++ addition overflows.
\<close>

definition grades_total :: "cint list \<Rightarrow> cint" where
  [school_defs]: "grades_total gs = foldl (\<lambda>tot g. tot + g) 0 gs"

definition calculateAverage :: "Student \<Rightarrow> Student" where
  [school_defs]: "calculateAverage s =
     s\<lparr>averageGrade := double_div (grades_total (grades s)) (length (grades s))\<rparr>"

text \<open>
  The constructor initialises every member but \<open>averageGrade\<close> and then calls
  \<open>calculateAverage\<close>, which assigns it; the value given to the field before the call
  stands for the uninitialised member and is never read.
\<close>

definition Student_new :: "string \<Rightarrow> cint \<Rightarrow> string \<Rightarrow> cint list \<Rightarrow> Student" where
  [school_defs]: "Student_new n i c gs =
     calculateAverage
       \<lparr>name = n, idn = i, studentClass = c, subjects = default_subjects,
        grades = gs, averageGrade = NaN\<rparr>"

definition isPassed :: "Student \<Rightarrow> string" where
  [school_defs]: "isPassed s = (if Fin 10 \<le> averageGrade s then ''Passed'' else ''Failed'')"

definition getStudentClass :: "Student \<Rightarrow> string" where
  [school_defs]: "getStudentClass s = studentClass s"

definition getGrades :: "Student \<Rightarrow> cint list" where
  [school_defs]: "getGrades s = grades s"

text \<open>
  \<open>Student::saveToFile\<close> appends to an open output stream, modelled as the text
  written so far. The grade loop runs over the index and writes a comma after every
  grade but the last.
\<close>

function save_grades :: "cint list \<Rightarrow> nat \<Rightarrow> string \<Rightarrow> string" where
  "save_grades gs i buf =
     (if i < length gs
      then save_grades gs (Suc i)
             (buf @ show_cint (gs ! i) @ (if i \<noteq> length gs - 1 then '','' else ''''))
      else buf)"
  by pat_completeness auto
termination
  by (relation "measure (\<lambda>(gs, i, buf). length gs - i)") auto

declare save_grades.simps [simp del]

definition Student_saveToFile :: "Student \<Rightarrow> string \<Rightarrow> string" where
  "Student_saveToFile s buf =
     save_grades (grades s) 0
       (buf @ name s @ '','' @ show_cint (idn s) @ '','' @ studentClass s @ '','')
     @ [NL]"

section \<open>Teacher\<close>

record Teacher = Person +
  subject :: string
  grade :: string

definition Teacher_new :: "string \<Rightarrow> cint \<Rightarrow> string \<Rightarrow> string \<Rightarrow> Teacher" where
  [school_defs]: "Teacher_new n i s g = \<lparr>name = n, idn = i, subject = s, grade = g\<rparr>"

definition Teacher_saveToFile :: "Teacher \<Rightarrow> string \<Rightarrow> string" where
  "Teacher_saveToFile t buf =
     buf @ name t @ '','' @ show_cint (idn t) @ '','' @ subject t @ '','' @ grade t @ [NL]"

definition getSubject :: "Teacher \<Rightarrow> string" where
  [school_defs]: "getSubject t = subject t"

definition getGrade :: "Teacher \<Rightarrow> string" where
  [school_defs]: "getGrade t = grade t"

definition setSubject :: "string \<Rightarrow> Teacher \<Rightarrow> Teacher" where
  [school_defs]: "setSubject newSubject t = t\<lparr>subject := newSubject\<rparr>"

definition setGrade :: "string \<Rightarrow> Teacher \<Rightarrow> Teacher" where
  [school_defs]: "setGrade newGrade t = t\<lparr>grade := newGrade\<rparr>"

section \<open>Reference definitions\<close>

text \<open>
  What the written lines are, stated without loops or streams: fields joined by
  commas. \<open>Student_line\<close> and \<open>Teacher_line\<close> are the lines without their
  terminating newline.
\<close>

fun join_commas :: "string list \<Rightarrow> string" where
  "join_commas [] = ''''"
| "join_commas [x] = x"
| "join_commas (x # y # ys) = x @ '','' @ join_commas (y # ys)"

definition Student_line :: "Student \<Rightarrow> string" where
  "Student_line s =
     name s @ '','' @ show_cint (idn s) @ '','' @ studentClass s @ '','' @
     join_commas (map show_cint (grades s))"

definition Teacher_line :: "Teacher \<Rightarrow> string" where
  "Teacher_line t =
     name t @ '','' @ show_cint (idn t) @ '','' @ subject t @ '','' @ grade t"

definition average_consistent :: "Student \<Rightarrow> bool" where
  "average_consistent s \<longleftrightarrow>
     averageGrade s = double_div (grades_total (grades s)) (length (grades s))"

definition student_wf :: "Student \<Rightarrow> bool" where
  "student_wf s \<longleftrightarrow>
     length (grades s) = 4 \<and> subjects s = default_subjects \<and> average_consistent s"

definition small_grades :: "cint list \<Rightarrow> bool" where
  "small_grades gs \<longleftrightarrow> (\<forall>g \<in> set gs. \<bar>sint g\<bar> \<le> 536870911)"

lemmas wf_defs = student_wf_def average_consistent_def

section \<open>The average\<close>

lemma calculateAverage_consistent [simp]: "average_consistent (calculateAverage s)"
  by (simp add: average_consistent_def calculateAverage_def)

lemma calculateAverage_fixes:
  "average_consistent s \<Longrightarrow> calculateAverage s = s"
  by (simp add: average_consistent_def calculateAverage_def)

lemma calculateAverage_idem [simp]:
  "calculateAverage (calculateAverage s) = calculateAverage s"
  by (simp add: calculateAverage_fixes)

lemma calculateAverage_frame [simp]:
  "name (calculateAverage s) = name s" "idn (calculateAverage s) = idn s"
  "studentClass (calculateAverage s) = studentClass s"
  "subjects (calculateAverage s) = subjects s" "grades (calculateAverage s) = grades s"
  by (simp_all add: calculateAverage_def)

lemma Student_new_fields [simp]:
  "name (Student_new n i c gs) = n" "idn (Student_new n i c gs) = i"
  "studentClass (Student_new n i c gs) = c" "grades (Student_new n i c gs) = gs"
  "subjects (Student_new n i c gs) = default_subjects"
  "averageGrade (Student_new n i c gs) = double_div (grades_total gs) (length gs)"
  by (simp_all add: Student_new_def calculateAverage_def)

lemma Student_new_consistent [simp]: "average_consistent (Student_new n i c gs)"
  by (simp add: Student_new_def)

lemma Student_new_wf: "length gs = 4 \<Longrightarrow> student_wf (Student_new n i c gs)"
  by (simp add: student_wf_def)

lemma student_wf_rebuild:
  "student_wf s \<Longrightarrow> Student_new (name s) (idn s) (studentClass s) (grades s) = s"
  by (simp add: wf_defs Student_new_def calculateAverage_def)

lemma grades_total_snoc [simp]: "grades_total (gs @ [g]) = grades_total gs + g"
  by (simp add: grades_total_def)

lemma grades_total_Nil [simp]: "grades_total [] = 0"
  by (simp add: grades_total_def)

lemma sum_sint_bound:
  "\<forall>g \<in> set gs. \<bar>sint (g :: cint)\<bar> \<le> B \<Longrightarrow>
     \<bar>sum_list (map sint gs)\<bar> \<le> int (length gs) * B"
  by (induction gs) (auto simp: algebra_simps)

lemma grades_total_exact:
  assumes "small_grades gs" and "length gs \<le> 4"
  shows "sint (grades_total gs) = sum_list (map sint gs)"
  using assms
proof (induction gs rule: rev_induct)
  case Nil
  then show ?case by simp
next
  case (snoc g gs)
  then have IH: "sint (grades_total gs) = sum_list (map sint gs)"
    and g: "\<bar>sint g\<bar> \<le> 536870911" and len: "length gs \<le> 3"
    by (simp_all add: small_grades_def)
  from snoc.prems have "\<bar>sum_list (map sint gs)\<bar> \<le> int (length gs) * 536870911"
    by (intro sum_sint_bound) (simp add: small_grades_def)
  with len have "\<bar>sum_list (map sint gs)\<bar> \<le> 3 * 536870911"
    by linarith
  with g IH have "in_int_range (sint (grades_total gs) + sint g)"
    unfolding in_int_range_def by arith
  then show ?case
    by (simp add: sint_add_cint IH)
qed

section \<open>The written lines\<close>

lemma join_commas_Cons:
  "join_commas (x # xs) = (if xs = [] then x else x @ '','' @ join_commas xs)"
  by (cases xs) simp_all

lemma save_grades_eq:
  "i \<le> length gs \<Longrightarrow>
     save_grades gs i buf = buf @ join_commas (map show_cint (drop i gs))"
proof (induction gs i buf rule: save_grades.induct)
  case (1 gs i buf)
  show ?case
  proof (cases "i < length gs")
    case True
    then have d: "drop i gs = gs ! i # drop (Suc i) gs"
      by (simp add: Cons_nth_drop_Suc)
    from True have e: "drop (Suc i) gs = [] \<longleftrightarrow> i = length gs - 1"
      by auto
    from True "1.IH" show ?thesis
      by (auto simp: save_grades.simps [of gs i] d e join_commas_Cons)
  next
    case False
    with "1.prems" have "i = length gs" by simp
    then show ?thesis
      by (simp add: save_grades.simps [of gs "length gs"])
  qed
qed

lemma Student_saveToFile_eq: "Student_saveToFile s buf = buf @ Student_line s @ [NL]"
  by (simp add: Student_saveToFile_def Student_line_def save_grades_eq)

lemma Teacher_saveToFile_eq: "Teacher_saveToFile t buf = buf @ Teacher_line t @ [NL]"
  by (simp add: Teacher_saveToFile_def Teacher_line_def)

lemma join_commas_no_NL:
  "\<forall>x \<in> set xs. NL \<notin> set x \<Longrightarrow> NL \<notin> set (join_commas xs)"
  by (induction xs rule: join_commas.induct) auto

lemma Student_line_nonempty [simp]: "Student_line s \<noteq> []"
  by (simp add: Student_line_def)

lemma Teacher_line_nonempty [simp]: "Teacher_line t \<noteq> []"
  by (simp add: Teacher_line_def)

lemma Student_line_no_NL:
  "NL \<notin> set (name s) \<Longrightarrow> NL \<notin> set (studentClass s) \<Longrightarrow> NL \<notin> set (Student_line s)"
  by (simp add: Student_line_def join_commas_no_NL)

lemma Teacher_line_no_NL:
  "NL \<notin> set (name t) \<Longrightarrow> NL \<notin> set (subject t) \<Longrightarrow> NL \<notin> set (grade t) \<Longrightarrow>
     NL \<notin> set (Teacher_line t)"
  by (simp add: Teacher_line_def)

section \<open>Value of the average and the pass mark\<close>

lemma student_wf_average:
  assumes "student_wf s" and "small_grades (grades s)"
  shows "averageGrade s = Fin (of_int (sum_list (map sint (grades s))) / 4)"
  using assms by (simp add: wf_defs grades_total_exact)

definition alice :: Student where
  "alice = Student_new ''Alice'' 1 ''10A'' [12, 8, 15, 9]"

lemma alice_fields [simp]:
  "name alice = ''Alice''" "idn alice = 1" "studentClass alice = ''10A''"
  "grades alice = [12, 8, 15, 9]" "averageGrade alice = Fin 11"
  by (simp_all add: alice_def grades_total_def)

lemma alice_wf [simp]: "student_wf alice"
  by (simp add: alice_def Student_new_wf)

lemma small_grades_alice [simp]: "small_grades [12, 8, 15, 9]"
  by (simp add: small_grades_def)

text \<open>
  C9. A student constructed from four grades of magnitude below \<open>2\<^sup>2\<^sup>9\<close> has as
  its average exactly the sum of the grades divided by four: the 32-bit total does not
  wrap and the division by four is exact.
\<close>

theorem Student_new_average:
  assumes "length gs = 4" and "small_grades gs"
  shows "averageGrade (Student_new n i c gs) = Fin (of_int (sum_list (map sint gs)) / 4)"
  using assms by (simp add: grades_total_exact)

theorem Student_new_average_witness:
  "length [12, 8, 15, 9 :: cint] = 4 \<and> small_grades [12, 8, 15, 9] \<and>
   averageGrade (Student_new ''Alice'' 1 ''10A'' [12, 8, 15, 9]) = Fin 11"
  using Student_new_average [of "[12, 8, 15, 9]" "''Alice''" 1 "''10A''"]
  by simp

text \<open>
  C10. For a well-formed student with grades of magnitude below \<open>2\<^sup>2\<^sup>9\<close>,
  \<open>isPassed\<close> answers "Passed" exactly when the grades sum to at least 40, that is
  when their mean is at least 10, and "Failed" otherwise.
\<close>

theorem isPassed_iff:
  assumes "student_wf s" and "small_grades (grades s)"
  shows "isPassed s = (if 40 \<le> sum_list (map sint (grades s)) then ''Passed'' else ''Failed'')"
proof -
  have "(10 :: rat) \<le> of_int k / 4 \<longleftrightarrow> 40 \<le> k" for k :: int
    by (simp add: le_divide_eq)
  with student_wf_average [OF assms] show ?thesis
    by (simp add: isPassed_def)
qed

theorem isPassed_iff_witness:
  "student_wf alice \<and> small_grades (grades alice) \<and> isPassed alice = ''Passed''"
  using isPassed_iff [of alice] by simp

end
