(* ===== verification/Cxx_Stream.thy ===== *)
theory Cxx_Stream
  imports Cxx_String
begin

text \<open>
  The file streams the program uses, modelled from the C++ standard: an input
  stream is the text that is still unread, \<open>getline\<close> takes one line off it, and
  the file system is a map from paths to contents together with the set of paths
  that can be opened for writing. The lemmas relate \<open>getline\<close> to the list of lines
  of a text.
\<close>

section \<open>getline\<close>

text \<open>
  \<open>std::getline(file, line)\<close> on the unread text: at the end of the input nothing
  is extracted and the stream fails (\<open>None\<close>); otherwise the characters up to the
  next newline are the line, and the newline itself is consumed. A last line without
  a newline is returned as it is.
\<close>

definition getline :: "string \<Rightarrow> (string \<times> string) option" where
  "getline s =
     (if s = [] then None
      else Some (takeWhile (\<lambda>c. c \<noteq> NL) s, drop 1 (dropWhile (\<lambda>c. c \<noteq> NL) s)))"

function lines_of :: "string \<Rightarrow> string list" where
  "lines_of s = (case getline s of None \<Rightarrow> [] | Some (l, r) \<Rightarrow> l # lines_of r)"
  by pat_completeness auto

lemma getline_Nil [simp]: "getline [] = None"
  by (simp add: getline_def)

lemma getline_None_iff [simp]: "getline s = None \<longleftrightarrow> s = []"
  by (simp add: getline_def)

lemma getline_shorter: "getline s = Some (l, r) \<Longrightarrow> length r < length s"
proof -
  assume "getline s = Some (l, r)"
  then have s: "s \<noteq> []" and r: "r = drop 1 (dropWhile (\<lambda>c. c \<noteq> NL) s)"
    by (auto simp: getline_def split: if_splits)
  show ?thesis
  proof (cases "dropWhile (\<lambda>c. c \<noteq> NL) s")
    case Nil
    with s r show ?thesis by simp
  next
    case (Cons c cs)
    have "length (dropWhile (\<lambda>c. c \<noteq> NL) s) \<le> length s"
      by (rule length_dropWhile_le_length)
    with Cons r show ?thesis by simp
  qed
qed

termination lines_of
  by (relation "measure length") (auto dest: getline_shorter)

declare lines_of.simps [simp del]

lemma getline_line [simp]:
  "NL \<notin> set l \<Longrightarrow> getline (l @ NL # r) = Some (l, r)"
  by (simp add: getline_def sep_simps)

lemma getline_last:
  "NL \<notin> set l \<Longrightarrow> l \<noteq> [] \<Longrightarrow> getline l = Some (l, [])"
  by (simp add: getline_def sep_simps)

lemma getline_no_NL: "getline s = Some (l, r) \<Longrightarrow> NL \<notin> set l"
  by (auto simp: getline_def split: if_splits dest: set_takeWhileD)

lemma lines_of_Nil [simp]: "lines_of [] = []"
  by (simp add: lines_of.simps)

lemma lines_of_line [simp]:
  "NL \<notin> set l \<Longrightarrow> lines_of (l @ NL # r) = l # lines_of r"
  by (simp add: lines_of.simps [of "l @ NL # r"])

lemma lines_of_getline:
  "getline s = Some (l, r) \<Longrightarrow> lines_of s = l # lines_of r"
  by (simp add: lines_of.simps [of s])

lemma lines_of_unlines:
  "\<forall>l \<in> set ls. NL \<notin> set l \<Longrightarrow> lines_of (concat (map (\<lambda>l. l @ [NL]) ls)) = ls"
  by (induction ls) simp_all

section \<open>Files\<close>

text \<open>
  Opening an \<open>ifstream\<close> fails when there is no file at the path. Opening an
  \<open>ofstream\<close> fails when the path cannot be written; when it succeeds the file is
  truncated, and closing the stream leaves the written text as its content.
\<close>

record filesys =
  files :: "string \<Rightarrow> string option"
  writable :: "string \<Rightarrow> bool"

definition ifstream_open :: "filesys \<Rightarrow> string \<Rightarrow> string option" where
  [cxx_defs]: "ifstream_open fs path = files fs path"

definition ofstream_open :: "filesys \<Rightarrow> string \<Rightarrow> filesys option" where
  [cxx_defs]: "ofstream_open fs path =
     (if writable fs path then Some (fs\<lparr>files := (files fs)(path \<mapsto> [])\<rparr>) else None)"

definition ofstream_close :: "filesys \<Rightarrow> string \<Rightarrow> string \<Rightarrow> filesys" where
  [cxx_defs]: "ofstream_close fs path buf = fs\<lparr>files := (files fs)(path \<mapsto> buf)\<rparr>"

lemma ofstream_open_close [simp]:
  "ofstream_open fs path = Some fs' \<Longrightarrow>
     ofstream_close fs' path buf = fs\<lparr>files := (files fs)(path \<mapsto> buf)\<rparr>"
  by (auto simp: ofstream_open_def ofstream_close_def split: if_splits)

lemma ofstream_open_None_iff [simp]:
  "ofstream_open fs path = None \<longleftrightarrow> \<not> writable fs path"
  by (simp add: ofstream_open_def)

end
