(* ===== verification/Serializer.thy ===== *)
theory Serializer
  imports School_Records Cxx_Stream
begin

text \<open>
  The decoder half of the line format: the bodies of the two inner loops of
  \<open>School::loadFromFile\<close>, which cut a line at its commas and convert the numeric
  fields with \<open>stoi\<close>. Together with the \<open>saveToFile\<close> methods of
  \<open>School_Records\<close> they form the serializer. The lemmas show that a written line
  decodes to the record it was written from when the text fields hold no comma, and
  what the decoder does with every other kind of line: which exception escapes, and
  which malformed lines are accepted.
\<close>

section \<open>Cutting a field\<close>

text \<open>
  The three statements \<open>pos = line.find(","); f = line.substr(0, pos);
  line.erase(0, pos + 1)\<close>. Without a comma \<open>pos\<close> is \<open>npos\<close>, the field is the
  whole line, and \<open>pos + 1\<close> wraps to 0, so nothing is erased.
\<close>

definition take_field :: "string \<Rightarrow> string \<times> string" where
  "take_field line =
     (let pos = find_char COMMA line
      in (substr0 line pos, erase0 line (pos_succ pos)))"

section \<open>A student line\<close>

function load_grades :: "nat \<Rightarrow> string \<Rightarrow> cint list \<Rightarrow> (cint list) result" where
  "load_grades i line gs =
     (if i < 4
      then (case stoi (fst (take_field line)) of
              Inl e \<Rightarrow> Inl e
            | Inr g \<Rightarrow> load_grades (Suc i) (snd (take_field line)) (gs[i := g]))
      else Inr gs)"
  by pat_completeness auto
termination
  by (relation "measure (\<lambda>(i, line, gs). 4 - i)") auto

declare load_grades.simps [simp del]

definition parse_student :: "string \<Rightarrow> Student result" where
  "parse_student line =
     (let (nm, l1) = take_field line;
          (idf, l2) = take_field l1
      in case stoi idf of
           Inl e \<Rightarrow> Inl e
         | Inr i \<Rightarrow>
             (let (cls, l3) = take_field l2
              in case load_grades 0 l3 (replicate 4 0) of
                   Inl e \<Rightarrow> Inl e
                 | Inr gs \<Rightarrow> Inr (Student_new nm i cls gs)))"

section \<open>A teacher line\<close>

definition parse_teacher :: "string \<Rightarrow> Teacher result" where
  "parse_teacher line =
     (let (nm, l1) = take_field line;
          (idf, l2) = take_field l1
      in case stoi idf of
           Inl e \<Rightarrow> Inl e
         | Inr i \<Rightarrow>
             (let (subj, l3) = take_field l2
              in Inr (Teacher_new nm i subj l3)))"

section \<open>Fields\<close>

lemma take_field_sep [simp]:
  "COMMA \<notin> set f \<Longrightarrow> take_field (f @ COMMA # rest) = (f, rest)"
  by (simp add: take_field_def erase0_def)

lemma take_field_last [simp]:
  "COMMA \<notin> set f \<Longrightarrow> take_field f = (f, f)"
  by (simp add: take_field_def)

lemma take_field_show_sep [simp]:
  "take_field (show_cint w @ COMMA # rest) = (show_cint w, rest)"
  "take_field (show_cint w) = (show_cint w, show_cint w)"
  by simp_all

lemma length_snd_take_field: "length (snd (take_field line)) \<le> length line"
  by (simp add: take_field_def Let_def length_erase0_le)

section \<open>Grades\<close>

lemma load_grades_done [simp]: "4 \<le> i \<Longrightarrow> load_grades i line gs = Inr gs"
  by (simp add: load_grades.simps [of i])

lemma load_grades_step:
  "i < 4 \<Longrightarrow> stoi (fst (take_field line)) = Inr g \<Longrightarrow>
     load_grades i line gs = load_grades (Suc i) (snd (take_field line)) (gs[i := g])"
  by (simp add: load_grades.simps [of i])

lemma load_grades_raise:
  "i < 4 \<Longrightarrow> stoi (fst (take_field line)) = Inl e \<Longrightarrow> load_grades i line gs = Inl e"
  by (simp add: load_grades.simps [of i])

lemma load_grades_four:
  "load_grades 0
     (show_cint a @ COMMA # show_cint b @ COMMA # show_cint c @ COMMA # show_cint d)
     (replicate 4 0) = Inr [a, b, c, d]"
  by (simp add: load_grades_step numeral_eq_Suc)

lemma load_grades_join:
  assumes "length gs = 4"
  shows "load_grades 0 (join_commas (map show_cint gs)) (replicate 4 0) = Inr gs"
proof -
  from assms obtain a b c d where "gs = [a, b, c, d]"
    by (auto simp: length_Suc_conv numeral_eq_Suc)
  then show ?thesis
    using load_grades_four [of a b c d] by simp
qed

lemma load_grades_length:
  "load_grades i line gs = Inr gs' \<Longrightarrow> length gs' = length gs"
proof (induction i line gs rule: load_grades.induct)
  case (1 i line gs)
  then show ?case
    by (subst (asm) (2) load_grades.simps) (auto split: if_splits sum.splits)
qed

section \<open>Round trip of one line\<close>

lemma parse_student_line:
  assumes "student_wf s" and "COMMA \<notin> set (name s)" and "COMMA \<notin> set (studentClass s)"
  shows "parse_student (Student_line s) = Inr s"
proof -
  from assms(1) have len: "length (grades s) = 4"
    by (simp add: student_wf_def)
  from assms(2,3) have
    "parse_student (Student_line s) =
       Inr (Student_new (name s) (idn s) (studentClass s) (grades s))"
    by (simp add: parse_student_def Student_line_def load_grades_join [OF len])
  with assms(1) show ?thesis
    by (simp add: student_wf_rebuild)
qed

lemma parse_teacher_line:
  assumes "COMMA \<notin> set (name t)" and "COMMA \<notin> set (subject t)"
  shows "parse_teacher (Teacher_line t) = Inr t"
  using assms by (simp add: parse_teacher_def Teacher_line_def Teacher_new_def)

section \<open>Lines that are not records\<close>

lemma parse_student_no_comma:
  assumes "COMMA \<notin> set line"
  shows "parse_student line =
     (case stoi line of
        Inl e \<Rightarrow> Inl e
      | Inr v \<Rightarrow> Inr (Student_new line v line [v, v, v, v]))"
  using assms
  by (auto simp: parse_student_def load_grades_step load_grades_raise numeral_eq_Suc
      split: sum.splits)

lemma parse_teacher_no_comma:
  assumes "COMMA \<notin> set line"
  shows "parse_teacher line =
     (case stoi line of
        Inl e \<Rightarrow> Inl e
      | Inr v \<Rightarrow> Inr (Teacher_new line v line line))"
  using assms by (auto simp: parse_teacher_def split: sum.splits)

lemma stoi_no_digit:
  "s \<noteq> [] \<Longrightarrow> \<not> isspace (hd s) \<Longrightarrow> hd s \<noteq> CHR ''-'' \<Longrightarrow> hd s \<noteq> CHR ''+'' \<Longrightarrow>
     \<not> isdigit (hd s) \<Longrightarrow> stoi s = Inl InvalidArgument"
  by (cases s) (simp_all add: stoi_def skip_sign_def)

lemma stoi_headers [simp]:
  "stoi ''Students'' = Inl InvalidArgument" "stoi ''Teachers'' = Inl InvalidArgument"
  by (simp_all add: stoi_no_digit isspace_def isdigit_def)

lemma parse_headers [simp]:
  "parse_student ''Teachers'' = Inl InvalidArgument"
  "parse_student ''Students'' = Inl InvalidArgument"
  "parse_teacher ''Teachers'' = Inl InvalidArgument"
  "parse_teacher ''Students'' = Inl InvalidArgument"
  by (simp_all add: parse_student_no_comma parse_teacher_no_comma)

section \<open>Properties of the line format\<close>

definition bob :: Teacher where
  "bob = Teacher_new ''Bob'' 7 ''Maths'' ''Professor''"

lemma bob_fields [simp]:
  "name bob = ''Bob''" "idn bob = 7" "subject bob = ''Maths''" "grade bob = ''Professor''"
  by (simp_all add: bob_def Teacher_new_def)

text \<open>
  C4. Round trip of a student line: when the name and the class of a well-formed
  student hold neither a comma nor a newline, the text \<open>Student::saveToFile\<close>
  writes is one line, and the student decoder of \<open>loadFromFile\<close> applied to that
  line returns the student, average included.
\<close>

theorem student_line_roundtrip:
  assumes "student_wf s"
    and "COMMA \<notin> set (name s)" and "NL \<notin> set (name s)"
    and "COMMA \<notin> set (studentClass s)" and "NL \<notin> set (studentClass s)"
  shows "map_option (\<lambda>(line, rest). (parse_student line, rest))
           (getline (Student_saveToFile s [])) = Some (Inr s, [])"
proof -
  from assms(3,5) have "NL \<notin> set (Student_line s)"
    by (rule Student_line_no_NL)
  then have "getline (Student_saveToFile s []) = Some (Student_line s, [])"
    by (simp add: Student_saveToFile_eq)
  with assms(1,2,4) show ?thesis
    by (simp add: parse_student_line)
qed

theorem student_line_roundtrip_witness:
  "map_option (\<lambda>(line, rest). (parse_student line, rest))
     (getline (Student_saveToFile alice [])) = Some (Inr alice, [])"
  using student_line_roundtrip [of alice] by simp

text \<open>
  C5. Round trip of a teacher line: when the name and the subject hold neither a
  comma nor a newline and the grade category holds no newline (it may hold commas),
  the text \<open>Teacher::saveToFile\<close> writes is one line and the teacher decoder
  returns the teacher from it.
\<close>

theorem teacher_line_roundtrip:
  assumes "COMMA \<notin> set (name t)" and "NL \<notin> set (name t)"
    and "COMMA \<notin> set (subject t)" and "NL \<notin> set (subject t)"
    and "NL \<notin> set (grade t)"
  shows "map_option (\<lambda>(line, rest). (parse_teacher line, rest))
           (getline (Teacher_saveToFile t [])) = Some (Inr t, [])"
proof -
  from assms(2,4,5) have "NL \<notin> set (Teacher_line t)"
    by (rule Teacher_line_no_NL)
  then have "getline (Teacher_saveToFile t []) = Some (Teacher_line t, [])"
    by (simp add: Teacher_saveToFile_eq)
  with assms(1,3) show ?thesis
    by (simp add: parse_teacher_line)
qed

theorem teacher_line_roundtrip_witness:
  "map_option (\<lambda>(line, rest). (parse_teacher line, rest))
     (getline (Teacher_saveToFile bob [])) = Some (Inr bob, [])"
  using teacher_line_roundtrip [of bob] by simp

text \<open>
  C15. A student line with fewer than four grades is not rejected: after the last
  comma nothing is erased from the line, so the last grade present is read again
  for every missing one. With a single grade \<open>g\<close> the decoded student has the
  grades \<open>g, g, g, g\<close>.
\<close>

theorem parse_student_short_line:
  assumes "COMMA \<notin> set nm" and "COMMA \<notin> set cls"
  shows "parse_student (nm @ COMMA # show_cint i @ COMMA # cls @ COMMA # show_cint g) =
     Inr (Student_new nm i cls [g, g, g, g])"
  using assms by (simp add: parse_student_def load_grades_step numeral_eq_Suc)

theorem parse_student_short_line_witness:
  "parse_student (''Al'' @ COMMA # show_cint 1 @ COMMA # ''10A'' @ COMMA # show_cint 5) =
     Inr (Student_new ''Al'' 1 ''10A'' [5, 5, 5, 5])"
  using parse_student_short_line [of "''Al''" "''10A''" 1 5] by simp

text \<open>
  C16. A student line whose id field is not a number raises the exception of
  \<open>stoi\<close>: the decoder returns no student and reports no parse error of its
  own, whatever follows the id on the line.
\<close>

theorem parse_student_bad_id:
  assumes "COMMA \<notin> set nm" and "COMMA \<notin> set idf" and "stoi idf = Inl e"
  shows "parse_student (nm @ COMMA # idf @ COMMA # rest) = Inl e"
  using assms by (simp add: parse_student_def)

theorem parse_student_bad_id_witness:
  "parse_student (''Al'' @ COMMA # ''x1'' @ COMMA # ''10A,1,2,3,4'') = Inl InvalidArgument"
proof -
  have "stoi ''x1'' = Inl InvalidArgument"
    by (simp add: stoi_no_digit isspace_def isdigit_def)
  then show ?thesis
    using parse_student_bad_id [of "''Al''" "''x1''" InvalidArgument "''10A,1,2,3,4''"]
    by simp
qed

end
