(* ===== verification/Persistence.thy ===== *)
theory Persistence
  imports Serializer Cxx_Stream
begin

text \<open>
  The state of the program and its two persistence methods: the \<open>School\<close> object
  (two vectors and a path), the world it runs in (the file system and the console
  output), \<open>School::saveToFile\<close> and \<open>School::loadFromFile\<close>. The vectors hold
  pointers to heap objects that the school owns exclusively and never shares, so
  they are modelled as lists of record values. The nested loops of the loader are
  functions on the unread text; a flat state machine over the lines of the text is
  given beside them and proved to compute the same school.
\<close>

section \<open>State\<close>

record School =
  students :: "Student list"
  teachers :: "Teacher list"
  filePath :: string

record world =
  school :: School
  disk :: filesys
  cout :: string

definition println :: "string \<Rightarrow> world \<Rightarrow> world" where
  "println msg w = w\<lparr>cout := cout w @ msg @ [NL]\<rparr>"

section \<open>saveToFile\<close>

definition save_students :: "Student list \<Rightarrow> string \<Rightarrow> string" where
  "save_students sts buf = foldl (\<lambda>b s. Student_saveToFile s b) buf sts"

definition save_teachers :: "Teacher list \<Rightarrow> string \<Rightarrow> string" where
  "save_teachers tts buf = foldl (\<lambda>b t. Teacher_saveToFile t b) buf tts"

definition save_text :: "School \<Rightarrow> string" where
  "save_text sch =
     save_teachers (teachers sch)
       (save_students (students sch) (''Students'' @ [NL]) @ ''Teachers'' @ [NL])"

definition saveToFile :: "world \<Rightarrow> world" where
  "saveToFile w =
     (case ofstream_open (disk w) (filePath (school w)) of
        None \<Rightarrow> println ''Error opening file for saving!'' w
      | Some fs \<Rightarrow> w\<lparr>disk := ofstream_close fs (filePath (school w)) (save_text (school w))\<rparr>)"

section \<open>loadFromFile\<close>

text \<open>
  The two inner loops differ only in the decoder and the vector they append to:
  \<open>load_section\<close> is the loop, returning the text left unread after it, and
  \<open>load_students\<close> and \<open>load_teachers\<close> are its two instances. An exception
  of the decoder leaves the loop and the method.
\<close>

function load_section ::
  "(string \<Rightarrow> 'a result) \<Rightarrow> string \<Rightarrow> 'a list \<Rightarrow> (string \<times> 'a list) result" where
  "load_section parse inp acc =
     (case getline inp of
        None \<Rightarrow> Inr (inp, acc)
      | Some (line, rest) \<Rightarrow>
          if line = [] then Inr (rest, acc)
          else (case parse line of
                  Inl e \<Rightarrow> Inl e
                | Inr x \<Rightarrow> load_section parse rest (acc @ [x])))"
  by pat_completeness auto
termination
  by (relation "measure (\<lambda>(parse, inp, acc). length inp)") (auto dest: getline_shorter)

declare load_section.simps [simp del]

definition load_students :: "string \<Rightarrow> Student list \<Rightarrow> (string \<times> Student list) result" where
  "load_students = load_section parse_student"

definition load_teachers :: "string \<Rightarrow> Teacher list \<Rightarrow> (string \<times> Teacher list) result" where
  "load_teachers = load_section parse_teacher"

lemma load_section_shorter:
  "load_section parse inp acc = Inr (rest, acc') \<Longrightarrow> length rest \<le> length inp"
proof (induction parse inp acc rule: load_section.induct)
  case (1 parse inp acc)
  show ?case
  proof (cases "getline inp")
    case None
    with "1.prems" show ?thesis
      by (simp add: load_section.simps [of parse inp])
  next
    case (Some lr)
    obtain line r where lr: "lr = (line, r)" by (cases lr)
    from Some lr have less: "length r < length inp"
      by (auto dest: getline_shorter)
    show ?thesis
    proof (cases "line = []")
      case True
      with Some lr "1.prems" less show ?thesis
        by (simp add: load_section.simps [of parse inp])
    next
      case False
      with Some lr "1.prems" obtain x where x: "parse line = Inr x"
        and "load_section parse r (acc @ [x]) = Inr (rest, acc')"
        by (auto simp: load_section.simps [of parse inp] split: sum.splits)
      with "1.IH" [OF Some lr [symmetric] False x] less show ?thesis
        by simp
    qed
  qed
qed

function load_loop :: "string \<Rightarrow> School \<Rightarrow> School result" where
  "load_loop inp sch =
     (case getline inp of
        None \<Rightarrow> Inr sch
      | Some (type, rest) \<Rightarrow>
          if type = ''Students'' then
            (case load_students rest (students sch) of
               Inl e \<Rightarrow> Inl e
             | Inr (rest', sts) \<Rightarrow> load_loop rest' (sch\<lparr>students := sts\<rparr>))
          else if type = ''Teachers'' then
            (case load_teachers rest (teachers sch) of
               Inl e \<Rightarrow> Inl e
             | Inr (rest', tts) \<Rightarrow> load_loop rest' (sch\<lparr>teachers := tts\<rparr>))
          else load_loop rest sch)"
  by pat_completeness auto
termination
proof (relation "measure (\<lambda>(inp, sch). length inp)")
  show "wf (measure (\<lambda>(inp, sch). length inp))" by simp
next
  fix inp :: string and sch :: School and lr type rest sr rest' sts
  assume "getline inp = Some lr" "(type, rest) = lr"
    "load_students rest (students sch) = Inr sr" "(rest', sts) = sr"
  then show "((rest', sch\<lparr>students := sts\<rparr>), inp, sch) \<in> measure (\<lambda>(inp, sch). length inp)"
    using load_section_shorter [of parse_student rest "students sch" rest' sts]
    by (auto simp: load_students_def dest: getline_shorter)
next
  fix inp :: string and sch :: School and lr type rest sr rest' tts
  assume "getline inp = Some lr" "(type, rest) = lr"
    "load_teachers rest (teachers sch) = Inr sr" "(rest', tts) = sr"
  then show "((rest', sch\<lparr>teachers := tts\<rparr>), inp, sch) \<in> measure (\<lambda>(inp, sch). length inp)"
    using load_section_shorter [of parse_teacher rest "teachers sch" rest' tts]
    by (auto simp: load_teachers_def dest: getline_shorter)
next
  fix inp :: string and sch :: School and lr type rest
  assume "getline inp = Some lr" "(type, rest) = lr"
  then show "((rest, sch), inp, sch) \<in> measure (\<lambda>(inp, sch). length inp)"
    by (auto dest: getline_shorter)
qed

declare load_loop.simps [simp del]

definition load_path :: string where
  "load_path = ''school_DataBase.txt''"

definition loadFromFile :: "world \<Rightarrow> world result" where
  "loadFromFile w =
     (case ifstream_open (disk w) load_path of
        None \<Rightarrow> Inr (println ''No existing data found. Starting fresh.'' w)
      | Some inp \<Rightarrow>
          (case load_loop inp (school w) of
             Inl e \<Rightarrow> Inl e
           | Inr sch \<Rightarrow>
               Inr (println ''Data loaded from file successfully!'' (w\<lparr>school := sch\<rparr>))))"

section \<open>What saveToFile writes\<close>

definition unlines :: "string list \<Rightarrow> string" where
  "unlines ls = concat (map (\<lambda>l. l @ [NL]) ls)"

definition students_text :: "Student list \<Rightarrow> string" where
  "students_text sts = unlines (map Student_line sts)"

definition teachers_text :: "Teacher list \<Rightarrow> string" where
  "teachers_text tts = unlines (map Teacher_line tts)"

lemma unlines_simps [simp]:
  "unlines [] = []" "unlines (l # ls) = l @ NL # unlines ls"
  "unlines (ls @ ls') = unlines ls @ unlines ls'"
  by (simp_all add: unlines_def)

lemma save_students_eq: "save_students sts buf = buf @ students_text sts"
  unfolding save_students_def students_text_def
  by (induction sts arbitrary: buf) (simp_all add: Student_saveToFile_eq)

lemma save_teachers_eq: "save_teachers tts buf = buf @ teachers_text tts"
  unfolding save_teachers_def teachers_text_def
  by (induction tts arbitrary: buf) (simp_all add: Teacher_saveToFile_eq)

lemma save_text_eq:
  "save_text sch =
     ''Students'' @ NL # students_text (students sch) @
     ''Teachers'' @ NL # teachers_text (teachers sch)"
  by (simp add: save_text_def save_students_eq save_teachers_eq)

lemma saveToFile_writable:
  "writable (disk w) (filePath (school w)) \<Longrightarrow>
     saveToFile w =
       w\<lparr>disk := (disk w)\<lparr>files := (files (disk w))(filePath (school w) \<mapsto> save_text (school w))\<rparr>\<rparr>"
  by (simp add: saveToFile_def ofstream_open_def ofstream_close_def)

lemma saveToFile_not_writable:
  "\<not> writable (disk w) (filePath (school w)) \<Longrightarrow>
     saveToFile w = println ''Error opening file for saving!'' w"
  by (simp add: saveToFile_def ofstream_open_def)

lemma saveToFile_school [simp]: "school (saveToFile w) = school w"
  by (simp add: saveToFile_def println_def split: option.splits)

lemma println_frame [simp]:
  "school (println msg w) = school w" "disk (println msg w) = disk w"
  "cout (println msg w) = cout w @ msg @ [NL]"
  by (simp_all add: println_def)

section \<open>Records that survive the file\<close>

text \<open>
  A record can be written and read back when its text fields hold neither a comma nor
  a newline; the last field of a teacher line is the rest of the line and may hold
  commas.
\<close>

definition clean :: "string \<Rightarrow> bool" where
  "clean f \<longleftrightarrow> COMMA \<notin> set f \<and> NL \<notin> set f"

definition student_storable :: "Student \<Rightarrow> bool" where
  "student_storable s \<longleftrightarrow> student_wf s \<and> clean (name s) \<and> clean (studentClass s)"

definition teacher_storable :: "Teacher \<Rightarrow> bool" where
  "teacher_storable t \<longleftrightarrow> clean (name t) \<and> clean (subject t) \<and> NL \<notin> set (grade t)"

lemmas storable_defs = student_storable_def teacher_storable_def clean_def

lemma student_storable_line:
  assumes "student_storable s"
  shows "parse_student (Student_line s) = Inr s" and "NL \<notin> set (Student_line s)"
  using assms by (simp_all add: storable_defs parse_student_line Student_line_no_NL)

lemma teacher_storable_line:
  assumes "teacher_storable t"
  shows "parse_teacher (Teacher_line t) = Inr t" and "NL \<notin> set (Teacher_line t)"
  using assms by (simp_all add: storable_defs parse_teacher_line Teacher_line_no_NL)

section \<open>The inner loop\<close>

lemma load_section_eof [simp]: "load_section parse [] acc = Inr ([], acc)"
  by (simp add: load_section.simps [of parse "[]"])

lemma load_section_blank [simp]: "load_section parse (NL # rest) acc = Inr (rest, acc)"
  using getline_line [of "[]" rest]
  by (simp add: load_section.simps [of parse "NL # rest"])

lemma load_section_line:
  assumes "NL \<notin> set l" and "l \<noteq> []"
  shows "load_section parse (l @ NL # rest) acc =
     (case parse l of Inl e \<Rightarrow> Inl e | Inr x \<Rightarrow> load_section parse rest (acc @ [x]))"
  using assms by (simp add: load_section.simps [of parse "l @ NL # rest"])

lemma load_section_last_line:
  assumes "NL \<notin> set l" and "l \<noteq> []"
  shows "load_section parse l acc =
     (case parse l of Inl e \<Rightarrow> Inl e | Inr x \<Rightarrow> Inr ([], acc @ [x]))"
  using assms by (simp add: load_section.simps [of parse l] getline_last split: sum.splits)

lemma load_section_records:
  assumes "\<forall>x \<in> set xs. parse (enc x) = Inr x \<and> NL \<notin> set (enc x) \<and> enc x \<noteq> []"
  shows "load_section parse (unlines (map enc xs) @ rest) acc =
     load_section parse rest (acc @ xs)"
  using assms by (induction xs arbitrary: acc) (simp_all add: load_section_line)

lemma load_students_text:
  "\<forall>s \<in> set sts. student_storable s \<Longrightarrow>
     load_students (students_text sts @ rest) acc = load_students rest (acc @ sts)"
  unfolding load_students_def students_text_def
  by (rule load_section_records) (simp add: student_storable_line)

lemma load_teachers_text:
  "\<forall>t \<in> set tts. teacher_storable t \<Longrightarrow>
     load_teachers (teachers_text tts @ rest) acc = load_teachers rest (acc @ tts)"
  unfolding load_teachers_def teachers_text_def
  by (rule load_section_records) (simp add: teacher_storable_line)

lemma load_students_header:
  "load_students (''Teachers'' @ NL # rest) acc = Inl InvalidArgument"
  using load_section_line [of "''Teachers''" parse_student rest acc]
  by (simp add: load_students_def)

section \<open>The outer loop\<close>

lemma load_loop_eof [simp]: "load_loop [] sch = Inr sch"
  by (simp add: load_loop.simps [of "[]"])

lemma load_loop_line:
  assumes "NL \<notin> set l"
  shows "load_loop (l @ NL # rest) sch =
     (if l = ''Students'' then
        (case load_students rest (students sch) of
           Inl e \<Rightarrow> Inl e
         | Inr (rest', sts) \<Rightarrow> load_loop rest' (sch\<lparr>students := sts\<rparr>))
      else if l = ''Teachers'' then
        (case load_teachers rest (teachers sch) of
           Inl e \<Rightarrow> Inl e
         | Inr (rest', tts) \<Rightarrow> load_loop rest' (sch\<lparr>teachers := tts\<rparr>))
      else load_loop rest sch)"
  using assms by (simp add: load_loop.simps [of "l @ NL # rest"])

lemma load_loop_Students:
  "load_loop (''Students'' @ NL # rest) sch =
     (case load_students rest (students sch) of
        Inl e \<Rightarrow> Inl e
      | Inr (rest', sts) \<Rightarrow> load_loop rest' (sch\<lparr>students := sts\<rparr>))"
  using load_loop_line [of "''Students''" rest sch] by simp

lemma load_loop_Teachers:
  "load_loop (''Teachers'' @ NL # rest) sch =
     (case load_teachers rest (teachers sch) of
        Inl e \<Rightarrow> Inl e
      | Inr (rest', tts) \<Rightarrow> load_loop rest' (sch\<lparr>teachers := tts\<rparr>))"
  using load_loop_line [of "''Teachers''" rest sch] by simp

lemma load_loop_saved:
  assumes "\<forall>s \<in> set (students sch). student_storable s"
  shows "load_loop (save_text sch) sch0 = Inl InvalidArgument"
proof -
  have "load_students
      (students_text (students sch) @ ''Teachers'' @ NL # teachers_text (teachers sch))
      (students sch0) = Inl InvalidArgument"
    using assms by (simp only: load_students_text load_students_header)
  then show ?thesis
    by (simp only: save_text_eq load_loop_Students sum.case)
qed

lemma load_loop_separated:
  assumes "\<forall>s \<in> set sts. student_storable s" and "\<forall>t \<in> set tts. teacher_storable t"
  shows "load_loop
      (''Students'' @ NL # students_text sts @ NL # ''Teachers'' @ NL # teachers_text tts) sch =
     Inr (sch\<lparr>students := students sch @ sts, teachers := teachers sch @ tts\<rparr>)"
proof -
  have s: "load_students (students_text sts @ NL # rest) (students sch) =
      Inr (rest, students sch @ sts)" for rest
    using assms(1) by (simp only: load_students_text) (simp add: load_students_def)
  have t: "load_teachers (teachers_text tts) acc = Inr ([], acc @ tts)" for acc
    using assms(2) load_teachers_text [of tts "[]" acc] by (simp add: load_teachers_def)
  show ?thesis
    by (simp only: load_loop_Students s sum.case prod.case load_loop_Teachers)
      (simp add: t)
qed

section \<open>The loader as a state machine\<close>

text \<open>
  The same loader, one line at a time: the mode says which loop of
  \<open>loadFromFile\<close> the control is in. Outside a section a header line enters the
  section and every other line is skipped; inside a section an empty line leaves it
  and every other line, the header of the other section included, is decoded as a
  record of the section.
\<close>

datatype mode = NONE | STUDENTS | TEACHERS

fun load_step :: "mode \<times> School \<Rightarrow> string \<Rightarrow> (mode \<times> School) result" where
  "load_step (NONE, sch) line =
     Inr (if line = ''Students'' then STUDENTS
          else if line = ''Teachers'' then TEACHERS else NONE, sch)"
| "load_step (STUDENTS, sch) line =
     (if line = [] then Inr (NONE, sch)
      else case parse_student line of
             Inl e \<Rightarrow> Inl e
           | Inr s \<Rightarrow> Inr (STUDENTS, sch\<lparr>students := students sch @ [s]\<rparr>))"
| "load_step (TEACHERS, sch) line =
     (if line = [] then Inr (NONE, sch)
      else case parse_teacher line of
             Inl e \<Rightarrow> Inl e
           | Inr t \<Rightarrow> Inr (TEACHERS, sch\<lparr>teachers := teachers sch @ [t]\<rparr>))"

fun load_run :: "mode \<times> School \<Rightarrow> string list \<Rightarrow> (mode \<times> School) result" where
  "load_run st [] = Inr st"
| "load_run st (l # ls) =
     (case load_step st l of Inl e \<Rightarrow> Inl e | Inr st' \<Rightarrow> load_run st' ls)"

definition loaded :: "(mode \<times> School) result \<Rightarrow> School result" where
  "loaded r = map_sum id snd r"

definition load_machine :: "string \<Rightarrow> School \<Rightarrow> School result" where
  "load_machine inp sch = loaded (load_run (NONE, sch) (lines_of inp))"

lemma loaded_simps [simp]: "loaded (Inl e) = Inl e" "loaded (Inr (m, sch)) = Inr sch"
  by (simp_all add: loaded_def)

lemma load_run_section:
  assumes step: "\<And>sch line. line \<noteq> [] \<Longrightarrow>
      load_step (m, sch) line =
        (case parse line of Inl e \<Rightarrow> Inl e | Inr x \<Rightarrow> Inr (m, put (get sch @ [x]) sch))"
    and blank: "\<And>sch. load_step (m, sch) [] = Inr (NONE, sch)"
    and get_put: "\<And>xs sch. get (put xs sch) = xs"
    and put_put: "\<And>xs ys sch. put xs (put ys sch) = put xs sch"
    and put_get: "\<And>sch. put (get sch) sch = sch"
    and acc: "acc = get sch"
  shows "loaded (load_run (m, sch) (lines_of inp)) =
     (case load_section parse inp acc of
        Inl e \<Rightarrow> Inl e
      | Inr (rest, xs) \<Rightarrow> loaded (load_run (NONE, put xs sch) (lines_of rest)))"
  using acc
proof (induction inp arbitrary: sch acc rule: length_induct)
  case (1 inp)
  show ?case
  proof (cases "getline inp")
    case None
    then show ?thesis
      by (simp add: "1.prems" put_get)
  next
    case (Some lr)
    obtain line rest where lr: "lr = (line, rest)" by (cases lr)
    with Some have ls: "lines_of inp = line # lines_of rest"
      and less: "length rest < length inp"
      and sec: "load_section parse inp acc =
        (if line = [] then Inr (rest, acc)
         else case parse line of
                Inl e \<Rightarrow> Inl e
              | Inr x \<Rightarrow> load_section parse rest (acc @ [x]))"
      by (simp_all add: lines_of_getline getline_shorter load_section.simps [of parse inp])
    show ?thesis
    proof (cases "line = []")
      case True
      with ls sec show ?thesis
        by (simp add: blank "1.prems" put_get)
    next
      case False
      show ?thesis
      proof (cases "parse line")
        case (Inl e)
        with False ls sec show ?thesis
          by (simp add: step)
      next
        case (Inr x)
        have "acc @ [x] = get (put (get sch @ [x]) sch)"
          by (simp add: get_put "1.prems")
        from "1.IH" [rule_format, OF less this] Inr False ls sec show ?thesis
          by (simp add: step put_put cong: sum.case_cong)
      qed
    qed
  qed
qed

lemma load_run_students:
  "loaded (load_run (STUDENTS, sch) (lines_of inp)) =
     (case load_students inp (students sch) of
        Inl e \<Rightarrow> Inl e
      | Inr (rest, sts) \<Rightarrow> loaded (load_run (NONE, sch\<lparr>students := sts\<rparr>) (lines_of rest)))"
  unfolding load_students_def
  by (rule load_run_section [where get = students and put = "\<lambda>xs sch. sch\<lparr>students := xs\<rparr>"])
    simp_all

lemma load_run_teachers:
  "loaded (load_run (TEACHERS, sch) (lines_of inp)) =
     (case load_teachers inp (teachers sch) of
        Inl e \<Rightarrow> Inl e
      | Inr (rest, tts) \<Rightarrow> loaded (load_run (NONE, sch\<lparr>teachers := tts\<rparr>) (lines_of rest)))"
  unfolding load_teachers_def
  by (rule load_run_section [where get = teachers and put = "\<lambda>xs sch. sch\<lparr>teachers := xs\<rparr>"])
    simp_all

section \<open>Properties of saving and loading\<close>

definition disk0 :: filesys where
  "disk0 = \<lparr>files = Map.empty, writable = (\<lambda>p. True)\<rparr>"

definition school0 :: School where
  "school0 = \<lparr>students = [alice], teachers = [bob], filePath = ''db.txt''\<rparr>"

definition world0 :: world where
  "world0 = \<lparr>school = school0, disk = disk0, cout = []\<rparr>"

lemmas world0_defs = world0_def school0_def disk0_def

lemma show_cint_small [simp]:
  "show_cint 1 = ''1''" "show_cint 7 = ''7''" "show_cint 8 = ''8''" "show_cint 9 = ''9''"
  "show_cint 12 = ''12''" "show_cint 15 = ''15''"
  by (simp_all add: show_cint_def show_int_def show_nat.simps digit_char_def)

lemma lines_alice_bob [simp]:
  "Student_line alice = ''Alice,1,10A,12,8,15,9''" "Teacher_line bob = ''Bob,7,Maths,Professor''"
  by (simp_all add: Student_line_def Teacher_line_def)

text \<open>
  C14. The nested loops of \<open>loadFromFile\<close> compute what the three-mode state
  machine computes when it is run over the lines of the text: the same school when
  the load succeeds and the same exception when it does not.
\<close>

theorem load_machine_equiv: "load_loop inp sch = load_machine inp sch"
  unfolding load_machine_def
proof (induction inp sch rule: load_loop.induct)
  case (1 inp sch)
  show ?case
  proof (cases "getline inp")
    case None
    then show ?thesis by simp
  next
    case (Some lr)
    obtain type rest where lr: "lr = (type, rest)" by (cases lr)
    with Some have ls: "lines_of inp = type # lines_of rest"
      by (simp add: lines_of_getline)
    note unfold = load_loop.simps [of inp sch] Some lr ls
    consider (students) "type = ''Students''"
      | (teachers) "type \<noteq> ''Students''" "type = ''Teachers''"
      | (other) "type \<noteq> ''Students''" "type \<noteq> ''Teachers''"
      by blast
    then show ?thesis
    proof cases
      case students
      with "1.IH"(1) [OF Some lr [symmetric]] show ?thesis
        by (auto simp: unfold load_run_students split: sum.splits)
    next
      case teachers
      with "1.IH"(2) [OF Some lr [symmetric]] show ?thesis
        by (auto simp: unfold load_run_teachers split: sum.splits)
    next
      case other
      with "1.IH"(3) [OF Some lr [symmetric]] show ?thesis
        by (simp add: unfold)
    qed
  qed
qed

text \<open>
  C12. When the path of the school can be opened for writing, \<open>saveToFile\<close>
  replaces the content of that file by the line "Students", one line per student in
  the order of the vector, the line "Teachers" and one line per teacher in order; it
  touches no other file and prints nothing.
\<close>

theorem saveToFile_content:
  assumes "writable (disk w) (filePath (school w))"
  shows "files (disk (saveToFile w)) (filePath (school w)) =
       Some (''Students'' @ NL # unlines (map Student_line (students (school w))) @
             ''Teachers'' @ NL # unlines (map Teacher_line (teachers (school w)))) \<and>
     (\<forall>p. p \<noteq> filePath (school w) \<longrightarrow> files (disk (saveToFile w)) p = files (disk w) p) \<and>
     cout (saveToFile w) = cout w"
  using assms
  by (simp add: saveToFile_writable save_text_eq students_text_def teachers_text_def)

theorem saveToFile_content_witness:
  "files (disk (saveToFile world0)) ''db.txt'' =
     Some (''Students'' @ [NL] @ ''Alice,1,10A,12,8,15,9'' @ [NL] @
           ''Teachers'' @ [NL] @ ''Bob,7,Maths,Professor'' @ [NL])"
  using saveToFile_content [of world0] by (simp add: world0_defs)

text \<open>
  When the path of the school cannot be opened for writing, \<open>saveToFile\<close>
  prints "Error opening file for saving!" and changes neither the file system nor the
  school.
\<close>

theorem saveToFile_failure:
  assumes "\<not> writable (disk w) (filePath (school w))"
  shows "saveToFile w = w\<lparr>cout := cout w @ ''Error opening file for saving!'' @ [NL]\<rparr>"
  using assms by (simp add: saveToFile_not_writable println_def)

theorem saveToFile_failure_witness:
  "saveToFile (world0\<lparr>disk := disk0\<lparr>writable := (\<lambda>p. False)\<rparr>\<rparr>) =
     world0\<lparr>disk := disk0\<lparr>writable := (\<lambda>p. False)\<rparr>,
            cout := ''Error opening file for saving!'' @ [NL]\<rparr>"
  using saveToFile_failure [of "world0\<lparr>disk := disk0\<lparr>writable := (\<lambda>p. False)\<rparr>\<rparr>"]
  by (simp add: world0_def)

text \<open>
  C17. When no file exists at the path the loader reads, \<open>loadFromFile\<close> raises
  nothing, prints "No existing data found. Starting fresh." and leaves the school as
  it is.
\<close>

theorem loadFromFile_missing:
  assumes "files (disk w) load_path = None"
  shows "loadFromFile w =
     Inr (w\<lparr>cout := cout w @ ''No existing data found. Starting fresh.'' @ [NL]\<rparr>)"
  using assms by (simp add: loadFromFile_def ifstream_open_def println_def)

theorem loadFromFile_missing_witness:
  "loadFromFile world0 =
     Inr (world0\<lparr>cout := ''No existing data found. Starting fresh.'' @ [NL]\<rparr>)"
  using loadFromFile_missing [of world0] by (simp add: world0_defs)

text \<open>
  C18. One student line that does not decode ends the whole load with the exception
  of the decoder: the students read before it are lost with the run and the lines
  after it are never read, whatever they hold.
\<close>

theorem load_malformed_aborts:
  assumes "\<forall>s \<in> set sts. student_storable s"
    and "NL \<notin> set bad" and "bad \<noteq> []" and "parse_student bad = Inl e"
  shows "load_loop (''Students'' @ NL # students_text sts @ bad @ NL # rest) sch = Inl e"
proof -
  have "load_students (students_text sts @ bad @ NL # rest) (students sch) = Inl e"
    using assms by (simp add: load_students_text) (simp add: load_students_def load_section_line)
  then show ?thesis
    by (simp only: load_loop_Students sum.case)
qed

theorem load_malformed_aborts_witness:
  "load_loop (''Students'' @ NL # students_text [alice] @ ''Eve,x,10A,1,2,3,4'' @ NL #
      ''Al,2,10B,1,2,3,4'' @ [NL]) school0 = Inl InvalidArgument"
proof -
  have "parse_student ''Eve,x,10A,1,2,3,4'' = Inl InvalidArgument"
    using take_field_sep [of "''Eve''" "''x,10A,1,2,3,4''"] take_field_sep [of "''x''" "''10A,1,2,3,4''"]
    by (simp add: parse_student_def stoi_no_digit isspace_def isdigit_def)
  then show ?thesis
    by (intro load_malformed_aborts) (simp_all add: storable_defs)
qed

end
