(* ===== verification/Store.thy ===== *)
theory Store
  imports Persistence
begin

text \<open>
  The in-memory store: the constructor of \<open>School\<close> and the four mutating
  methods, each taking the field values that the interactive part of the method
  reads from the console. Every mutation ends with a full rewrite of the data
  file. The commands are collected in a datatype with one step function, over
  which the invariant of the store is proved.
\<close>

section \<open>Construction\<close>

abbreviation BS :: char where "BS \<equiv> CHR 0x5C"

definition default_filePath :: string where
  "default_filePath =
     ''C:'' @ [BS] @ ''Users'' @ [BS] @ ''Mediatek'' @ [BS] @ ''Documents'' @ [BS] @
     ''C++'' @ [BS] @ ''proj_school-mang_syst1'' @ [BS] @ ''school_DataBase.txt''"

definition School_init :: School where
  "School_init = \<lparr>students = [], teachers = [], filePath = default_filePath\<rparr>"

definition School_new :: "filesys \<Rightarrow> string \<Rightarrow> world result" where
  "School_new fs out = loadFromFile \<lparr>school = School_init, disk = fs, cout = out\<rparr>"

section \<open>Adding\<close>

definition push_student :: "Student \<Rightarrow> world \<Rightarrow> world" where
  "push_student s w = w\<lparr>school := (school w)\<lparr>students := students (school w) @ [s]\<rparr>\<rparr>"

definition push_teacher :: "Teacher \<Rightarrow> world \<Rightarrow> world" where
  "push_teacher t w = w\<lparr>school := (school w)\<lparr>teachers := teachers (school w) @ [t]\<rparr>\<rparr>"

definition addStudent :: "string \<Rightarrow> cint \<Rightarrow> string \<Rightarrow> cint list \<Rightarrow> world \<Rightarrow> world" where
  "addStudent n i c gs w =
     saveToFile (println ''Student added successfully!'' (push_student (Student_new n i c gs) w))"

definition addTeacher :: "string \<Rightarrow> cint \<Rightarrow> string \<Rightarrow> string \<Rightarrow> world \<Rightarrow> world" where
  "addTeacher n i s g w =
     saveToFile (println ''Teacher added successfully!'' (push_teacher (Teacher_new n i s g) w))"

section \<open>Deleting\<close>

text \<open>
  The iterator loop of the two delete methods: walk the vector from the front, erase
  the first element whose id matches and stop; \<open>None\<close> when the end is reached
  without a match. The freed object is not part of the value model.
\<close>

fun erase_by_id :: "cint \<Rightarrow> 'a Person_scheme list \<Rightarrow> 'a Person_scheme list option" where
  "erase_by_id i [] = None"
| "erase_by_id i (p # ps) =
     (if getId p = i then Some ps else map_option ((#) p) (erase_by_id i ps))"

definition deleteStudent :: "cint \<Rightarrow> world \<Rightarrow> world" where
  "deleteStudent i w =
     (case erase_by_id i (students (school w)) of
        None \<Rightarrow> println ''Student not found!'' w
      | Some sts \<Rightarrow>
          saveToFile (println ''Student deleted successfully!''
            (w\<lparr>school := (school w)\<lparr>students := sts\<rparr>\<rparr>)))"

definition deleteTeacher :: "cint \<Rightarrow> world \<Rightarrow> world" where
  "deleteTeacher i w =
     (case erase_by_id i (teachers (school w)) of
        None \<Rightarrow> println ''Teacher not found!'' w
      | Some tts \<Rightarrow>
          saveToFile (println ''Teacher deleted successfully!''
            (w\<lparr>school := (school w)\<lparr>teachers := tts\<rparr>\<rparr>)))"

section \<open>Commands\<close>

text \<open>
  The mutating requests the interactive shell can make, with the values it has read,
  and their execution. A student is always entered with four grades.
\<close>

datatype command =
    AddStudent string cint string cint cint cint cint
  | AddTeacher string cint string string
  | DeleteStudent cint
  | DeleteTeacher cint

fun exec :: "command \<Rightarrow> world \<Rightarrow> world" where
  "exec (AddStudent n i c g0 g1 g2 g3) w = addStudent n i c [g0, g1, g2, g3] w"
| "exec (AddTeacher n i s g) w = addTeacher n i s g w"
| "exec (DeleteStudent i) w = deleteStudent i w"
| "exec (DeleteTeacher i) w = deleteTeacher i w"

fun run :: "command list \<Rightarrow> world \<Rightarrow> world" where
  "run [] w = w"
| "run (c # cs) w = run cs (exec c w)"

section \<open>Invariant\<close>

definition school_wf :: "School \<Rightarrow> bool" where
  "school_wf sch \<longleftrightarrow> (\<forall>s \<in> set (students sch). student_wf s)"

definition on_disk :: "world \<Rightarrow> string option" where
  "on_disk w = files (disk w) (filePath (school w))"

section \<open>erase_by_id\<close>

lemma erase_by_id_None_iff:
  "erase_by_id i ps = None \<longleftrightarrow> (\<forall>p \<in> set ps. idn p \<noteq> i)"
  by (induction ps) (auto simp: getId_def)

lemma erase_by_id_first:
  "\<forall>x \<in> set xs. idn x \<noteq> i \<Longrightarrow> idn p = i \<Longrightarrow>
     erase_by_id i (xs @ p # ys) = Some (xs @ ys)"
  by (induction xs) (auto simp: getId_def)

lemma erase_by_id_SomeD:
  "erase_by_id i ps = Some qs \<Longrightarrow>
     \<exists>xs p ys. ps = xs @ p # ys \<and> idn p = i \<and> (\<forall>x \<in> set xs. idn x \<noteq> i) \<and> qs = xs @ ys"
proof (induction ps arbitrary: qs)
  case Nil
  then show ?case by simp
next
  case (Cons a ps)
  show ?case
  proof (cases "idn a = i")
    case True
    with Cons.prems have "a # ps = [] @ a # ps \<and> idn a = i \<and> qs = [] @ ps"
      by (simp add: getId_def)
    then show ?thesis by fastforce
  next
    case False
    with Cons.prems obtain rs where rs: "erase_by_id i ps = Some rs" and qs: "qs = a # rs"
      by (auto simp: getId_def)
    from Cons.IH [OF rs] obtain xs p ys where
      "ps = xs @ p # ys" "idn p = i" "\<forall>x \<in> set xs. idn x \<noteq> i" "rs = xs @ ys"
      by blast
    with False qs have
      "a # ps = (a # xs) @ p # ys \<and> idn p = i \<and> (\<forall>x \<in> set (a # xs). idn x \<noteq> i) \<and>
       qs = (a # xs) @ ys"
      by simp
    then show ?thesis by blast
  qed
qed

lemma erase_by_id_subset: "erase_by_id i ps = Some qs \<Longrightarrow> set qs \<subseteq> set ps"
  by (auto dest!: erase_by_id_SomeD)

lemma erase_by_id_length: "erase_by_id i ps = Some qs \<Longrightarrow> Suc (length qs) = length ps"
  by (auto dest!: erase_by_id_SomeD)

section \<open>Frame and effect of the operations\<close>

lemma push_simps [simp]:
  "students (school (push_student s w)) = students (school w) @ [s]"
  "teachers (school (push_student s w)) = teachers (school w)"
  "filePath (school (push_student s w)) = filePath (school w)"
  "students (school (push_teacher t w)) = students (school w)"
  "teachers (school (push_teacher t w)) = teachers (school w) @ [t]"
  "filePath (school (push_teacher t w)) = filePath (school w)"
  "disk (push_student s w) = disk w" "cout (push_student s w) = cout w"
  "disk (push_teacher t w) = disk w" "cout (push_teacher t w) = cout w"
  by (simp_all add: push_student_def push_teacher_def)

lemma addStudent_school [simp]:
  "school (addStudent n i c gs w) =
     (school w)\<lparr>students := students (school w) @ [Student_new n i c gs]\<rparr>"
  by (simp add: addStudent_def push_student_def)

lemma addTeacher_school [simp]:
  "school (addTeacher n i s g w) =
     (school w)\<lparr>teachers := teachers (school w) @ [Teacher_new n i s g]\<rparr>"
  by (simp add: addTeacher_def push_teacher_def)

lemma deleteStudent_school:
  "school (deleteStudent i w) =
     (case erase_by_id i (students (school w)) of
        None \<Rightarrow> school w
      | Some sts \<Rightarrow> (school w)\<lparr>students := sts\<rparr>)"
  by (simp add: deleteStudent_def split: option.splits)

lemma deleteTeacher_school:
  "school (deleteTeacher i w) =
     (case erase_by_id i (teachers (school w)) of
        None \<Rightarrow> school w
      | Some tts \<Rightarrow> (school w)\<lparr>teachers := tts\<rparr>)"
  by (simp add: deleteTeacher_def split: option.splits)

lemma exec_school_wf:
  "school_wf (school w) \<Longrightarrow> school_wf (school (exec c w))"
  by (cases c)
    (auto simp: school_wf_def Student_new_wf deleteStudent_school deleteTeacher_school
      split: option.splits dest: erase_by_id_subset)

lemma exec_filePath [simp]: "filePath (school (exec c w)) = filePath (school w)"
  by (cases c) (simp_all add: deleteStudent_school deleteTeacher_school split: option.splits)

lemma run_filePath [simp]: "filePath (school (run cs w)) = filePath (school w)"
  by (induction cs arbitrary: w) simp_all

lemma saveToFile_other_path:
  "p \<noteq> filePath (school w) \<Longrightarrow> files (disk (saveToFile w)) p = files (disk w) p"
  by (simp add: saveToFile_def ofstream_open_def ofstream_close_def)

lemma saveToFile_writable_same [simp]:
  "writable (disk (saveToFile w)) = writable (disk w)"
  by (simp add: saveToFile_def ofstream_open_def ofstream_close_def)

lemma exec_other_path:
  "p \<noteq> filePath (school w) \<Longrightarrow> files (disk (exec c w)) p = files (disk w) p"
  by (cases c)
    (simp_all add: addStudent_def addTeacher_def deleteStudent_def deleteTeacher_def
      saveToFile_other_path split: option.splits)

lemma run_other_path:
  "p \<noteq> filePath (school w) \<Longrightarrow> files (disk (run cs w)) p = files (disk w) p"
  by (induction cs arbitrary: w) (simp_all add: exec_other_path)

lemma exec_writable [simp]: "writable (disk (exec c w)) = writable (disk w)"
  by (cases c)
    (simp_all add: addStudent_def addTeacher_def deleteStudent_def deleteTeacher_def
      split: option.splits)

section \<open>The loader keeps the invariant\<close>

lemma parse_student_wf: "parse_student line = Inr s \<Longrightarrow> student_wf s"
  by (auto simp: parse_student_def Let_def split: prod.splits sum.splits
      dest!: load_grades_length intro!: Student_new_wf)

lemma load_section_all:
  assumes "\<And>line x. parse line = Inr x \<Longrightarrow> P x"
  shows "load_section parse inp acc = Inr (rest, acc') \<Longrightarrow> \<forall>x \<in> set acc. P x \<Longrightarrow>
     \<forall>x \<in> set acc'. P x"
proof (induction inp arbitrary: acc rule: length_induct)
  case (1 inp)
  show ?case
  proof (cases "getline inp")
    case None
    with "1.prems" show ?thesis
      by (simp add: load_section.simps [of parse inp])
  next
    case (Some lr)
    obtain line r where lr: "lr = (line, r)" by (cases lr)
    with Some have less: "length r < length inp"
      by (simp add: getline_shorter)
    show ?thesis
    proof (cases "line = []")
      case True
      with Some lr "1.prems" show ?thesis
        by (simp add: load_section.simps [of parse inp])
    next
      case False
      with Some lr "1.prems"(1) obtain x where x: "parse line = Inr x"
        and "load_section parse r (acc @ [x]) = Inr (rest, acc')"
        by (auto simp: load_section.simps [of parse inp] split: sum.splits)
      moreover from x "1.prems"(2) assms have "\<forall>y \<in> set (acc @ [x]). P y"
        by auto
      ultimately show ?thesis
        using "1.IH" less by blast
    qed
  qed
qed

lemma load_loop_school_wf:
  "load_loop inp sch = Inr sch' \<Longrightarrow> school_wf sch \<Longrightarrow> school_wf sch'"
proof (induction inp sch rule: load_loop.induct)
  case (1 inp sch)
  show ?case
  proof (cases "getline inp")
    case None
    with "1.prems" show ?thesis
      by (simp add: load_loop.simps [of inp])
  next
    case (Some lr)
    obtain type rest where lr: "lr = (type, rest)" by (cases lr)
    note unfold = load_loop.simps [of inp sch] Some lr
    consider (students) "type = ''Students''"
      | (teachers) "type \<noteq> ''Students''" "type = ''Teachers''"
      | (other) "type \<noteq> ''Students''" "type \<noteq> ''Teachers''"
      by blast
    then show ?thesis
    proof cases
      case students
      with "1.prems"(1) obtain rest' sts
        where sec: "load_students rest (students sch) = Inr (rest', sts)"
          and loop: "load_loop rest' (sch\<lparr>students := sts\<rparr>) = Inr sch'"
        by (auto simp: unfold split: sum.splits)
      from sec "1.prems"(2) have "\<forall>s \<in> set sts. student_wf s"
        unfolding load_students_def school_wf_def
        by (rule load_section_all [rotated]) (rule parse_student_wf)
      then have "school_wf (sch\<lparr>students := sts\<rparr>)"
        by (simp add: school_wf_def)
      with "1.IH"(1) [OF Some lr [symmetric] students sec refl loop] show ?thesis .
    next
      case teachers
      with "1.prems"(1) obtain rest' tts
        where sec: "load_teachers rest (teachers sch) = Inr (rest', tts)"
          and loop: "load_loop rest' (sch\<lparr>teachers := tts\<rparr>) = Inr sch'"
        by (auto simp: unfold split: sum.splits)
      from "1.prems"(2) have "school_wf (sch\<lparr>teachers := tts\<rparr>)"
        by (simp add: school_wf_def)
      with "1.IH"(2) [OF Some lr [symmetric] teachers sec refl loop] show ?thesis .
    next
      case other
      with "1.prems"(1) have "load_loop rest sch = Inr sch'"
        by (simp add: unfold)
      with "1.IH"(3) [OF Some lr [symmetric] other] "1.prems"(2) show ?thesis
        by simp
    qed
  qed
qed

section \<open>Properties of the store\<close>

definition alicia :: Student where
  "alicia = Student_new ''Alicia'' 1 ''10B'' [9, 9, 9, 9]"

definition world1 :: world where
  "world1 = world0\<lparr>school := school0\<lparr>students := [alice, alicia]\<rparr>\<rparr>"

lemma world1_simps [simp]:
  "students (school world1) = [alice, alicia]" "teachers (school world1) = [bob]"
  "filePath (school world1) = ''db.txt''" "cout world1 = []" "disk world1 = disk0"
  "idn alicia = 1"
  by (simp_all add: world1_def world0_defs alicia_def)

lemma world0_simps [simp]:
  "students (school world0) = [alice]" "teachers (school world0) = [bob]"
  "filePath (school world0) = ''db.txt''" "cout world0 = []" "disk world0 = disk0"
  "writable disk0 p" "files disk0 p = None"
  by (simp_all add: world0_defs)

text \<open>
  C6. \<open>deleteStudent\<close> removes the first student, in insertion order, whose id is
  the given one, and no other: the students before it and after it stay in their
  order, later students with the same id included. It then prints the success message
  and rewrites the file.
\<close>

theorem deleteStudent_first_match:
  assumes "students (school w) = xs @ s # ys" and "idn s = i" and "\<forall>x \<in> set xs. idn x \<noteq> i"
  shows "deleteStudent i w =
     saveToFile (println ''Student deleted successfully!''
       (w\<lparr>school := (school w)\<lparr>students := xs @ ys\<rparr>\<rparr>))"
  using assms by (simp add: deleteStudent_def erase_by_id_first)

theorem deleteStudent_first_match_witness:
  "students (school (deleteStudent 1 world1)) = [alicia]"
  using deleteStudent_first_match [of world1 "[]" alice "[alicia]" 1] by simp

text \<open>
  C7. When no student has the given id, \<open>deleteStudent\<close> prints "Student not
  found!" and changes nothing else: the vectors are as before and the file is not
  rewritten.
\<close>

theorem deleteStudent_not_found:
  assumes "\<forall>s \<in> set (students (school w)). idn s \<noteq> i"
  shows "deleteStudent i w = w\<lparr>cout := cout w @ ''Student not found!'' @ [NL]\<rparr>"
proof -
  from assms have "erase_by_id i (students (school w)) = None"
    by (simp add: erase_by_id_None_iff)
  then show ?thesis
    by (simp add: deleteStudent_def println_def)
qed

theorem deleteStudent_not_found_witness:
  "deleteStudent 5 world1 = world1\<lparr>cout := ''Student not found!'' @ [NL]\<rparr>"
  using deleteStudent_not_found [of world1 5] by simp

text \<open>
  C8. Every sequence of add and delete commands keeps the invariant of the store:
  each student in the vector has exactly four grades, the four fixed subjects, and an
  average that is the one computed from its grades.
\<close>

theorem run_school_wf:
  "school_wf (school w) \<Longrightarrow> school_wf (school (run cs w))"
  by (induction cs arbitrary: w) (simp_all add: exec_school_wf)

theorem run_school_wf_witness:
  "school_wf (school (run [AddStudent ''Al'' 2 ''10B'' 1 2 3 4, DeleteStudent 1] world0))"
  by (rule run_school_wf) (simp add: school_wf_def)

text \<open>
  C19. \<open>addStudent\<close> appends the constructed student at the end of the vector,
  prints the success message, and, when the file can be written, leaves on disk
  exactly the text of the school as it is after the addition.
\<close>

theorem addStudent_effect:
  assumes "writable (disk w) (filePath (school w))"
  shows "students (school (addStudent n i c gs w)) = students (school w) @ [Student_new n i c gs] \<and>
     teachers (school (addStudent n i c gs w)) = teachers (school w) \<and>
     cout (addStudent n i c gs w) = cout w @ ''Student added successfully!'' @ [NL] \<and>
     on_disk (addStudent n i c gs w) = Some (save_text (school (addStudent n i c gs w)))"
  using assms
  by (simp add: on_disk_def) (simp add: addStudent_def saveToFile_writable push_student_def)

theorem addStudent_effect_witness:
  "students (school (addStudent ''Alicia'' 1 ''10B'' [9, 9, 9, 9] world0)) = [alice, alicia] \<and>
   cout (addStudent ''Alicia'' 1 ''10B'' [9, 9, 9, 9] world0) = ''Student added successfully!'' @ [NL]"
  using addStudent_effect [of world0 "''Alicia''" 1 "''10B''" "[9, 9, 9, 9]"]
  by (simp add: alicia_def)

text \<open>
  Two students sharing an id are deleted one call at a time: the first call of
  \<open>deleteStudent\<close> removes the one inserted first and keeps the other, the second
  call removes the other.
\<close>

theorem delete_twice_duplicates:
  assumes "students (school w) = xs @ a # ys @ b # zs"
    and "idn a = i" and "idn b = i"
    and "\<forall>x \<in> set xs. idn x \<noteq> i" and "\<forall>y \<in> set ys. idn y \<noteq> i"
  shows "students (school (deleteStudent i w)) = xs @ ys @ b # zs \<and>
     students (school (deleteStudent i (deleteStudent i w))) = xs @ ys @ zs"
proof -
  from assms(1,2,4) have first: "students (school (deleteStudent i w)) = xs @ ys @ b # zs"
    by (simp add: deleteStudent_school erase_by_id_first)
  from assms(4,5) have "\<forall>x \<in> set (xs @ ys). idn x \<noteq> i"
    by auto
  with assms(3) have "erase_by_id i ((xs @ ys) @ b # zs) = Some ((xs @ ys) @ zs)"
    by (rule erase_by_id_first [rotated])
  with first show ?thesis
    by (simp add: deleteStudent_school [of i "deleteStudent i w"])
qed

theorem delete_twice_duplicates_witness:
  "students (school (deleteStudent 1 world1)) = [alicia] \<and>
   students (school (deleteStudent 1 (deleteStudent 1 world1))) = []"
  using delete_twice_duplicates [of world1 "[]" alice "[]" alicia "[]" 1] by simp

text \<open>
  The delete loop computes what the list library says: the result is the vector
  without the first occurrence of the first element whose id matches, and there is
  no result exactly when no id matches.
\<close>

theorem erase_by_id_find_remove1:
  "erase_by_id i ps = map_option (\<lambda>p. remove1 p ps) (find (\<lambda>p. idn p = i) ps)"
proof (induction ps)
  case Nil
  show ?case by simp
next
  case (Cons a ps)
  show ?case
  proof (cases "idn a = i")
    case True
    then show ?thesis by (simp add: getId_def)
  next
    case False
    have "remove1 p (a # ps) = a # remove1 p ps" if "find (\<lambda>p. idn p = i) ps = Some p" for p
      using that False by (auto simp: find_Some_iff)
    with False Cons.IH show ?thesis
      by (cases "find (\<lambda>p. idn p = i) ps") (simp_all add: getId_def)
  qed
qed

text \<open>
  C23. A load that returns keeps the invariant of the store: every student the
  loader appended has four grades, the fixed subjects and the average of its grades.
\<close>

theorem loadFromFile_school_wf:
  assumes "loadFromFile w = Inr w'" and "school_wf (school w)"
  shows "school_wf (school w')"
  using assms
  by (auto simp: loadFromFile_def split: option.splits sum.splits
      dest: load_loop_school_wf)

theorem loadFromFile_school_wf_witness:
  "\<exists>w'. loadFromFile (world0\<lparr>disk := disk0\<lparr>files := [load_path \<mapsto>
       ''Students'' @ NL # students_text [alicia] @ NL # ''Teachers'' @ NL # teachers_text [bob]]\<rparr>\<rparr>) =
     Inr w' \<and>
     students (school w') = [alice, alicia] \<and> school_wf (school w')"
proof -
  let ?w = "world0\<lparr>disk := disk0\<lparr>files := [load_path \<mapsto>
    ''Students'' @ NL # students_text [alicia] @ NL # ''Teachers'' @ NL # teachers_text [bob]]\<rparr>\<rparr>"
  have "load_loop
      (''Students'' @ NL # students_text [alicia] @ NL # ''Teachers'' @ NL # teachers_text [bob])
      (school ?w) =
    Inr ((school ?w)\<lparr>students := students (school ?w) @ [alicia],
                     teachers := teachers (school ?w) @ [bob]\<rparr>)"
    by (rule load_loop_separated) (simp_all add: storable_defs alicia_def Student_new_wf)
  then have load: "loadFromFile ?w =
      Inr (println ''Data loaded from file successfully!''
        (?w\<lparr>school := (school ?w)\<lparr>students := students (school ?w) @ [alicia],
                                   teachers := teachers (school ?w) @ [bob]\<rparr>\<rparr>))"
    (is "_ = Inr ?w'")
    by (simp add: loadFromFile_def ifstream_open_def)
  have "school_wf (school ?w)"
    by (simp add: school_wf_def world0_defs)
  with load have "school_wf (school ?w')"
    by (rule loadFromFile_school_wf)
  moreover have "students (school ?w') = [alice, alicia]"
    by (simp add: world0_defs)
  ultimately have "loadFromFile ?w = Inr ?w' \<and> students (school ?w') = [alice, alicia] \<and>
      school_wf (school ?w')"
    using load by (intro conjI)
  then show ?thesis
    by (rule exI)
qed

end
