(* ===== verification/Store_Runs.thy ===== *)
theory Store_Runs
  imports Store
begin

text \<open>
  Runs of the store: the states reachable by the mutating commands as an inductive
  relation, the agreement of memory and file along a run, the abstract store that the
  commands implement, the teacher side of the delete method, and what a delete does to
  the student that was just added.
\<close>

section \<open>Reachable states\<close>

inductive reaches :: "world \<Rightarrow> world \<Rightarrow> bool" for w where
  start: "reaches w w"
| step: "reaches w w' \<Longrightarrow> reaches w (exec c w')"

inductive_cases reaches_execE: "reaches w (exec c w')"

definition can_save :: "world \<Rightarrow> bool" where
  "can_save w \<longleftrightarrow> writable (disk w) (filePath (school w))"

definition synced :: "world \<Rightarrow> bool" where
  "synced w \<longleftrightarrow> on_disk w = Some (save_text (school w))"

section \<open>The abstract store\<close>

text \<open>
  What the store promises, on the two sequences alone: an add appends the record
  built from the values, a delete removes the first record with the id, found with
  the list library, and is without effect when there is none.
\<close>

definition remove_first_id :: "cint \<Rightarrow> 'a Person_scheme list \<Rightarrow> 'a Person_scheme list" where
  "remove_first_id i ps =
     (case find (\<lambda>p. idn p = i) ps of None \<Rightarrow> ps | Some p \<Rightarrow> remove1 p ps)"

fun store_exec :: "command \<Rightarrow> School \<Rightarrow> School" where
  "store_exec (AddStudent n i c g0 g1 g2 g3) sch =
     sch\<lparr>students := students sch @ [Student_new n i c [g0, g1, g2, g3]]\<rparr>"
| "store_exec (AddTeacher n i s g) sch =
     sch\<lparr>teachers := teachers sch @ [Teacher_new n i s g]\<rparr>"
| "store_exec (DeleteStudent i) sch = sch\<lparr>students := remove_first_id i (students sch)\<rparr>"
| "store_exec (DeleteTeacher i) sch = sch\<lparr>teachers := remove_first_id i (teachers sch)\<rparr>"

definition store_run :: "command list \<Rightarrow> School \<Rightarrow> School" where
  "store_run cs sch = foldl (\<lambda>s c. store_exec c s) sch cs"

section \<open>Runs and reachability\<close>

lemma run_append [simp]: "run (cs @ ds) w = run ds (run cs w)"
  by (induction cs arbitrary: w) simp_all

lemma reaches_run: "reaches w (run cs w)"
  by (induction cs rule: rev_induct) (auto intro: reaches.intros)

lemma reaches_runE:
  assumes "reaches w w'"
  obtains cs where "w' = run cs w"
  using assms
proof (induction arbitrary: thesis)
  case start
  from start [of "[]"] show ?case by simp
next
  case (step w' c)
  from step.IH obtain cs where "w' = run cs w" .
  then have "exec c w' = run (cs @ [c]) w"
    by simp
  then show ?case by (rule step.prems)
qed

lemma reaches_iff_run: "reaches w w' \<longleftrightarrow> (\<exists>cs. w' = run cs w)"
  by (auto intro: reaches_run elim: reaches_runE)

lemma reaches_trans: "reaches w' w'' \<Longrightarrow> reaches w w' \<Longrightarrow> reaches w w''"
  by (induction rule: reaches.induct) (auto intro: reaches.intros)

section \<open>Memory and file\<close>

lemma can_save_exec [simp]: "can_save (exec c w) = can_save w"
  by (simp add: can_save_def)

lemma saveToFile_synced: "can_save w \<Longrightarrow> synced (saveToFile w)"
  by (simp add: can_save_def synced_def on_disk_def saveToFile_writable)

lemma synced_println [simp]: "synced (println msg w) = synced w"
  by (simp add: synced_def on_disk_def)

lemma can_save_frame [simp]:
  "can_save (println msg w) = can_save w"
  "can_save (push_student s w) = can_save w"
  "can_save (push_teacher t w) = can_save w"
  "can_save (w\<lparr>school := (school w)\<lparr>students := sts\<rparr>\<rparr>) = can_save w"
  "can_save (w\<lparr>school := (school w)\<lparr>teachers := tts\<rparr>\<rparr>) = can_save w"
  by (simp_all add: can_save_def)

lemma exec_synced: "can_save w \<Longrightarrow> synced w \<Longrightarrow> synced (exec c w)"
  by (cases c)
    (simp_all add: addStudent_def addTeacher_def deleteStudent_def deleteTeacher_def
      saveToFile_synced split: option.splits)

lemma exec_add_synced:
  "can_save w \<Longrightarrow> synced (exec (AddStudent n i c g0 g1 g2 g3) w)"
  "can_save w \<Longrightarrow> synced (exec (AddTeacher n i s g) w)"
  by (simp_all add: addStudent_def addTeacher_def saveToFile_synced)

lemma length_save_text:
  "length (save_text sch) =
     18 + length (students_text (students sch)) + length (teachers_text (teachers sch))"
  by (simp add: save_text_eq)

lemma save_text_push_student:
  "save_text (sch\<lparr>students := students sch @ [s]\<rparr>) \<noteq> save_text sch"
proof
  assume "save_text (sch\<lparr>students := students sch @ [s]\<rparr>) = save_text sch"
  then have "length (save_text (sch\<lparr>students := students sch @ [s]\<rparr>)) = length (save_text sch)"
    by simp
  then show False
    by (simp add: length_save_text students_text_def)
qed

section \<open>The commands implement the abstract store\<close>

lemma erase_by_id_remove_first:
  "(case erase_by_id i ps of None \<Rightarrow> ps | Some qs \<Rightarrow> qs) = remove_first_id i ps"
proof (induction ps)
  case Nil
  show ?case by (simp add: remove_first_id_def)
next
  case (Cons a ps)
  show ?case
  proof (cases "idn a = i")
    case True
    then show ?thesis by (simp add: remove_first_id_def getId_def)
  next
    case False
    have "remove1 p (a # ps) = a # remove1 p ps" if "find (\<lambda>p. idn p = i) ps = Some p" for p
      using that False by (auto simp: find_Some_iff)
    with False Cons.IH show ?thesis
      by (cases "erase_by_id i ps"; cases "find (\<lambda>p. idn p = i) ps")
        (simp_all add: remove_first_id_def getId_def)
  qed
qed

lemma exec_store_exec: "school (exec c w) = store_exec c (school w)"
proof (cases c)
  case (DeleteStudent i)
  then show ?thesis
    using erase_by_id_remove_first [where i = i and ps = "students (school w)"]
    by (simp add: deleteStudent_school split: option.splits)
next
  case (DeleteTeacher i)
  then show ?thesis
    using erase_by_id_remove_first [where i = i and ps = "teachers (school w)"]
    by (simp add: deleteTeacher_school split: option.splits)
qed simp_all

lemma store_run_simps [simp]:
  "store_run [] sch = sch" "store_run (c # cs) sch = store_run cs (store_exec c sch)"
  by (simp_all add: store_run_def)

section \<open>Properties of runs\<close>

definition world_ro :: world where
  "world_ro = world0\<lparr>disk := disk0\<lparr>writable := \<lambda>p. False,
     files := (files disk0)(''db.txt'' \<mapsto> save_text school0)\<rparr>\<rparr>"

lemma world_ro_simps [simp]:
  "school world_ro = school0" "cout world_ro = []" "\<not> can_save world_ro"
  "synced world_ro"
  by (simp_all add: world_ro_def world0_defs can_save_def synced_def on_disk_def)

text \<open>
  C27. Memory and file agree along every run: when the data file can be written and
  holds the text of the school, then in every state reached by add and delete commands
  the file again holds the text of the school as it is then, and can still be written.
\<close>

theorem reaches_synced:
  assumes "reaches w w'" and "can_save w" and "synced w"
  shows "synced w' \<and> can_save w'"
  using assms by (induction rule: reaches.induct) (simp_all add: exec_synced)

theorem reaches_synced_witness:
  "synced (run [AddStudent ''Al'' 2 ''10B'' 1 2 3 4, DeleteStudent 1] (saveToFile world0))"
proof -
  have "can_save (saveToFile world0)" "synced (saveToFile world0)"
    by (simp_all add: can_save_def saveToFile_synced)
  with reaches_run show ?thesis
    using reaches_synced
      [of "saveToFile world0" "run [AddStudent ''Al'' 2 ''10B'' 1 2 3 4, DeleteStudent 1] (saveToFile world0)"]
    by blast
qed

text \<open>
  C28. The commands implement the abstract store: the school after a run is the
  abstract run on the school before, whatever the disk allows and the console shows.
  In particular a failed save changes nothing in memory.
\<close>

theorem run_refines_store: "school (run cs w) = store_run cs (school w)"
  by (induction cs arbitrary: w) (simp_all add: exec_store_exec)

text \<open>
  C29. When the data file cannot be opened for writing, \<open>addStudent\<close> still appends
  the student and prints the success message, then the error message; the disk is as
  before, so a file that agreed with memory no longer does.
\<close>

theorem addStudent_unwritable:
  assumes "\<not> can_save w"
  shows "students (school (addStudent n i c gs w)) = students (school w) @ [Student_new n i c gs] \<and>
     disk (addStudent n i c gs w) = disk w \<and>
     cout (addStudent n i c gs w) =
       cout w @ ''Student added successfully!'' @ [NL] @ ''Error opening file for saving!'' @ [NL] \<and>
     (synced w \<longrightarrow> \<not> synced (addStudent n i c gs w))"
proof -
  let ?w = "println ''Student added successfully!'' (push_student (Student_new n i c gs) w)"
  from assms have "addStudent n i c gs w = println ''Error opening file for saving!'' ?w"
    by (simp add: addStudent_def saveToFile_not_writable can_save_def)
  then show ?thesis
    using save_text_push_student [of "school w" "Student_new n i c gs"]
    by (auto simp: synced_def on_disk_def push_student_def)
qed

theorem addStudent_unwritable_witness:
  "disk (addStudent ''Al'' 2 ''10B'' [1, 2, 3, 4] world_ro) = disk world_ro \<and>
   \<not> synced (addStudent ''Al'' 2 ''10B'' [1, 2, 3, 4] world_ro)"
  using addStudent_unwritable [of world_ro "''Al''" 2 "''10B''" "[1, 2, 3, 4]"] by simp

text \<open>
  C30. \<open>deleteTeacher\<close> removes the first teacher, in insertion order, whose id is
  the given one, and no other, prints the success message and rewrites the file; when
  no teacher has the id it prints "Teacher not found!" and changes nothing else.
\<close>

theorem deleteTeacher_effect:
  "deleteTeacher i w =
     (if \<exists>t \<in> set (teachers (school w)). idn t = i
      then saveToFile (println ''Teacher deleted successfully!''
        (w\<lparr>school := (school w)\<lparr>teachers := remove_first_id i (teachers (school w))\<rparr>\<rparr>))
      else w\<lparr>cout := cout w @ ''Teacher not found!'' @ [NL]\<rparr>)"
proof (cases "erase_by_id i (teachers (school w))")
  case None
  then have "\<not> (\<exists>t \<in> set (teachers (school w)). idn t = i)"
    by (simp add: erase_by_id_None_iff)
  with None show ?thesis
    by (simp add: deleteTeacher_def println_def)
next
  case (Some tts)
  moreover from Some have "\<exists>t \<in> set (teachers (school w)). idn t = i"
    using erase_by_id_None_iff [where i = i and ps = "teachers (school w)"] by auto
  moreover from Some have "remove_first_id i (teachers (school w)) = tts"
    using erase_by_id_remove_first [where i = i and ps = "teachers (school w)"] by simp
  ultimately show ?thesis
    by (simp add: deleteTeacher_def)
qed

theorem deleteTeacher_effect_witness:
  "teachers (school (deleteTeacher 7 world0)) = [] \<and>
   deleteTeacher 8 world0 = world0\<lparr>cout := ''Teacher not found!'' @ [NL]\<rparr>"
  by (simp add: deleteTeacher_effect [of _ world0] remove_first_id_def bob_def Teacher_new_def)

section \<open>Deleting what was just added\<close>

lemma erase_by_id_snoc:
  "idn p = i \<Longrightarrow>
     erase_by_id i (ps @ [p]) = Some (case erase_by_id i ps of None \<Rightarrow> ps | Some qs \<Rightarrow> qs @ [p])"
  by (induction ps) (auto simp: getId_def split: option.splits)

lemma erase_by_id_add:
  "erase_by_id i (sts @ [Student_new n i c gs]) =
     Some (if \<exists>s \<in> set sts. idn s = i then remove_first_id i sts @ [Student_new n i c gs]
           else sts)"
proof (cases "erase_by_id i sts")
  case None
  then have "\<not> (\<exists>s \<in> set sts. idn s = i)"
    by (simp add: erase_by_id_None_iff)
  with None show ?thesis
    by (simp add: erase_by_id_snoc)
next
  case (Some qs)
  moreover from Some have "\<exists>s \<in> set sts. idn s = i"
    using erase_by_id_None_iff [where i = i and ps = sts] by auto
  moreover from Some have "remove_first_id i sts = qs"
    using erase_by_id_remove_first [where i = i and ps = sts] by simp
  ultimately show ?thesis
    by (simp add: erase_by_id_snoc)
qed

text \<open>
  C21. Deleting the id of the student that was just added undoes the addition only
  when the id was new. On a school whose file can be written, \<open>addStudent\<close>
  followed by \<open>deleteStudent\<close> of the same id gives back the vector of students as
  it was when no student had the id; when one had it, the oldest student with the id
  is the one removed and the student just added stays, at the end. In both cases the
  teachers and the path are as before, the two success messages are printed, and the
  file holds the text of the resulting school.
\<close>

theorem delete_after_add:
  assumes "can_save w"
  shows "school (deleteStudent i (addStudent n i c gs w)) =
       (school w)\<lparr>students :=
          (if \<exists>s \<in> set (students (school w)). idn s = i
           then remove_first_id i (students (school w)) @ [Student_new n i c gs]
           else students (school w))\<rparr> \<and>
     cout (deleteStudent i (addStudent n i c gs w)) =
       cout w @ ''Student added successfully!'' @ [NL] @ ''Student deleted successfully!'' @ [NL] \<and>
     on_disk (deleteStudent i (addStudent n i c gs w)) =
       Some (save_text (school (deleteStudent i (addStudent n i c gs w))))"
proof -
  let ?w1 = "addStudent n i c gs w"
  let ?sts = "if \<exists>s \<in> set (students (school w)). idn s = i
    then remove_first_id i (students (school w)) @ [Student_new n i c gs]
    else students (school w)"
  let ?w2 = "println ''Student deleted successfully!'' (?w1\<lparr>school := (school ?w1)\<lparr>students := ?sts\<rparr>\<rparr>)"
  have del: "deleteStudent i ?w1 = saveToFile ?w2"
    by (simp add: deleteStudent_def erase_by_id_add)
  from assms have save: "can_save ?w2" and w1: "cout ?w1 = cout w @ ''Student added successfully!'' @ [NL]"
    by (simp_all add: can_save_def addStudent_def saveToFile_writable println_def)
  from save have "synced (saveToFile ?w2)"
    by (rule saveToFile_synced)
  moreover from save w1 have "cout (saveToFile ?w2) =
      cout w @ ''Student added successfully!'' @ [NL] @ ''Student deleted successfully!'' @ [NL]"
    by (simp add: can_save_def saveToFile_writable println_def)
  moreover have "school (saveToFile ?w2) = (school w)\<lparr>students := ?sts\<rparr>"
    by simp
  ultimately show ?thesis
    unfolding del synced_def by simp
qed

theorem delete_after_add_witness:
  "students (school (deleteStudent 1 (addStudent ''Alicia'' 1 ''10B'' [9, 9, 9, 9] world0))) =
     [alicia] \<and>
   school (deleteStudent 2 (addStudent ''Al'' 2 ''10B'' [1, 2, 3, 4] world0)) = school world0"
  using delete_after_add [of world0 1 "''Alicia''" "''10B''" "[9, 9, 9, 9]"]
    delete_after_add [of world0 2 "''Al''" "''10B''" "[1, 2, 3, 4]"]
  by (simp add: can_save_def remove_first_id_def alicia_def alice_def)

end
