(* ===== verification/Spec_Loader.thy ===== *)
theory Spec_Loader
  imports Persistence
begin

text \<open>
  The loader as the specification describes it (sections 4.2 and 4.4 of
  \<^verbatim>\<open>spec.md\<close>), beside the loader of the code: a strict decoder that refuses
  lines with too few fields or with a numeric field that is not an integer, and a
  state machine that skips lines which do not decode and enters the teacher section
  on the header "Teachers" from every mode. The lemmas relate the two: the decoder
  of the code accepts every line the strict decoder accepts, with the same result;
  the specified loader reads back what \<open>saveToFile\<close> writes, which the loader of
  the code does not.
\<close>

section \<open>The strict decoder\<close>

primrec split_on :: "char \<Rightarrow> string \<Rightarrow> string list" where
  "split_on c [] = [[]]"
| "split_on c (x # xs) =
     (if x = c then [] # split_on c xs
      else (case split_on c xs of [] \<Rightarrow> [[x]] | f # fs \<Rightarrow> (x # f) # fs))"

definition spec_int :: "string \<Rightarrow> cint option" where
  "spec_int s =
     (let (neg, ds) = (case s of [] \<Rightarrow> (False, [])
                       | c # cs \<Rightarrow> if c = CHR ''-'' then (True, cs) else (False, s));
          v = (if neg then - int (strtol_digits 0 ds) else int (strtol_digits 0 ds))
      in if ds \<noteq> [] \<and> list_all isdigit ds \<and> in_int_range v
         then Some (word_of_int v) else None)"

definition spec_ints :: "string list \<Rightarrow> cint list option" where
  "spec_ints fs = (if list_all (\<lambda>f. spec_int f \<noteq> None) fs
                   then Some (map (the \<circ> spec_int) fs) else None)"

definition spec_parse_student :: "string \<Rightarrow> Student option" where
  "spec_parse_student line =
     (case split_on COMMA line of
        nm # idf # cls # g0 # g1 # g2 # g3 # extra \<Rightarrow>
          (case (spec_int idf, spec_ints [g0, g1, g2, g3]) of
             (Some i, Some gs) \<Rightarrow> Some (Student_new nm i cls gs)
           | _ \<Rightarrow> None)
      | _ \<Rightarrow> None)"

definition spec_parse_teacher :: "string \<Rightarrow> Teacher option" where
  "spec_parse_teacher line =
     (case split_on COMMA line of
        nm # idf # subj # g # extra \<Rightarrow>
          (case spec_int idf of
             Some i \<Rightarrow>
               Some (Teacher_new nm i subj
                      (drop (length nm + length idf + length subj + 3) line))
           | None \<Rightarrow> None)
      | _ \<Rightarrow> None)"

section \<open>The specified state machine\<close>

fun spec_step :: "mode \<times> School \<Rightarrow> string \<Rightarrow> mode \<times> School" where
  "spec_step (m, sch) line =
     (if line = ''Teachers'' then (TEACHERS, sch)
      else if m = NONE then (if line = ''Students'' then STUDENTS else NONE, sch)
      else if line = [] then (NONE, sch)
      else if m = STUDENTS then
        (case spec_parse_student line of
           None \<Rightarrow> (STUDENTS, sch)
         | Some s \<Rightarrow> (STUDENTS, sch\<lparr>students := students sch @ [s]\<rparr>))
      else
        (case spec_parse_teacher line of
           None \<Rightarrow> (TEACHERS, sch)
         | Some t \<Rightarrow> (TEACHERS, sch\<lparr>teachers := teachers sch @ [t]\<rparr>)))"

definition spec_run :: "mode \<times> School \<Rightarrow> string list \<Rightarrow> mode \<times> School" where
  "spec_run st ls = foldl spec_step st ls"

definition spec_load :: "string \<Rightarrow> School \<Rightarrow> School" where
  "spec_load inp sch = snd (spec_run (NONE, sch) (lines_of inp))"

section \<open>Splitting at commas\<close>

lemma split_on_nonempty [simp]: "split_on c s \<noteq> []"
  by (induction s) (auto split: list.splits)

lemma split_on_no_sep [simp]: "c \<notin> set f \<Longrightarrow> split_on c f = [f]"
  by (induction f) auto

lemma split_on_sep [simp]:
  "c \<notin> set f \<Longrightarrow> split_on c (f @ c # rest) = f # split_on c rest"
  by (induction f) auto

lemma split_on_ConsD:
  "split_on c s = f # fs \<Longrightarrow>
     c \<notin> set f \<and> (if fs = [] then s = f else \<exists>rest. s = f @ c # rest \<and> split_on c rest = fs)"
proof (induction s arbitrary: f fs)
  case Nil
  then show ?case by simp
next
  case (Cons x xs)
  show ?case
  proof (cases "x = c")
    case True
    with Cons.prems show ?thesis by auto
  next
    case False
    obtain g gs where g: "split_on c xs = g # gs"
      by (cases "split_on c xs") simp_all
    with False Cons.prems have f: "f = x # g" and fs: "fs = gs"
      by simp_all
    from Cons.IH [OF g] False f fs show ?thesis
      by (auto split: if_splits)
  qed
qed

lemma split_on_two:
  assumes "split_on c s = f # g # gs"
  shows "c \<notin> set f \<and> (\<exists>rest. s = f @ c # rest \<and> split_on c rest = g # gs)"
  using split_on_ConsD [OF assms] by simp

section \<open>Strict integers\<close>

lemma list_all_takeWhile [simp]: "list_all P xs \<Longrightarrow> takeWhile P xs = xs"
  by (induction xs) auto

lemma spec_int_stoi:
  assumes "spec_int s = Some v"
  shows "stoi s = Inr v"
proof (cases s)
  case Nil
  with assms show ?thesis by (simp add: spec_int_def)
next
  case (Cons c cs)
  show ?thesis
  proof (cases "c = CHR ''-''")
    case True
    with Cons assms show ?thesis
      by (auto simp: spec_int_def stoi_def isspace_def Let_def split: if_splits)
  next
    case False
    with Cons assms have "isdigit c" and "list_all isdigit cs"
      by (auto simp: spec_int_def Let_def split: if_splits)
    with Cons False assms show ?thesis
      by (auto simp: spec_int_def stoi_def Let_def skip_sign_def
          dest: isdigit_not_special split: if_splits)
  qed
qed

lemma spec_int_no_comma: "spec_int s = Some v \<Longrightarrow> COMMA \<notin> set s"
  by (cases s)
    (auto simp: spec_int_def Let_def list_all_iff dest: isdigit_not_special split: if_splits)

lemma spec_int_show_cint [simp]: "spec_int (show_cint w) = Some w"
proof (cases "sint w < 0")
  case True
  then show ?thesis
    by (simp add: spec_int_def show_cint_def show_int_def list_all_iff show_nat_digits)
next
  case False
  obtain c cs where s: "show_nat (nat (sint w)) = c # cs"
    by (cases "show_nat (nat (sint w))") simp_all
  then have "isdigit c"
    using hd_show_nat_digit [of "nat (sint w)"] by simp
  then have "c \<noteq> CHR ''-''"
    by (rule isdigit_not_special)
  moreover have "list_all isdigit (c # cs)"
    unfolding s [symmetric] by (simp add: list_all_iff show_nat_digits)
  moreover have "strtol_digits 0 (c # cs) = nat (sint w)"
    unfolding s [symmetric] by simp
  ultimately show ?thesis
    using False by (simp add: spec_int_def show_cint_def show_int_def s del: strtol_digits.simps)
qed

lemma spec_ints_Some:
  "spec_ints fs = Some gs \<Longrightarrow> length gs = length fs \<and> (\<forall>k < length fs. spec_int (fs ! k) = Some (gs ! k))"
  by (auto simp: spec_ints_def list_all_length split: if_splits)

lemma spec_ints_show [simp]: "spec_ints (map show_cint gs) = Some gs"
  by (simp add: spec_ints_def list_all_iff comp_def)

lemma spec_ints_four:
  assumes "spec_ints [g0, g1, g2, g3] = Some gs"
  obtains a b c d where "gs = [a, b, c, d]"
    and "spec_int g0 = Some a" and "spec_int g1 = Some b"
    and "spec_int g2 = Some c" and "spec_int g3 = Some d"
  using assms by (auto simp: spec_ints_def split: if_splits)

section \<open>The decoder of the code accepts what the strict decoder accepts\<close>

lemma fst_take_field_first:
  "split_on COMMA s = f # fs \<Longrightarrow> fst (take_field s) = f"
  by (drule split_on_ConsD) (auto split: if_splits)

lemma load_grades_fields:
  assumes "stoi g0 = Inr a" "stoi g1 = Inr b" "stoi g2 = Inr c" "stoi g3 = Inr d"
    and "COMMA \<notin> set g0" "COMMA \<notin> set g1" "COMMA \<notin> set g2"
    and "fst (take_field tail) = g3"
  shows "load_grades 0 (g0 @ COMMA # g1 @ COMMA # g2 @ COMMA # tail) (replicate 4 0) =
     Inr [a, b, c, d]"
  using assms by (simp add: load_grades_step numeral_eq_Suc)

lemma strict_student_accepted_aux:
  assumes split: "split_on COMMA line = nm # idf # cls # g0 # g1 # g2 # g3 # extra"
    and i: "spec_int idf = Some i"
    and gs: "spec_ints [g0, g1, g2, g3] = Some gs"
  shows "parse_student line = Inr (Student_new nm i cls gs)"
proof -
  from split_on_two [OF split] obtain r1 where nm: "COMMA \<notin> set nm"
    and l0: "line = nm @ COMMA # r1" and s1: "split_on COMMA r1 = idf # cls # g0 # g1 # g2 # g3 # extra"
    by blast
  from split_on_two [OF s1] obtain r2 where idf: "COMMA \<notin> set idf"
    and l1: "r1 = idf @ COMMA # r2" and s2: "split_on COMMA r2 = cls # g0 # g1 # g2 # g3 # extra"
    by blast
  from split_on_two [OF s2] obtain r3 where cls: "COMMA \<notin> set cls"
    and l2: "r2 = cls @ COMMA # r3" and s3: "split_on COMMA r3 = g0 # g1 # g2 # g3 # extra"
    by blast
  from split_on_two [OF s3] obtain r4 where g0: "COMMA \<notin> set g0"
    and l3: "r3 = g0 @ COMMA # r4" and s4: "split_on COMMA r4 = g1 # g2 # g3 # extra"
    by blast
  from split_on_two [OF s4] obtain r5 where g1: "COMMA \<notin> set g1"
    and l4: "r4 = g1 @ COMMA # r5" and s5: "split_on COMMA r5 = g2 # g3 # extra"
    by blast
  from split_on_two [OF s5] obtain r6 where g2: "COMMA \<notin> set g2"
    and l5: "r5 = g2 @ COMMA # r6" and s6: "split_on COMMA r6 = g3 # extra"
    by blast
  from gs obtain a b c d where abcd: "gs = [a, b, c, d]"
    and "spec_int g0 = Some a" "spec_int g1 = Some b" "spec_int g2 = Some c" "spec_int g3 = Some d"
    by (rule spec_ints_four)
  then have "stoi g0 = Inr a" "stoi g1 = Inr b" "stoi g2 = Inr c" "stoi g3 = Inr d"
    by (simp_all add: spec_int_stoi)
  then have "load_grades 0 r3 (replicate 4 0) = Inr gs"
    unfolding l3 l4 l5 abcd
    using g0 g1 g2 fst_take_field_first [OF s6] by (rule load_grades_fields)
  with nm idf cls spec_int_stoi [OF i] show ?thesis
    by (simp add: parse_student_def l0 l1 l2)
qed

lemma strict_teacher_accepted_aux:
  assumes split: "split_on COMMA line = nm # idf # subj # g # extra"
    and i: "spec_int idf = Some i"
  shows "parse_teacher line =
     Inr (Teacher_new nm i subj (drop (length nm + length idf + length subj + 3) line))"
proof -
  from split_on_two [OF split] obtain r1 where nm: "COMMA \<notin> set nm"
    and l0: "line = nm @ COMMA # r1" and s1: "split_on COMMA r1 = idf # subj # g # extra"
    by blast
  from split_on_two [OF s1] obtain r2 where idf: "COMMA \<notin> set idf"
    and l1: "r1 = idf @ COMMA # r2" and s2: "split_on COMMA r2 = subj # g # extra"
    by blast
  from split_on_two [OF s2] obtain r3 where subj: "COMMA \<notin> set subj"
    and l2: "r2 = subj @ COMMA # r3"
    by blast
  from nm idf subj spec_int_stoi [OF i] show ?thesis
    by (simp add: parse_teacher_def l0 l1 l2 numeral_3_eq_3)
qed

section \<open>The strict decoder on written lines\<close>

lemma spec_parse_student_line:
  assumes "student_storable s"
  shows "spec_parse_student (Student_line s) = Some s"
proof -
  from assms have wf: "student_wf s" and nm: "COMMA \<notin> set (name s)"
    and cls: "COMMA \<notin> set (studentClass s)"
    by (simp_all add: storable_defs)
  from wf obtain a b c d where g: "grades s = [a, b, c, d]"
    by (auto simp: student_wf_def length_Suc_conv numeral_eq_Suc)
  have "spec_ints [show_cint a, show_cint b, show_cint c, show_cint d] = Some [a, b, c, d]"
    using spec_ints_show [of "[a, b, c, d]"] by simp
  with nm cls g have
    "spec_parse_student (Student_line s) =
       Some (Student_new (name s) (idn s) (studentClass s) (grades s))"
    by (simp add: spec_parse_student_def Student_line_def)
  with wf show ?thesis
    by (simp add: student_wf_rebuild)
qed

lemma spec_parse_teacher_line:
  assumes "teacher_storable t"
  shows "spec_parse_teacher (Teacher_line t) = Some t"
proof -
  from assms have nm: "COMMA \<notin> set (name t)" and subj: "COMMA \<notin> set (subject t)"
    by (simp_all add: storable_defs)
  obtain g extra where "split_on COMMA (grade t) = g # extra"
    by (cases "split_on COMMA (grade t)") simp_all
  with nm subj show ?thesis
    by (simp add: spec_parse_teacher_def Teacher_line_def Teacher_new_def numeral_3_eq_3)
qed

lemma line_not_header:
  "COMMA \<in> set l \<Longrightarrow> l \<noteq> ''Teachers'' \<and> l \<noteq> ''Students'' \<and> l \<noteq> []"
  by auto

lemma Student_line_has_comma [simp]: "COMMA \<in> set (Student_line s)"
  by (simp add: Student_line_def)

lemma Teacher_line_has_comma [simp]: "COMMA \<in> set (Teacher_line t)"
  by (simp add: Teacher_line_def)

section \<open>Runs of the specified machine\<close>

lemma spec_run_simps [simp]:
  "spec_run st [] = st" "spec_run st (l # ls) = spec_run (spec_step st l) ls"
  "spec_run st (ls @ ls') = spec_run (spec_run st ls) ls'"
  by (simp_all add: spec_run_def)

declare spec_step.simps [simp del]

lemma spec_step_headers [simp]:
  "spec_step (m, sch) ''Teachers'' = (TEACHERS, sch)"
  "spec_step (NONE, sch) ''Students'' = (STUDENTS, sch)"
  by (simp_all add: spec_step.simps)

lemma spec_step_student:
  "student_storable s \<Longrightarrow>
     spec_step (STUDENTS, sch) (Student_line s) = (STUDENTS, sch\<lparr>students := students sch @ [s]\<rparr>)"
  using line_not_header [of "Student_line s"]
  by (simp add: spec_step.simps spec_parse_student_line)

lemma spec_step_teacher:
  "teacher_storable t \<Longrightarrow>
     spec_step (TEACHERS, sch) (Teacher_line t) = (TEACHERS, sch\<lparr>teachers := teachers sch @ [t]\<rparr>)"
  using line_not_header [of "Teacher_line t"]
  by (simp add: spec_step.simps spec_parse_teacher_line)

lemma spec_run_students:
  "\<forall>s \<in> set sts. student_storable s \<Longrightarrow>
     spec_run (STUDENTS, sch) (map Student_line sts) =
       (STUDENTS, sch\<lparr>students := students sch @ sts\<rparr>)"
  by (induction sts arbitrary: sch) (simp_all add: spec_step_student)

lemma spec_run_teachers:
  "\<forall>t \<in> set tts. teacher_storable t \<Longrightarrow>
     spec_run (TEACHERS, sch) (map Teacher_line tts) =
       (TEACHERS, sch\<lparr>teachers := teachers sch @ tts\<rparr>)"
  by (induction tts arbitrary: sch) (simp_all add: spec_step_teacher)

lemma lines_of_unlines_append:
  "\<forall>l \<in> set ls. NL \<notin> set l \<Longrightarrow> lines_of (unlines ls @ rest) = ls @ lines_of rest"
  by (induction ls) simp_all

lemma lines_of_save_text:
  assumes "\<forall>s \<in> set (students sch). student_storable s"
    and "\<forall>t \<in> set (teachers sch). teacher_storable t"
  shows "lines_of (save_text sch) =
     ''Students'' # map Student_line (students sch) @
     ''Teachers'' # map Teacher_line (teachers sch)"
proof -
  have s: "\<forall>l \<in> set (map Student_line (students sch)). NL \<notin> set l"
    using assms(1) by (auto simp: student_storable_line)
  have t: "\<forall>l \<in> set (map Teacher_line (teachers sch)). NL \<notin> set l"
    using assms(2) by (auto simp: teacher_storable_line)
  have "lines_of (''Teachers'' @ NL # teachers_text (teachers sch)) =
      ''Teachers'' # map Teacher_line (teachers sch)"
    using lines_of_line [of "''Teachers''" "teachers_text (teachers sch)"]
      lines_of_unlines_append [OF t, of "[]"]
    by (simp add: teachers_text_def)
  then have "lines_of (students_text (students sch) @ ''Teachers'' @ NL # teachers_text (teachers sch)) =
      map Student_line (students sch) @ ''Teachers'' # map Teacher_line (teachers sch)"
    unfolding students_text_def by (simp only: lines_of_unlines_append [OF s])
  then show ?thesis
    using lines_of_line [of "''Students''"
        "students_text (students sch) @ ''Teachers'' @ NL # teachers_text (teachers sch)"]
    by (simp add: save_text_eq)
qed

section \<open>Properties of the specified loader\<close>

text \<open>
  C24. The decoder of the code accepts every student line the strict decoder of the
  specification accepts, and returns the same student: at least seven fields, of
  which the id and the four grades are integers in the range of \<open>int\<close>.
\<close>

theorem strict_student_accepted:
  assumes "spec_parse_student line = Some s"
  shows "parse_student line = Inr s"
  using assms
  by (auto simp: spec_parse_student_def split: list.splits option.splits
      intro: strict_student_accepted_aux)

theorem strict_student_accepted_witness:
  "parse_student ''Alice,1,10A,12,8,15,9'' = Inr alice"
proof -
  have "spec_parse_student (Student_line alice) = Some alice"
    by (rule spec_parse_student_line) (simp add: storable_defs)
  then show ?thesis
    using strict_student_accepted [of "Student_line alice" alice] by simp
qed

text \<open>
  C25. The decoder of the code accepts every teacher line the strict decoder accepts,
  and returns the same teacher: a name, an integer id, a subject, and the rest of the
  line as grade category.
\<close>

theorem strict_teacher_accepted:
  assumes "spec_parse_teacher line = Some t"
  shows "parse_teacher line = Inr t"
  using assms
  by (auto simp: spec_parse_teacher_def split: list.splits option.splits
      intro: strict_teacher_accepted_aux)

theorem strict_teacher_accepted_witness:
  "parse_teacher ''Bob,7,Maths,Professor'' = Inr bob"
proof -
  have "spec_parse_teacher (Teacher_line bob) = Some bob"
    by (rule spec_parse_teacher_line) (simp add: storable_defs)
  then show ?thesis
    using strict_teacher_accepted [of "Teacher_line bob" bob] by simp
qed

text \<open>
  C26. The loader of the specification reads back what \<open>saveToFile\<close> writes: run
  over the text of a school whose records are storable, it appends the students and
  the teachers of that school, in order. The loader of the code raises on the same
  text.
\<close>

theorem spec_load_saved:
  assumes "\<forall>s \<in> set (students sch). student_storable s"
    and "\<forall>t \<in> set (teachers sch). teacher_storable t"
  shows "spec_load (save_text sch) sch0 =
       sch0\<lparr>students := students sch0 @ students sch, teachers := teachers sch0 @ teachers sch\<rparr> \<and>
     load_loop (save_text sch) sch0 = Inl InvalidArgument"
  using assms
  by (simp add: spec_load_def lines_of_save_text spec_run_students spec_run_teachers
      load_loop_saved)

theorem spec_load_saved_witness:
  "spec_load (save_text school0) (school0\<lparr>students := [], teachers := []\<rparr>) = school0"
  using spec_load_saved [of school0 "school0\<lparr>students := [], teachers := []\<rparr>"]
  by (simp add: school0_def storable_defs)

end
