(* ===== verification/Cxx_Console.thy ===== *)
theory Cxx_Console
  imports Cxx_String
begin

text \<open>
  The standard input stream as the program uses it, modelled from the C++ standard:
  the unread text and whether the stream is still good. The program never tests or
  clears the state of \<open>cin\<close>, so the three state bits need not be told apart: an
  operation on a stream that is not good extracts nothing and leaves its target as it
  was. The operations are \<open>cin.ignore()\<close>, \<open>getline(cin, s)\<close> and
  \<open>cin >> n\<close> for an \<open>int\<close>.
\<close>

section \<open>The stream\<close>

record istream =
  unread :: string
  good :: bool

definition istream_of :: "string \<Rightarrow> istream" where
  "istream_of s = \<lparr>unread = s, good = True\<rparr>"

text \<open>
  \<open>cin.ignore()\<close> extracts and drops one character; at the end of the input it sets
  \<open>eofbit\<close>.
\<close>

definition cin_ignore :: "istream \<Rightarrow> istream" where
  "cin_ignore ins =
     (if \<not> good ins then ins
      else case unread ins of
             [] \<Rightarrow> ins\<lparr>good := False\<rparr>
           | c # cs \<Rightarrow> ins\<lparr>unread := cs\<rparr>)"

text \<open>
  \<open>getline(cin, s)\<close> with the value \<open>old\<close> of \<open>s\<close> before the call: the string
  is cleared and filled up to the next newline, which is extracted and dropped. When
  the input ends before a newline, \<open>eofbit\<close> is set, and \<open>failbit\<close> too when
  nothing was extracted.
\<close>

definition cin_getline :: "string \<Rightarrow> istream \<Rightarrow> string \<times> istream" where
  "cin_getline old ins =
     (if \<not> good ins then (old, ins)
      else let line = takeWhile (\<lambda>c. c \<noteq> NL) (unread ins);
               rest = dropWhile (\<lambda>c. c \<noteq> NL) (unread ins)
           in if rest = [] then (line, ins\<lparr>unread := [], good := False\<rparr>)
              else (line, ins\<lparr>unread := tl rest\<rparr>))"

text \<open>
  \<open>cin >> n\<close> with the value \<open>old\<close> of \<open>n\<close> before the call. White space is
  skipped; when the input ends there, \<open>n\<close> is left as it was. Otherwise one sign and
  the longest run of digits are extracted: no digit stores 0, a value outside the
  range of \<open>int\<close> stores the nearest bound, and both set \<open>failbit\<close>; reaching the
  end of the input while reading digits sets \<open>eofbit\<close>.
\<close>

definition cin_int :: "cint \<Rightarrow> istream \<Rightarrow> cint \<times> istream" where
  "cin_int old ins =
     (if \<not> good ins then (old, ins)
      else let s = dropWhile isspace (unread ins) in
        if s = [] then (old, ins\<lparr>unread := [], good := False\<rparr>)
        else let (neg, body) = skip_sign s;
                 ds = takeWhile isdigit body;
                 rest = dropWhile isdigit body;
                 v = (if neg then - int (strtol_digits 0 ds) else int (strtol_digits 0 ds))
             in if ds = [] then (0, ins\<lparr>unread := rest, good := False\<rparr>)
                else if \<not> in_int_range v then
                  (word_of_int (if neg then INT_MIN else INT_MAX),
                   ins\<lparr>unread := rest, good := False\<rparr>)
                else (word_of_int v, ins\<lparr>unread := rest, good := (rest \<noteq> [])\<rparr>))"

lemmas cin_defs [cxx_defs] = cin_ignore_def cin_getline_def cin_int_def

section \<open>A stream that is not good stays so\<close>

lemma cin_failed [simp]:
  assumes "\<not> good ins"
  shows "cin_ignore ins = ins" and "cin_getline old ins = (old, ins)"
    and "cin_int n ins = (n, ins)"
  using assms by (simp_all add: cin_defs)

lemma cin_ignore_sticky: "good (cin_ignore ins) \<Longrightarrow> good ins"
  by (auto simp: cin_ignore_def split: if_splits)

lemma cin_getline_sticky: "good (snd (cin_getline old ins)) \<Longrightarrow> good ins"
  by (auto simp: cin_getline_def Let_def split: if_splits)

lemma cin_int_sticky: "good (snd (cin_int old ins)) \<Longrightarrow> good ins"
  by (cases "good ins") simp_all

section \<open>Nothing is put back\<close>

lemma cin_ignore_shorter: "length (unread (cin_ignore ins)) \<le> length (unread ins)"
  by (simp add: cin_ignore_def split: list.splits)

lemma cin_getline_shorter:
  "length (unread (snd (cin_getline old ins))) \<le> length (unread ins)"
  using length_dropWhile_le [of "\<lambda>c. c \<noteq> NL" "unread ins"]
  by (auto simp: cin_getline_def Let_def)

lemma length_skip_sign: "length (snd (skip_sign s)) \<le> length s"
  by (simp add: skip_sign_def split: list.splits)

lemma cin_int_shorter: "length (unread (snd (cin_int old ins))) \<le> length (unread ins)"
proof -
  let ?s = "dropWhile isspace (unread ins)"
  have "length (dropWhile isdigit (snd (skip_sign ?s))) \<le> length (unread ins)"
    using length_dropWhile_le [of isdigit "snd (skip_sign ?s)"] length_skip_sign [of ?s]
      length_dropWhile_le [of isspace "unread ins"]
    by linarith
  moreover obtain neg body where "skip_sign ?s = (neg, body)"
    by (cases "skip_sign ?s")
  ultimately show ?thesis
    by (simp add: cin_int_def Let_def)
qed

section \<open>Reading what was typed\<close>

lemma cin_ignore_Cons [simp]:
  "cin_ignore \<lparr>unread = c # cs, good = True\<rparr> = \<lparr>unread = cs, good = True\<rparr>"
  by (simp add: cin_ignore_def)

lemma cin_getline_line:
  "NL \<notin> set l \<Longrightarrow>
     cin_getline old \<lparr>unread = l @ NL # rest, good = True\<rparr> =
       (l, \<lparr>unread = rest, good = True\<rparr>)"
  by (simp add: cin_getline_def sep_simps)

lemma cin_getline_eof [simp]:
  "cin_getline old \<lparr>unread = [], good = True\<rparr> = ([], \<lparr>unread = [], good = False\<rparr>)"
  by (simp add: cin_getline_def)

lemma takeWhile_isdigit_show_nat_append:
  "\<not> isdigit c \<Longrightarrow> takeWhile isdigit (show_nat n @ c # rest) = show_nat n"
  by (simp add: takeWhile_append2 show_nat_digits)

lemma dropWhile_isdigit_show_nat_append:
  "\<not> isdigit c \<Longrightarrow> dropWhile isdigit (show_nat n @ c # rest) = c # rest"
  by (simp add: dropWhile_append2 show_nat_digits)

lemmas scan_show_nat = takeWhile_isdigit_show_nat_append dropWhile_isdigit_show_nat_append

lemma hd_show_nat_append [simp]: "hd (show_nat n @ s) = hd (show_nat n)"
  by (simp add: hd_append)

lemma cin_int_show_int:
  assumes "in_int_range i" and "\<not> isdigit c"
  shows "cin_int old \<lparr>unread = show_int i @ c # rest, good = True\<rparr> =
     (word_of_int i, \<lparr>unread = c # rest, good = True\<rparr>)"
proof (cases "i < 0")
  case True
  then have "dropWhile isspace (show_int i @ c # rest) =
      CHR ''-'' # show_nat (nat (- i)) @ c # rest"
    by (simp add: show_int_def isspace_def)
  with True assms show ?thesis
    by (simp add: cin_int_def scan_show_nat)
next
  case False
  then have "show_int i = show_nat (nat i)"
    by (simp add: show_int_def)
  with False assms show ?thesis
    by (simp add: cin_int_def scan_show_nat hd_show_nat_digit)
qed

lemma cin_int_show_cint:
  "\<not> isdigit c \<Longrightarrow>
     cin_int old \<lparr>unread = show_cint w @ c # rest, good = True\<rparr> =
       (w, \<lparr>unread = c # rest, good = True\<rparr>)"
  by (simp add: show_cint_def cin_int_show_int)

lemma cin_int_skips_NL:
  "cin_int old \<lparr>unread = NL # s, good = True\<rparr> = cin_int old \<lparr>unread = s, good = True\<rparr>"
proof -
  have "dropWhile isspace (NL # s) = dropWhile isspace s"
    by (simp add: isspace_def)
  moreover obtain neg body where "skip_sign (dropWhile isspace s) = (neg, body)"
    by (cases "skip_sign (dropWhile isspace s)")
  ultimately show ?thesis
    by (simp add: cin_int_def Let_def del: dropWhile.simps)
qed

lemma not_isdigit_NL [simp]: "\<not> isdigit NL"
  by (simp add: isdigit_def)

section \<open>Input that is not a number\<close>

definition starts_number :: "char \<Rightarrow> bool" where
  "starts_number c \<longleftrightarrow> isspace c \<or> isdigit c \<or> c = CHR ''-'' \<or> c = CHR ''+''"

lemma cin_int_not_number:
  assumes "\<not> starts_number c"
  shows "cin_int old \<lparr>unread = c # rest, good = True\<rparr> =
     (0, \<lparr>unread = c # rest, good = False\<rparr>)"
  using assms by (simp add: cin_int_def starts_number_def skip_sign_def)

lemma cin_int_eof:
  "\<forall>c \<in> set s. isspace c \<Longrightarrow>
     cin_int old \<lparr>unread = s, good = True\<rparr> = (old, \<lparr>unread = [], good = False\<rparr>)"
  by (simp add: cin_int_def)

end
