(* ===== verification/Display.thy ===== *)
theory Display
  imports Persistence
begin

text \<open>
  What the program prints about its records: the default output format of a
  \<open>double\<close>, the two \<open>displayDetails\<close> methods and the two dashboards of
  \<open>School\<close>. The dashboards only append to the console output.
\<close>

section \<open>Output of a double\<close>

text \<open>
  \<open>operator<<(ostream&, double)\<close> with the default flags is the conversion
  \<open>%g\<close> with precision 6: the value is rounded to six significant digits, ties to
  even; with decimal exponent \<open>x\<close> of the rounded value, the fixed notation is used
  for \<open>- 4 \<le> x < 6\<close> and the scientific one otherwise, and trailing zeros of the
  fraction are dropped, with the point when nothing is left. The sign of a NaN is
  not part of the model.
\<close>

definition round_half_even :: "rat \<Rightarrow> int" where
  "round_half_even x =
     (let f = \<lfloor>x\<rfloor>; r = x - of_int f
      in if r < 1 / 2 then f else if 1 / 2 < r then f + 1 else if even f then f else f + 1)"

definition decimal_exponent :: "rat \<Rightarrow> int" where
  "decimal_exponent a =
     (if 1 \<le> a then int (length (show_nat (nat \<lfloor>a\<rfloor>))) - 1
      else let (p, q) = quotient_of a
           in - int (length (takeWhile (\<lambda>n. p * 10 ^ n < q)
                  [0..<Suc (length (show_nat (nat q)))])))"

definition scale10 :: "rat \<Rightarrow> int \<Rightarrow> rat" where
  "scale10 a k = (if 0 \<le> k then a * 10 ^ nat k else a / 10 ^ nat (- k))"

definition strip_zeros :: "string \<Rightarrow> string" where
  "strip_zeros ds = rev (dropWhile (\<lambda>c. c = CHR ''0'') (rev ds))"

definition with_fraction :: "string \<Rightarrow> string \<Rightarrow> string" where
  "with_fraction ip fr = (let f = strip_zeros fr in if f = [] then ip else ip @ CHR ''.'' # f)"

definition show_exponent :: "int \<Rightarrow> string" where
  "show_exponent x =
     CHR ''e'' # (if x < 0 then CHR ''-'' else CHR ''+'') #
     (if \<bar>x\<bar> < 10 then ''0'' else []) @ show_nat (nat \<bar>x\<bar>)"

definition show_double_pos :: "rat \<Rightarrow> string" where
  "show_double_pos a =
     (let x0 = decimal_exponent a;
          m0 = round_half_even (scale10 a (5 - x0));
          m = (if m0 = 1000000 then 100000 else m0);
          x = (if m0 = 1000000 then x0 + 1 else x0);
          ds = show_nat (nat m)
      in if x < - 4 \<or> 6 \<le> x then with_fraction (take 1 ds) (drop 1 ds) @ show_exponent x
         else if 0 \<le> x then with_fraction (take (nat x + 1) ds) (drop (nat x + 1) ds)
         else with_fraction ''0'' (replicate (nat (- x) - 1) CHR ''0'' @ ds))"

definition show_double :: "cdouble \<Rightarrow> string" where
  "show_double d =
     (case d of
        NaN \<Rightarrow> ''nan''
      | Fin q \<Rightarrow>
          if q = 0 then ''0''
          else if q < 0 then CHR ''-'' # show_double_pos (- q)
          else show_double_pos q)"

section \<open>displayDetails\<close>

text \<open>
  The loop of \<open>Student::displayDetails\<close> runs over the subjects and reads the grade
  at the same index without a check. Reading beyond the vector of grades is undefined
  in C++; \<open>vector_at\<close> gives 0 there, and \<open>student_wf\<close>, which holds of every
  student the program builds, excludes the case.
\<close>

definition vector_at :: "cint list \<Rightarrow> nat \<Rightarrow> cint" where
  "vector_at gs i = (if i < length gs then gs ! i else 0)"

function display_grades :: "Student \<Rightarrow> nat \<Rightarrow> string \<Rightarrow> string" where
  "display_grades s i out =
     (if i < length (subjects s)
      then display_grades s (Suc i)
             (out @ subjects s ! i @ '': '' @ show_cint (vector_at (grades s) i) @ [NL])
      else out)"
  by pat_completeness auto

termination
  by (relation "measure (\<lambda>(s, i, out). length (subjects s) - i)") auto

declare display_grades.simps [simp del]

definition Student_displayDetails :: "Student \<Rightarrow> string \<Rightarrow> string" where
  "Student_displayDetails s out =
     display_grades s 0
       (out @ ''Name: '' @ name s @ [NL] @ ''ID: '' @ show_cint (idn s) @ [NL] @
        ''Class: '' @ studentClass s @ [NL] @ ''Subjects and Grades: '' @ [NL]) @
     ''Average Grade: '' @ show_double (averageGrade s) @ [NL] @
     ''Result: '' @ isPassed s @ [NL]"

definition Teacher_displayDetails :: "Teacher \<Rightarrow> string \<Rightarrow> string" where
  "Teacher_displayDetails t out =
     out @ ''Name: '' @ name t @ [NL] @ ''ID: '' @ show_cint (idn t) @ [NL] @
     ''Subject: '' @ subject t @ [NL] @ ''Grade: '' @ grade t @ [NL]"

section \<open>The dashboards\<close>

abbreviation rule_line :: string where
  "rule_line \<equiv> ''----------------------'' @ [NL]"

definition displayStudentsDashboard :: "world \<Rightarrow> world" where
  "displayStudentsDashboard w =
     (if students (school w) = [] then println ''No students available.'' w
      else w\<lparr>cout :=
        foldl (\<lambda>out s. Student_displayDetails s out @ rule_line)
          (cout w @ [NL] @ ''--- Students Dashboard ---'' @ [NL]) (students (school w))\<rparr>)"

definition displayTeachersDashboard :: "world \<Rightarrow> world" where
  "displayTeachersDashboard w =
     (if teachers (school w) = [] then println ''No teachers available.'' w
      else w\<lparr>cout :=
        foldl (\<lambda>out t. Teacher_displayDetails t out @ rule_line)
          (cout w @ [NL] @ ''--- Teachers Dashboard ---'' @ [NL]) (teachers (school w))\<rparr>)"

section \<open>The text of a record\<close>

definition grade_lines :: "string list \<Rightarrow> cint list \<Rightarrow> string" where
  "grade_lines subs gs =
     concat (map (\<lambda>(sub, g). sub @ '': '' @ show_cint g @ [NL]) (zip subs gs))"

definition Student_text :: "Student \<Rightarrow> string" where
  "Student_text s =
     ''Name: '' @ name s @ [NL] @ ''ID: '' @ show_cint (idn s) @ [NL] @
     ''Class: '' @ studentClass s @ [NL] @ ''Subjects and Grades: '' @ [NL] @
     grade_lines (subjects s) (grades s) @
     ''Average Grade: '' @ show_double (averageGrade s) @ [NL] @
     ''Result: '' @ isPassed s @ [NL]"

text \<open>
  The block of a teacher, as four labelled lines.
\<close>

definition Teacher_text :: "Teacher \<Rightarrow> string" where
  "Teacher_text t =
     unlines [''Name: '' @ name t, ''ID: '' @ show_cint (idn t),
              ''Subject: '' @ subject t, ''Grade: '' @ grade t]"

lemma display_grades_drop:
  "length (grades s) = length (subjects s) \<Longrightarrow>
     display_grades s i out = out @ grade_lines (drop i (subjects s)) (drop i (grades s))"
proof (induction s i out rule: display_grades.induct)
  case (1 s i out)
  note len = "1.prems"
  show ?case
  proof (cases "i < length (subjects s)")
    case True
    with len have "drop i (subjects s) = subjects s ! i # drop (Suc i) (subjects s)"
      and "drop i (grades s) = grades s ! i # drop (Suc i) (grades s)"
      by (simp_all add: Cons_nth_drop_Suc)
    with True len "1.IH" show ?thesis
      by (simp add: display_grades.simps [of s i] grade_lines_def vector_at_def)
  next
    case False
    then show ?thesis
      by (simp add: display_grades.simps [of s i] grade_lines_def)
  qed
qed

lemma Student_displayDetails_eq:
  "length (grades s) = length (subjects s) \<Longrightarrow>
     Student_displayDetails s out = out @ Student_text s"
  by (simp add: Student_displayDetails_def Student_text_def display_grades_drop)

lemma Student_displayDetails_wf:
  "student_wf s \<Longrightarrow> Student_displayDetails s out = out @ Student_text s"
  by (rule Student_displayDetails_eq) (simp add: student_wf_def default_subjects_def)

lemma Teacher_displayDetails_eq: "Teacher_displayDetails t out = out @ Teacher_text t"
  by (simp add: Teacher_text_def Teacher_displayDetails_def)

lemma foldl_display:
  assumes "\<And>x out. x \<in> set xs \<Longrightarrow> f x out = out @ g x"
  shows "foldl (\<lambda>out x. f x out @ r) out xs = out @ concat (map (\<lambda>x. g x @ r) xs)"
  using assms by (induction xs arbitrary: out) simp_all

section \<open>The dashboards only print\<close>

lemma dashboard_frame [simp]:
  "school (displayStudentsDashboard w) = school w"
  "disk (displayStudentsDashboard w) = disk w"
  "school (displayTeachersDashboard w) = school w"
  "disk (displayTeachersDashboard w) = disk w"
  by (simp_all add: displayStudentsDashboard_def displayTeachersDashboard_def)

section \<open>Whole numbers are printed as integers\<close>

lemma show_nat_times_10: "0 < n \<Longrightarrow> show_nat (10 * n) = show_nat n @ ''0''"
  by (subst show_nat.simps) (simp add: digit_char_def)

lemma show_nat_times_power: "0 < n \<Longrightarrow> show_nat (n * 10 ^ k) = show_nat n @ replicate k CHR ''0''"
proof (induction k)
  case 0
  show ?case by simp
next
  case (Suc k)
  then have "show_nat (10 * (n * 10 ^ k)) = (show_nat n @ replicate k CHR ''0'') @ ''0''"
    by (simp add: show_nat_times_10)
  then show ?case
    by (simp add: mult.assoc mult.left_commute replicate_append_same)
qed

lemma show_nat_upper: "n < 10 ^ length (show_nat n)"
proof (induction n rule: show_nat.induct)
  case (1 n)
  show ?case
  proof (cases "n < 10")
    case True
    then show ?thesis by (subst show_nat.simps) simp
  next
    case False
    with "1.IH" have "n div 10 < 10 ^ length (show_nat (n div 10))"
      by simp
    then have "n < 10 * 10 ^ length (show_nat (n div 10))"
      by linarith
    with False show ?thesis by (subst show_nat.simps) simp
  qed
qed

lemma show_nat_lower: "0 < n \<Longrightarrow> 10 ^ (length (show_nat n) - 1) \<le> n"
proof (induction n rule: show_nat.induct)
  case (1 n)
  show ?case
  proof (cases "n < 10")
    case True
    with "1.prems" show ?thesis by (subst show_nat.simps) simp
  next
    case False
    with "1.IH" have "10 ^ (length (show_nat (n div 10)) - 1) \<le> n div 10"
      by simp
    then have "10 * 10 ^ (length (show_nat (n div 10)) - 1) \<le> n"
      by linarith
    moreover have "0 < length (show_nat (n div 10))"
      by simp
    ultimately have "10 ^ length (show_nat (n div 10)) \<le> n"
      by (cases "length (show_nat (n div 10))") simp_all
    with False show ?thesis by (subst show_nat.simps) simp
  qed
qed

lemma length_show_nat_le:
  assumes "0 < n" and "n < 10 ^ k"
  shows "length (show_nat n) \<le> k"
proof (rule ccontr)
  assume "\<not> length (show_nat n) \<le> k"
  then have "k \<le> length (show_nat n) - 1"
    by simp
  then have "(10 :: nat) ^ k \<le> 10 ^ (length (show_nat n) - 1)"
    by (rule power_increasing) simp
  also have "\<dots> \<le> n"
    by (rule show_nat_lower [OF assms(1)])
  finally show False
    using assms(2) by simp
qed

lemma round_half_even_int [simp]: "round_half_even (of_int z) = z"
  by (simp add: round_half_even_def)

lemma strip_zeros_replicate [simp]: "strip_zeros (replicate k CHR ''0'') = []"
  by (simp add: strip_zeros_def)

lemma show_double_pos_nat:
  assumes "0 < n" and "n < 1000000"
  shows "show_double_pos (of_nat n) = show_nat n"
proof -
  define l where "l = length (show_nat n)"
  from assms have l: "0 < l" "l \<le> 6"
    using length_show_nat_le [of n 6] by (simp_all add: l_def)
  define k where "k = 6 - l"
  from l have x0: "decimal_exponent (of_nat n) = int l - 1"
    using assms(1) by (simp add: decimal_exponent_def l_def)
  from l have "5 - (int l - 1) = int k"
    by (simp add: k_def)
  then have "scale10 (of_nat n) (5 - (int l - 1)) = of_int (int (n * 10 ^ k))"
    by (simp add: scale10_def)
  then have m0: "round_half_even (scale10 (of_nat n) (5 - (int l - 1))) = int (n * 10 ^ k)"
    by (simp only: round_half_even_int)
  have "n * 10 ^ k < 10 ^ l * 10 ^ k"
    using show_nat_upper [of n] by (simp add: l_def)
  also from l have "\<dots> = 1000000"
    by (simp add: k_def flip: power_add)
  finally have less: "n * 10 ^ k < 1000000" .
  have ds: "show_nat (n * 10 ^ k) = show_nat n @ replicate k CHR ''0''"
    using assms(1) by (rule show_nat_times_power)
  from less have ne: "int (n * 10 ^ k) \<noteq> 1000000"
    by linarith
  from l have take: "Suc (nat (int l - 1)) = l"
    by simp
  have "nat (int n * 10 ^ k) = n * 10 ^ k"
    by (simp add: nat_mult_distrib nat_power_eq)
  with ds have ds': "show_nat (nat (int n * 10 ^ k)) = show_nat n @ replicate k CHR ''0''"
    by simp
  from l ne show ?thesis
    unfolding show_double_pos_def Let_def x0 m0
    by (simp add: take ds' with_fraction_def flip: l_def)
qed

lemma show_double_nat: "n < 1000000 \<Longrightarrow> show_double (Fin (of_nat n)) = show_nat n"
  by (cases "n = 0") (simp_all add: show_double_def show_double_pos_nat show_nat.simps [of 0] digit_char_def)

section \<open>Properties of the display\<close>

lemma show_double_11 [simp]: "show_double (Fin 11) = ''11''"
  using show_double_nat [of 11] by (simp add: show_nat.simps digit_char_def)

lemma Student_text_alice:
  "Student_text alice =
     ''Name: Alice'' @ [NL] @ ''ID: 1'' @ [NL] @ ''Class: 10A'' @ [NL] @
     ''Subjects and Grades: '' @ [NL] @
     ''Maths: 12'' @ [NL] @ ''Physics: 8'' @ [NL] @ ''CS: 15'' @ [NL] @
     ''Electronics: 9'' @ [NL] @
     ''Average Grade: 11'' @ [NL] @ ''Result: Passed'' @ [NL]"
proof -
  have "subjects alice = default_subjects"
    by (simp add: alice_def)
  then show ?thesis
    by (simp add: Student_text_def grade_lines_def default_subjects_def isPassed_def)
qed

text \<open>
  C31. On a school that satisfies the invariant of the store (every student has four
  grades and the four fixed subjects), \<open>displayStudentsDashboard\<close> changes nothing but
  the console, to which it appends "No students available." when there is no student,
  and otherwise the title and, for every student in insertion order, the name, id,
  class, the four subjects with their grades, the average and the result, followed by a
  rule.
\<close>

theorem displayStudentsDashboard_text:
  assumes "\<forall>s \<in> set (students (school w)). student_wf s"
  shows "displayStudentsDashboard w =
     w\<lparr>cout := cout w @
       (if students (school w) = [] then ''No students available.'' @ [NL]
        else [NL] @ ''--- Students Dashboard ---'' @ [NL] @
             concat (map (\<lambda>s. Student_text s @ rule_line) (students (school w))))\<rparr>"
proof (cases "students (school w) = []")
  case True
  then show ?thesis
    by (simp add: displayStudentsDashboard_def println_def)
next
  case False
  have "foldl (\<lambda>out s. Student_displayDetails s out @ rule_line) out (students (school w)) =
      out @ concat (map (\<lambda>s. Student_text s @ rule_line) (students (school w)))" for out
    using assms by (intro foldl_display) (simp add: Student_displayDetails_wf)
  with False show ?thesis
    by (simp add: displayStudentsDashboard_def)
qed

theorem displayStudentsDashboard_text_witness:
  "cout (displayStudentsDashboard world0) =
     [NL] @ ''--- Students Dashboard ---'' @ [NL] @
     ''Name: Alice'' @ [NL] @ ''ID: 1'' @ [NL] @ ''Class: 10A'' @ [NL] @
     ''Subjects and Grades: '' @ [NL] @
     ''Maths: 12'' @ [NL] @ ''Physics: 8'' @ [NL] @ ''CS: 15'' @ [NL] @
     ''Electronics: 9'' @ [NL] @
     ''Average Grade: 11'' @ [NL] @ ''Result: Passed'' @ [NL] @ rule_line"
  using displayStudentsDashboard_text [of world0]
  by (simp add: world0_defs Student_text_alice)

text \<open>
  C32. \<open>displayTeachersDashboard\<close> changes nothing but the console, to which it
  appends "No teachers available." when there is no teacher, and otherwise the title
  and, for every teacher in insertion order, the name, id, subject and grade category,
  followed by a rule.
\<close>

theorem displayTeachersDashboard_text:
  "displayTeachersDashboard w =
     w\<lparr>cout := cout w @
       (if teachers (school w) = [] then ''No teachers available.'' @ [NL]
        else [NL] @ ''--- Teachers Dashboard ---'' @ [NL] @
             concat (map (\<lambda>t. Teacher_text t @ rule_line) (teachers (school w))))\<rparr>"
proof (cases "teachers (school w) = []")
  case True
  then show ?thesis
    by (simp add: displayTeachersDashboard_def println_def)
next
  case False
  have "foldl (\<lambda>out t. Teacher_displayDetails t out @ rule_line) out (teachers (school w)) =
      out @ concat (map (\<lambda>t. Teacher_text t @ rule_line) (teachers (school w)))" for out
    by (intro foldl_display) (rule Teacher_displayDetails_eq)
  with False show ?thesis
    by (simp add: displayTeachersDashboard_def)
qed

theorem displayTeachersDashboard_text_witness:
  "cout (displayTeachersDashboard world0) =
     [NL] @ ''--- Teachers Dashboard ---'' @ [NL] @
     ''Name: Bob'' @ [NL] @ ''ID: 7'' @ [NL] @ ''Subject: Maths'' @ [NL] @
     ''Grade: Professor'' @ [NL] @ rule_line \<and>
   cout (displayTeachersDashboard (world0\<lparr>school := school0\<lparr>teachers := []\<rparr>\<rparr>)) =
     ''No teachers available.'' @ [NL]"
  using displayTeachersDashboard_text [of world0]
    displayTeachersDashboard_text [of "world0\<lparr>school := school0\<lparr>teachers := []\<rparr>\<rparr>"]
  by (simp add: world0_defs Teacher_text_def)

text \<open>
  C33. An average that is a whole number is printed like an \<open>int\<close>: for a
  well-formed student whose four grades sum to \<open>4 * a\<close> with \<open>0 \<le> a < 10\<^sup>6\<close>, the
  text after "Average Grade: " is the decimal numeral of \<open>a\<close>, without a point, and
  \<open>Student::displayDetails\<close> prints the name, id and class, the four subjects with
  their grades, that numeral, and "Passed" exactly when \<open>a\<close> is at least 10.
\<close>

theorem whole_average_shown:
  assumes "student_wf s" and "small_grades (grades s)"
    and "sum_list (map sint (grades s)) = 4 * a" and "0 \<le> a" and "a < 1000000"
  shows "show_double (averageGrade s) = show_int a \<and>
     Student_displayDetails s out =
       out @ ''Name: '' @ name s @ [NL] @ ''ID: '' @ show_cint (idn s) @ [NL] @
       ''Class: '' @ studentClass s @ [NL] @ ''Subjects and Grades: '' @ [NL] @
       grade_lines [''Maths'', ''Physics'', ''CS'', ''Electronics''] (grades s) @
       ''Average Grade: '' @ show_int a @ [NL] @
       ''Result: '' @ (if 10 \<le> a then ''Passed'' else ''Failed'') @ [NL]"
proof -
  from assms(1-3) have avg: "averageGrade s = Fin (of_int a)"
    by (simp add: student_wf_average)
  moreover have "show_double (Fin (of_int a)) = show_nat (nat a)"
    using show_double_nat [of "nat a"] assms(4,5) by simp
  ultimately have shown: "show_double (averageGrade s) = show_int a"
    using assms(4) by (simp add: show_int_def)
  have "(10 :: rat) \<le> of_int a \<longleftrightarrow> 10 \<le> a"
    using of_int_le_iff [of 10 a, where ?'a = rat] by simp
  with avg have "isPassed s = (if 10 \<le> a then ''Passed'' else ''Failed'')"
    by (simp add: isPassed_def)
  moreover from assms(1) have "subjects s = [''Maths'', ''Physics'', ''CS'', ''Electronics'']"
    by (simp add: student_wf_def default_subjects_def)
  ultimately show ?thesis
    using shown Student_displayDetails_wf [OF assms(1), of out] by (simp add: Student_text_def)
qed

theorem whole_average_shown_witness:
  "show_double (averageGrade alice) = ''11'' \<and>
   Student_displayDetails alice [] =
     ''Name: Alice'' @ [NL] @ ''ID: 1'' @ [NL] @ ''Class: 10A'' @ [NL] @
     ''Subjects and Grades: '' @ [NL] @
     ''Maths: 12'' @ [NL] @ ''Physics: 8'' @ [NL] @ ''CS: 15'' @ [NL] @
     ''Electronics: 9'' @ [NL] @
     ''Average Grade: 11'' @ [NL] @ ''Result: Passed'' @ [NL]"
  using whole_average_shown [of alice 11 "[]"]
  by (simp add: show_int_def show_nat.simps digit_char_def grade_lines_def
      show_cint_def del: alice_fields(5))

end
