(* ===== verification/Shell.thy ===== *)
theory Shell
  imports Store_Runs Display Cxx_Console "HOL-Library.State_Monad"
begin

text \<open>
  The interactive part of the program: the four methods of \<open>School\<close> that prompt
  and read their values from \<open>cin\<close>, \<open>displayMenu\<close>, and the loop of
  \<open>main\<close>. The state is the world of the store together with the input stream, and
  the methods are computations in the state monad over it, written in the order of
  the statements of the source.
\<close>

section \<open>State and primitives\<close>

record session =
  sys :: world
  cin :: istream

type_synonym 'a io = "(session, 'a) state"

definition put :: "string \<Rightarrow> unit io" where
  "put s = State_Monad.update (\<lambda>p. p\<lparr>sys := (sys p)\<lparr>cout := cout (sys p) @ s\<rparr>\<rparr>)"

definition ignore :: "unit io" where
  "ignore = State_Monad.update (\<lambda>p. p\<lparr>cin := cin_ignore (cin p)\<rparr>)"

definition get_line :: "string \<Rightarrow> string io" where
  "get_line old = State (\<lambda>p. case cin_getline old (cin p) of (l, i) \<Rightarrow> (l, p\<lparr>cin := i\<rparr>))"

definition get_int :: "cint \<Rightarrow> cint io" where
  "get_int old = State (\<lambda>p. case cin_int old (cin p) of (n, i) \<Rightarrow> (n, p\<lparr>cin := i\<rparr>))"

definition on_world :: "(world \<Rightarrow> world) \<Rightarrow> unit io" where
  "on_world f = State_Monad.update (\<lambda>p. p\<lparr>sys := f (sys p)\<rparr>)"

section \<open>The methods that read their values\<close>

text \<open>
  A local \<open>int\<close> is declared without a value; when the extraction that should fill
  it is not attempted because the stream is no longer good, the program goes on with
  that indeterminate value. The model takes it as the parameter \<open>junk\<close>, and every
  theorem holds for every \<open>junk\<close>.
\<close>

definition subject_prompt :: "nat \<Rightarrow> string" where
  "subject_prompt i =
     (if i = 0 then ''Maths'' else if i = 1 then ''Physics''
      else if i = 2 then ''CS'' else ''Electronics'')"

function read_grades :: "nat \<Rightarrow> cint list \<Rightarrow> cint list io" where
  "read_grades i gs =
     (if i < length gs
      then do {
        put (''Enter grade for '' @ subject_prompt i @ '': '');
        g \<leftarrow> get_int (gs ! i);
        read_grades (Suc i) (gs[i := g])
      }
      else State_Monad.return gs)"
  by pat_completeness auto

termination
  by (relation "measure (\<lambda>(i, gs). length gs - i)") auto

declare read_grades.simps [simp del]

definition School_addStudent :: "cint \<Rightarrow> unit io" where
  "School_addStudent junk = do {
     put ''Enter Student Name: '';
     ignore;
     n \<leftarrow> get_line [];
     put ''Enter Student ID: '';
     i \<leftarrow> get_int junk;
     put ''Enter Student Class: '';
     ignore;
     c \<leftarrow> get_line [];
     gs \<leftarrow> read_grades 0 (replicate 4 0);
     on_world (addStudent n i c gs)
   }"

definition School_addTeacher :: "cint \<Rightarrow> unit io" where
  "School_addTeacher junk = do {
     put ''Enter Teacher Name: '';
     ignore;
     n \<leftarrow> get_line [];
     put ''Enter Teacher ID: '';
     i \<leftarrow> get_int junk;
     put ''Enter Subject (Maths, Physics, CS, Electronics): '';
     ignore;
     s \<leftarrow> get_line [];
     put ''Enter Grade (Professor, Assistant, Conference): '';
     g \<leftarrow> get_line [];
     on_world (addTeacher n i s g)
   }"

definition School_deleteStudent :: "cint \<Rightarrow> unit io" where
  "School_deleteStudent junk = do {
     put ''Enter Student ID to delete: '';
     i \<leftarrow> get_int junk;
     on_world (deleteStudent i)
   }"

definition School_deleteTeacher :: "cint \<Rightarrow> unit io" where
  "School_deleteTeacher junk = do {
     put ''Enter Teacher ID to delete: '';
     i \<leftarrow> get_int junk;
     on_world (deleteTeacher i)
   }"

section \<open>The menu and the loop of main\<close>

definition menu_text :: string where
  "menu_text =
     [NL] @ ''--- School Management System ---'' @ [NL] @
     ''1. Add Student'' @ [NL] @ ''2. Add Teacher'' @ [NL] @
     ''3. View Student Dashboard'' @ [NL] @ ''4. View Teacher Dashboard'' @ [NL] @
     ''5. Delete Student'' @ [NL] @ ''6. Delete Teacher'' @ [NL] @ ''7. Exit'' @ [NL]"

definition displayMenu :: "unit io" where
  "displayMenu = put menu_text"

text \<open>
  One turn of the loop: the menu, the prompt, the extraction of \<open>choice\<close>, which
  keeps its value from the turn before when nothing is extracted, and the switch. The
  result says whether \<open>main\<close> has returned, and gives the value of \<open>choice\<close>.
\<close>

definition dispatch :: "cint \<Rightarrow> cint \<Rightarrow> (bool \<times> cint) io" where
  "dispatch junk ch =
     (if ch = 1 then do { School_addStudent junk; State_Monad.return (False, ch) }
      else if ch = 2 then do { School_addTeacher junk; State_Monad.return (False, ch) }
      else if ch = 3 then do { on_world displayStudentsDashboard; State_Monad.return (False, ch) }
      else if ch = 4 then do { on_world displayTeachersDashboard; State_Monad.return (False, ch) }
      else if ch = 5 then do { School_deleteStudent junk; State_Monad.return (False, ch) }
      else if ch = 6 then do { School_deleteTeacher junk; State_Monad.return (False, ch) }
      else if ch = 7 then do { put (''Exiting...'' @ [NL]); State_Monad.return (True, ch) }
      else do {
        put (''Invalid choice! Please try again.'' @ [NL]);
        State_Monad.return (False, ch)
      })"

definition menu_step :: "cint \<Rightarrow> cint \<Rightarrow> (bool \<times> cint) io" where
  "menu_step junk choice = do {
     displayMenu;
     put ''Enter your choice: '';
     ch \<leftarrow> get_int choice;
     dispatch junk ch
   }"

text \<open>
  The loop \<open>while (true)\<close> has no bound: \<open>main_loop\<close> is \<open>None\<close> when it never
  reaches the \<open>return\<close> of choice 7.
\<close>

partial_function (option) main_loop :: "cint \<Rightarrow> cint \<Rightarrow> session \<Rightarrow> session option" where
  "main_loop junk choice p =
     (case run_state (menu_step junk choice) p of
        (r, p') \<Rightarrow> if fst r then Some p' else main_loop junk (snd r) p')"

text \<open>
  The first \<open>k\<close> turns of the same loop, to say what a run that never returns does
  on its way: the result of the last turn taken and the state after it; the turns
  stop early when one of them returns.
\<close>

fun turns :: "nat \<Rightarrow> cint \<Rightarrow> cint \<Rightarrow> session \<Rightarrow> (bool \<times> cint) \<times> session" where
  "turns 0 junk choice p = ((False, choice), p)"
| "turns (Suc k) junk choice p =
     (case run_state (menu_step junk choice) p of
        (r, p') \<Rightarrow> if fst r then (r, p') else turns k junk (snd r) p')"

text \<open>
  The program: the constructor of the school, whose exception ends the program before
  the first menu, then the loop. \<open>Inr None\<close> is a run that does not end. The
  variable \<open>choice\<close> is declared without a value too; its indeterminate value is
  the second parameter.
\<close>

definition main :: "cint \<Rightarrow> cint \<Rightarrow> filesys \<Rightarrow> string \<Rightarrow> session option result" where
  "main junk choice fs input =
     (case School_new fs [] of
        Inl e \<Rightarrow> Inl e
      | Inr w \<Rightarrow> Inr (main_loop junk choice \<lparr>sys = w, cin = istream_of input\<rparr>))"

section \<open>Running the primitives\<close>

lemma run_put [simp]:
  "run_state (put s) p = ((), p\<lparr>sys := (sys p)\<lparr>cout := cout (sys p) @ s\<rparr>\<rparr>)"
  by (simp add: put_def State_Monad.update_def)

lemma run_ignore [simp]: "run_state ignore p = ((), p\<lparr>cin := cin_ignore (cin p)\<rparr>)"
  by (simp add: ignore_def State_Monad.update_def)

lemma run_get_line [simp]:
  "run_state (get_line old) p =
     (fst (cin_getline old (cin p)), p\<lparr>cin := snd (cin_getline old (cin p))\<rparr>)"
  by (simp add: get_line_def split: prod.splits)

lemma run_get_int [simp]:
  "run_state (get_int old) p =
     (fst (cin_int old (cin p)), p\<lparr>cin := snd (cin_int old (cin p))\<rparr>)"
  by (simp add: get_int_def split: prod.splits)

lemma run_on_world [simp]: "run_state (on_world f) p = ((), p\<lparr>sys := f (sys p)\<rparr>)"
  by (simp add: on_world_def State_Monad.update_def)

lemmas handler_defs =
  School_addStudent_def School_addTeacher_def School_deleteStudent_def
  School_deleteTeacher_def displayMenu_def dispatch_def

section \<open>The grade loop\<close>

definition grade_prompts :: "nat \<Rightarrow> nat \<Rightarrow> string" where
  "grade_prompts i n =
     concat (map (\<lambda>j. ''Enter grade for '' @ subject_prompt j @ '': '') [i..<n])"

lemma grade_prompts_simps [simp]:
  "n \<le> i \<Longrightarrow> grade_prompts i n = []"
  "i < n \<Longrightarrow> grade_prompts i n =
     ''Enter grade for '' @ subject_prompt i @ '': '' @ grade_prompts (Suc i) n"
  by (simp_all add: grade_prompts_def upt_conv_Cons)

lemma length_read_grades [simp]:
  "length (fst (run_state (read_grades i gs) p)) = length gs"
proof (induction i gs arbitrary: p rule: read_grades.induct)
  case (1 i gs)
  then show ?case
    by (simp add: read_grades.simps [of i gs] split: prod.splits)
qed

lemma read_grades_frame [simp]:
  "school (sys (snd (run_state (read_grades i gs) p))) = school (sys p)"
  "disk (sys (snd (run_state (read_grades i gs) p))) = disk (sys p)"
proof (induction i gs arbitrary: p rule: read_grades.induct)
  case (1 i gs)
  {
    case 1
    with "1.IH"(1) show ?case
      by (simp add: read_grades.simps [of i gs] split: prod.splits)
  next
    case 2
    with "1.IH"(2) show ?case
      by (simp add: read_grades.simps [of i gs] split: prod.splits)
  }
qed

lemma read_grades_failed:
  "\<not> good (cin p) \<Longrightarrow>
     run_state (read_grades i gs) p =
       (gs, p\<lparr>sys := (sys p)\<lparr>cout := cout (sys p) @ grade_prompts i (length gs)\<rparr>\<rparr>)"
proof (induction "length gs - i" arbitrary: i p)
  case 0
  then show ?case
    by (simp add: read_grades.simps [of i gs])
next
  case (Suc k)
  let ?q = "p\<lparr>sys := (sys p)\<lparr>cout := cout (sys p) @
    ''Enter grade for '' @ subject_prompt i @ '': ''\<rparr>\<rparr>"
  from Suc.hyps(2) have i: "i < length gs" and k: "k = length gs - Suc i"
    by simp_all
  from Suc.prems have "\<not> good (cin ?q)"
    by simp
  with k have "run_state (read_grades (Suc i) gs) ?q =
      (gs, ?q\<lparr>sys := (sys ?q)\<lparr>cout := cout (sys ?q) @ grade_prompts (Suc i) (length gs)\<rparr>\<rparr>)"
    by (rule Suc.hyps(1))
  with i Suc.prems show ?case
    by (simp add: read_grades.simps [of i gs])
qed

lemma cin_int_answer:
  "cin_int old \<lparr>unread = show_cint v @ NL # rest, good = True\<rparr> =
     (v, \<lparr>unread = NL # rest, good = True\<rparr>)"
  "cin_int old \<lparr>unread = NL # show_cint v @ NL # rest, good = True\<rparr> =
     (v, \<lparr>unread = NL # rest, good = True\<rparr>)"
  by (simp_all add: cin_int_skips_NL cin_int_show_cint)

lemma read_grades_unfold:
  "i < length gs \<Longrightarrow>
     run_state (read_grades i gs) \<lparr>sys = w, cin = ins\<rparr> =
       run_state (read_grades (Suc i) (gs[i := fst (cin_int (gs ! i) ins)]))
         \<lparr>sys = w\<lparr>cout := cout w @ ''Enter grade for '' @ subject_prompt i @ '': ''\<rparr>,
          cin = snd (cin_int (gs ! i) ins)\<rparr>"
  "length gs \<le> i \<Longrightarrow> run_state (read_grades i gs) p = (gs, p)"
  by (simp_all add: read_grades.simps [of i gs])

lemma read_grades_typed:
  "run_state (read_grades 0 (replicate 4 0))
     \<lparr>sys = w, cin = \<lparr>unread = show_cint g0 @ NL # show_cint g1 @ NL # show_cint g2 @ NL #
        show_cint g3 @ NL # rest, good = True\<rparr>\<rparr> =
     ([g0, g1, g2, g3],
      \<lparr>sys = w\<lparr>cout := cout w @ grade_prompts 0 4\<rparr>,
       cin = \<lparr>unread = NL # rest, good = True\<rparr>\<rparr>)"
  by (simp add: read_grades_unfold cin_int_answer numeral_eq_Suc)

section \<open>One turn of the menu\<close>

lemma cin_int_choice [simp]:
  "cin_int old \<lparr>unread = CHR ''1'' # NL # rest, good = True\<rparr> =
     (1, \<lparr>unread = NL # rest, good = True\<rparr>)"
  "cin_int old \<lparr>unread = CHR ''2'' # NL # rest, good = True\<rparr> =
     (2, \<lparr>unread = NL # rest, good = True\<rparr>)"
  "cin_int old \<lparr>unread = CHR ''3'' # NL # rest, good = True\<rparr> =
     (3, \<lparr>unread = NL # rest, good = True\<rparr>)"
  "cin_int old \<lparr>unread = CHR ''4'' # NL # rest, good = True\<rparr> =
     (4, \<lparr>unread = NL # rest, good = True\<rparr>)"
  "cin_int old \<lparr>unread = CHR ''5'' # NL # rest, good = True\<rparr> =
     (5, \<lparr>unread = NL # rest, good = True\<rparr>)"
  "cin_int old \<lparr>unread = CHR ''6'' # NL # rest, good = True\<rparr> =
     (6, \<lparr>unread = NL # rest, good = True\<rparr>)"
  "cin_int old \<lparr>unread = CHR ''7'' # NL # rest, good = True\<rparr> =
     (7, \<lparr>unread = NL # rest, good = True\<rparr>)"
  using cin_int_answer(1) [of old 1 rest] cin_int_answer(1) [of old 2 rest]
    cin_int_answer(1) [of old 3 rest] cin_int_answer(1) [of old 4 rest]
    cin_int_answer(1) [of old 5 rest] cin_int_answer(1) [of old 6 rest]
    cin_int_answer(1) [of old 7 rest]
  by (simp_all add: show_cint_def show_int_def show_nat.simps digit_char_def)

lemma menu_step_skips_NL:
  "run_state (menu_step junk ch) \<lparr>sys = w, cin = \<lparr>unread = NL # s, good = True\<rparr>\<rparr> =
   run_state (menu_step junk ch) \<lparr>sys = w, cin = \<lparr>unread = s, good = True\<rparr>\<rparr>"
  by (simp add: menu_step_def displayMenu_def cin_int_skips_NL)

abbreviation menu_prompt :: string where
  "menu_prompt \<equiv> menu_text @ ''Enter your choice: ''"

lemma menu_step_add_student:
  assumes "NL \<notin> set n" and "NL \<notin> set c"
  shows "run_state (menu_step junk ch)
     \<lparr>sys = w, cin = \<lparr>unread = ''1'' @ NL # n @ NL # show_cint i @ NL # c @ NL #
        show_cint g0 @ NL # show_cint g1 @ NL # show_cint g2 @ NL # show_cint g3 @ NL # rest,
        good = True\<rparr>\<rparr> =
     ((False, 1),
      \<lparr>sys = exec (AddStudent n i c g0 g1 g2 g3)
         (w\<lparr>cout := cout w @ menu_prompt @ ''Enter Student Name: '' @ ''Enter Student ID: '' @
            ''Enter Student Class: '' @ grade_prompts 0 4\<rparr>),
       cin = \<lparr>unread = NL # rest, good = True\<rparr>\<rparr>)"
  using assms
  by (simp add: menu_step_def handler_defs cin_getline_line cin_int_answer read_grades_typed
      del: grade_prompts_simps)

lemma menu_step_add_teacher:
  assumes "NL \<notin> set n" and "NL \<notin> set s" and "NL \<notin> set g"
  shows "run_state (menu_step junk ch)
     \<lparr>sys = w, cin = \<lparr>unread = ''2'' @ NL # n @ NL # show_cint i @ NL # s @ NL # g @ NL # rest,
        good = True\<rparr>\<rparr> =
     ((False, 2),
      \<lparr>sys = exec (AddTeacher n i s g)
         (w\<lparr>cout := cout w @ menu_prompt @ ''Enter Teacher Name: '' @ ''Enter Teacher ID: '' @
            ''Enter Subject (Maths, Physics, CS, Electronics): '' @
            ''Enter Grade (Professor, Assistant, Conference): ''\<rparr>),
       cin = \<lparr>unread = rest, good = True\<rparr>\<rparr>)"
  using assms
  by (simp add: menu_step_def handler_defs cin_getline_line cin_int_answer)

lemma menu_step_delete_student:
  "run_state (menu_step junk ch)
     \<lparr>sys = w, cin = \<lparr>unread = ''5'' @ NL # show_cint i @ NL # rest, good = True\<rparr>\<rparr> =
     ((False, 5),
      \<lparr>sys = exec (DeleteStudent i) (w\<lparr>cout := cout w @ menu_prompt @ ''Enter Student ID to delete: ''\<rparr>),
       cin = \<lparr>unread = NL # rest, good = True\<rparr>\<rparr>)"
  by (simp add: menu_step_def handler_defs cin_int_answer)

lemma menu_step_delete_teacher:
  "run_state (menu_step junk ch)
     \<lparr>sys = w, cin = \<lparr>unread = ''6'' @ NL # show_cint i @ NL # rest, good = True\<rparr>\<rparr> =
     ((False, 6),
      \<lparr>sys = exec (DeleteTeacher i) (w\<lparr>cout := cout w @ menu_prompt @ ''Enter Teacher ID to delete: ''\<rparr>),
       cin = \<lparr>unread = NL # rest, good = True\<rparr>\<rparr>)"
  by (simp add: menu_step_def handler_defs cin_int_answer)

lemma menu_step_view:
  "run_state (menu_step junk ch)
     \<lparr>sys = w, cin = \<lparr>unread = ''3'' @ NL # rest, good = True\<rparr>\<rparr> =
     ((False, 3),
      \<lparr>sys = displayStudentsDashboard (w\<lparr>cout := cout w @ menu_prompt\<rparr>),
       cin = \<lparr>unread = NL # rest, good = True\<rparr>\<rparr>)"
  "run_state (menu_step junk ch)
     \<lparr>sys = w, cin = \<lparr>unread = ''4'' @ NL # rest, good = True\<rparr>\<rparr> =
     ((False, 4),
      \<lparr>sys = displayTeachersDashboard (w\<lparr>cout := cout w @ menu_prompt\<rparr>),
       cin = \<lparr>unread = NL # rest, good = True\<rparr>\<rparr>)"
  by (simp_all add: menu_step_def handler_defs)

lemma menu_step_exit:
  "run_state (menu_step junk ch)
     \<lparr>sys = w, cin = \<lparr>unread = ''7'' @ NL # rest, good = True\<rparr>\<rparr> =
     ((True, 7),
      \<lparr>sys = w\<lparr>cout := cout w @ menu_prompt @ ''Exiting...'' @ [NL]\<rparr>,
       cin = \<lparr>unread = NL # rest, good = True\<rparr>\<rparr>)"
  by (simp add: menu_step_def handler_defs)

section \<open>The store invariant holds whatever is typed\<close>

lemma school_wf_handlers:
  assumes "school_wf (school w)"
  shows "length gs = 4 \<Longrightarrow> school_wf (school (addStudent n i c gs w))"
    and "school_wf (school (addTeacher n i s g w))"
    and "school_wf (school (deleteStudent i w))"
    and "school_wf (school (deleteTeacher i w))"
  using assms exec_school_wf [of w "DeleteStudent i"] exec_school_wf [of w "DeleteTeacher i"]
  by (simp_all add: school_wf_def Student_new_wf)

lemma dispatch_school_wf:
  "school_wf (school (sys p)) \<Longrightarrow>
     school_wf (school (sys (snd (run_state (dispatch junk ch) p))))"
  by (simp add: handler_defs case_prod_beta school_wf_handlers
      del: addStudent_school addTeacher_school)

lemma menu_step_school_wf:
  "school_wf (school (sys p)) \<Longrightarrow>
     school_wf (school (sys (snd (run_state (menu_step junk ch) p))))"
  by (simp add: menu_step_def displayMenu_def case_prod_beta dispatch_school_wf)

section \<open>A stream that is not good: the loop never ends\<close>

lemma dispatch_failed:
  assumes "\<not> good (cin p)"
  shows "fst (run_state (dispatch junk ch) p) = (ch = 7, ch)"
    and "cin (snd (run_state (dispatch junk ch) p)) = cin p"
  using assms by (simp_all add: handler_defs read_grades_failed)

lemma menu_step_failed:
  assumes "\<not> good (cin p)"
  shows "fst (run_state (menu_step junk ch) p) = (ch = 7, ch)"
    and "cin (snd (run_state (menu_step junk ch) p)) = cin p"
  using assms by (simp_all add: menu_step_def displayMenu_def dispatch_failed)

lemma main_loop_returns_good:
  assumes "main_loop junk ch p = Some y"
  shows "good (cin p) \<or> ch = 7"
proof (rule main_loop.raw_induct
    [where P = "\<lambda>j c q r. good (cin q) \<or> c = 7", OF _ assms], goal_cases)
  case (1 loop junk ch p y)
  show ?case
  proof (rule ccontr)
    assume "\<not> (good (cin p) \<or> ch = 7)"
    then have bad: "\<not> good (cin p)" and ne: "ch \<noteq> 7"
      by simp_all
    obtain r p' where run: "run_state (menu_step junk ch) p = (r, p')"
      by (cases "run_state (menu_step junk ch) p")
    with menu_step_failed [OF bad, of junk ch] ne have r: "r = (False, ch)" and p': "cin p' = cin p"
      by simp_all
    with "1"(2) run have "loop junk ch p' = Some y"
      by simp
    then have "good (cin p') \<or> ch = 7"
      by (rule "1"(1))
    with bad ne p' show False
      by simp
  qed
qed

lemma main_loop_stuck: "\<not> good (cin p) \<Longrightarrow> ch \<noteq> 7 \<Longrightarrow> main_loop junk ch p = None"
  using main_loop_returns_good [of junk ch p] by (cases "main_loop junk ch p") auto

lemma main_loop_step:
  "run_state (menu_step junk ch) p = ((False, ch'), p') \<Longrightarrow>
     main_loop junk ch p = main_loop junk ch' p'"
  "run_state (menu_step junk ch) p = ((True, ch'), p') \<Longrightarrow> main_loop junk ch p = Some p'"
  by (simp_all add: main_loop.simps [of junk ch p])

lemma main_loop_skips_NL:
  "main_loop junk ch \<lparr>sys = w, cin = \<lparr>unread = NL # s, good = True\<rparr>\<rparr> =
   main_loop junk ch \<lparr>sys = w, cin = \<lparr>unread = s, good = True\<rparr>\<rparr>"
  by (simp add: main_loop.simps [of junk ch "\<lparr>sys = w, cin = \<lparr>unread = NL # s, good = True\<rparr>\<rparr>"]
      main_loop.simps [of junk ch "\<lparr>sys = w, cin = \<lparr>unread = s, good = True\<rparr>\<rparr>"]
      menu_step_skips_NL)

section \<open>What the user types for a command\<close>

text \<open>
  The text a user types to make the shell run a command of the store: the menu choice
  and then one line for each prompt. A text field can be typed when it holds no
  newline.
\<close>

fun typed :: "command \<Rightarrow> string" where
  "typed (AddStudent n i c g0 g1 g2 g3) =
     ''1'' @ NL # n @ NL # show_cint i @ NL # c @ NL # show_cint g0 @ NL # show_cint g1 @ NL #
     show_cint g2 @ NL # show_cint g3 @ [NL]"
| "typed (AddTeacher n i s g) = ''2'' @ NL # n @ NL # show_cint i @ NL # s @ NL # g @ [NL]"
| "typed (DeleteStudent i) = ''5'' @ NL # show_cint i @ [NL]"
| "typed (DeleteTeacher i) = ''6'' @ NL # show_cint i @ [NL]"

fun typable :: "command \<Rightarrow> bool" where
  "typable (AddStudent n i c g0 g1 g2 g3) \<longleftrightarrow> NL \<notin> set n \<and> NL \<notin> set c"
| "typable (AddTeacher n i s g) \<longleftrightarrow> NL \<notin> set n \<and> NL \<notin> set s \<and> NL \<notin> set g"
| "typable (DeleteStudent i) \<longleftrightarrow> True"
| "typable (DeleteTeacher i) \<longleftrightarrow> True"

definition same_data :: "world \<Rightarrow> world \<Rightarrow> bool" where
  "same_data w w' \<longleftrightarrow> school w = school w' \<and> disk w = disk w'"

lemma same_data_refl [simp]: "same_data w w" "same_data (w\<lparr>cout := out\<rparr>) w"
  by (simp_all add: same_data_def)

lemma same_data_trans: "same_data w w' \<Longrightarrow> same_data w' w'' \<Longrightarrow> same_data w w''"
  by (simp add: same_data_def)

lemma saveToFile_same_data: "same_data w w' \<Longrightarrow> same_data (saveToFile w) (saveToFile w')"
  by (simp add: same_data_def saveToFile_def ofstream_open_def ofstream_close_def)

lemma exec_same_data: "same_data w w' \<Longrightarrow> same_data (exec c w) (exec c w')"
proof (cases c)
  case (DeleteStudent i)
  assume "same_data w w'"
  then have "students (school w) = students (school w')"
    by (simp add: same_data_def)
  with \<open>same_data w w'\<close> DeleteStudent show ?thesis
    by (auto simp: deleteStudent_def split: option.splits intro!: saveToFile_same_data)
      (simp_all add: same_data_def)
next
  case (DeleteTeacher i)
  assume "same_data w w'"
  then have "teachers (school w) = teachers (school w')"
    by (simp add: same_data_def)
  with \<open>same_data w w'\<close> DeleteTeacher show ?thesis
    by (auto simp: deleteTeacher_def split: option.splits intro!: saveToFile_same_data)
      (simp_all add: same_data_def)
qed (auto simp: addStudent_def addTeacher_def same_data_def push_student_def push_teacher_def
    intro!: saveToFile_same_data [unfolded same_data_def, THEN conjunct1]
      saveToFile_same_data [unfolded same_data_def, THEN conjunct2])

lemma typed_stepI:
  assumes "run_state m p =
      ((False, ch'), \<lparr>sys = exec c (w\<lparr>cout := out\<rparr>), cin = \<lparr>unread = r, good = True\<rparr>\<rparr>)"
    and "r = rest \<or> r = NL # rest"
  shows "\<exists>ch' w' r. run_state m p =
        ((False, ch'), \<lparr>sys = w', cin = \<lparr>unread = r, good = True\<rparr>\<rparr>) \<and>
      same_data w' (exec c w) \<and> (r = rest \<or> r = NL # rest)"
proof -
  have "same_data (exec c (w\<lparr>cout := out\<rparr>)) (exec c w)"
    by (rule exec_same_data) simp
  with assms show ?thesis
    by blast
qed

lemma menu_step_typed:
  assumes "typable c"
  shows "\<exists>ch' w' r. run_state (menu_step junk ch)
        \<lparr>sys = w, cin = \<lparr>unread = typed c @ rest, good = True\<rparr>\<rparr> =
          ((False, ch'), \<lparr>sys = w', cin = \<lparr>unread = r, good = True\<rparr>\<rparr>) \<and>
      same_data w' (exec c w) \<and> (r = rest \<or> r = NL # rest)"
proof (cases c)
  case (AddStudent n i cl g0 g1 g2 g3)
  have t: "typed (AddStudent n i cl g0 g1 g2 g3) @ rest =
      ''1'' @ NL # n @ NL # show_cint i @ NL # cl @ NL # show_cint g0 @ NL # show_cint g1 @ NL #
      show_cint g2 @ NL # show_cint g3 @ NL # rest"
    by simp
  from assms AddStudent have "NL \<notin> set n" "NL \<notin> set cl"
    by simp_all
  from menu_step_add_student [OF this, of junk ch w i g0 g1 g2 g3 rest] show ?thesis
    unfolding AddStudent t by (rule typed_stepI) simp
next
  case (AddTeacher n i s g)
  have t: "typed (AddTeacher n i s g) @ rest = ''2'' @ NL # n @ NL # show_cint i @ NL # s @ NL # g @ NL # rest"
    by simp
  from assms AddTeacher have "NL \<notin> set n" "NL \<notin> set s" "NL \<notin> set g"
    by simp_all
  from menu_step_add_teacher [OF this, of junk ch w i rest] show ?thesis
    unfolding AddTeacher t by (rule typed_stepI) simp
next
  case (DeleteStudent i)
  have t: "typed (DeleteStudent i) @ rest = ''5'' @ NL # show_cint i @ NL # rest"
    by simp
  from menu_step_delete_student [of junk ch w i rest] show ?thesis
    unfolding DeleteStudent t by (rule typed_stepI) simp
next
  case (DeleteTeacher i)
  have t: "typed (DeleteTeacher i) @ rest = ''6'' @ NL # show_cint i @ NL # rest"
    by simp
  from menu_step_delete_teacher [of junk ch w i rest] show ?thesis
    unfolding DeleteTeacher t by (rule typed_stepI) simp
qed

lemma main_loop_typed:
  assumes "\<forall>c \<in> set cs. typable c" and "same_data w w0"
  shows "\<exists>p'. main_loop junk ch
        \<lparr>sys = w, cin = \<lparr>unread = concat (map typed cs) @ ''7'' @ NL # rest, good = True\<rparr>\<rparr> =
          Some p' \<and>
      same_data (sys p') (run cs w0) \<and> cin p' = \<lparr>unread = NL # rest, good = True\<rparr>"
  using assms
proof (induction cs arbitrary: w w0 ch)
  case Nil
  then show ?case
    using main_loop_step(2) [OF menu_step_exit, of junk ch w rest]
    by (simp add: same_data_def)
next
  case (Cons c cs)
  let ?rest = "concat (map typed cs) @ ''7'' @ NL # rest"
  from Cons.prems have "typable c" and cs: "\<forall>c \<in> set cs. typable c"
    by simp_all
  from menu_step_typed [OF \<open>typable c\<close>, of junk ch w ?rest]
  obtain ch' w' r where
    step: "run_state (menu_step junk ch) \<lparr>sys = w, cin = \<lparr>unread = typed c @ ?rest, good = True\<rparr>\<rparr> =
      ((False, ch'), \<lparr>sys = w', cin = \<lparr>unread = r, good = True\<rparr>\<rparr>)"
    and w': "same_data w' (exec c w)" and r: "r = ?rest \<or> r = NL # ?rest"
    by blast
  from r have "main_loop junk ch' \<lparr>sys = w', cin = \<lparr>unread = r, good = True\<rparr>\<rparr> =
      main_loop junk ch' \<lparr>sys = w', cin = \<lparr>unread = ?rest, good = True\<rparr>\<rparr>"
    by (auto simp: main_loop_skips_NL)
  with main_loop_step(1) [OF step]
  have "main_loop junk ch \<lparr>sys = w, cin = \<lparr>unread = typed c @ ?rest, good = True\<rparr>\<rparr> =
      main_loop junk ch' \<lparr>sys = w', cin = \<lparr>unread = ?rest, good = True\<rparr>\<rparr>"
    by simp
  moreover from w' Cons.prems(2) have "same_data w' (exec c w0)"
    by (blast intro: same_data_trans exec_same_data)
  from Cons.IH [OF cs this, of ch'] obtain p' where
    "main_loop junk ch' \<lparr>sys = w', cin = \<lparr>unread = ?rest, good = True\<rparr>\<rparr> = Some p'"
    "same_data (sys p') (run cs (exec c w0))" "cin p' = \<lparr>unread = NL # rest, good = True\<rparr>"
    by blast
  ultimately show ?case
    by simp
qed

lemma main_loop_fail_step:
  assumes "cin_int ch (cin p) = (ch', ins)" and "\<not> good ins" and "ch' \<noteq> 7"
  shows "main_loop junk ch p = None"
proof -
  let ?q = "p\<lparr>sys := (sys p)\<lparr>cout := cout (sys p) @ menu_prompt\<rparr>, cin := ins\<rparr>"
  obtain r p' where run: "run_state (dispatch junk ch') ?q = (r, p')"
    by (cases "run_state (dispatch junk ch') ?q")
  from assms(2) have "\<not> good (cin ?q)"
    by simp
  from dispatch_failed [OF this, of junk ch'] run assms(3)
  have "r = (False, ch')" and "\<not> good (cin p')"
    using assms(2) by simp_all
  moreover from run assms(1) have "run_state (menu_step junk ch) p = (r, p')"
    by (simp add: menu_step_def displayMenu_def)
  ultimately have "main_loop junk ch p = main_loop junk ch' p'"
    by (simp add: main_loop_step(1))
  with \<open>\<not> good (cin p')\<close> assms(3) show ?thesis
    by (simp add: main_loop_stuck)
qed

section \<open>What the loop does when the input has ended\<close>

lemma main_loop_turns:
  "turns k junk ch p = ((False, ch'), p') \<Longrightarrow> main_loop junk ch p = main_loop junk ch' p'"
proof (induction k arbitrary: ch p)
  case 0
  then show ?case by simp
next
  case (Suc k)
  obtain r q where run: "run_state (menu_step junk ch) p = (r, q)"
    by (cases "run_state (menu_step junk ch) p")
  with Suc.prems have "\<not> fst r" and "turns k junk (snd r) q = ((False, ch'), p')"
    by (auto split: if_splits)
  with Suc.IH [of "snd r" q] run show ?case
    by (simp add: main_loop.simps [of junk ch p])
qed

lemma cin_int_at_end:
  assumes "\<forall>c \<in> set (unread ins). isspace c"
  shows "\<exists>ins'. cin_int old ins = (old, ins') \<and> \<not> good ins' \<and>
     (\<forall>c \<in> set (unread ins'). isspace c)"
proof (cases "good ins")
  case True
  with cin_int_eof [OF assms, of old] show ?thesis
    by (cases ins) simp
next
  case False
  with assms show ?thesis
    by simp
qed

lemma menu_step_add_at_end:
  assumes "\<forall>c \<in> set (unread (cin p)). isspace c"
  shows "\<exists>ins. run_state (menu_step junk 1) p =
       ((False, 1),
        \<lparr>sys = exec (AddStudent [] junk [] 0 0 0 0)
           ((sys p)\<lparr>cout := cout (sys p) @ menu_prompt @ ''Enter Student Name: '' @
              ''Enter Student ID: '' @ ''Enter Student Class: '' @ grade_prompts 0 4\<rparr>),
         cin = ins\<rparr>) \<and>
     \<not> good ins \<and> (\<forall>c \<in> set (unread ins). isspace c)"
proof -
  from cin_int_at_end [OF assms, of 1] obtain ins where
    ins: "cin_int 1 (cin p) = (1, ins)" "\<not> good ins" "\<forall>c \<in> set (unread ins). isspace c"
    by blast
  have four: "replicate 4 (0 :: cint) = [0, 0, 0, 0]" "Suc (Suc (Suc (Suc 0))) = 4"
    by (simp_all add: numeral_eq_Suc)
  from ins(1,2) have "run_state (menu_step junk 1) p =
      ((False, 1),
       \<lparr>sys = exec (AddStudent [] junk [] 0 0 0 0)
          ((sys p)\<lparr>cout := cout (sys p) @ menu_prompt @ ''Enter Student Name: '' @
             ''Enter Student ID: '' @ ''Enter Student Class: '' @ grade_prompts 0 4\<rparr>),
        cin = ins\<rparr>)"
    by (simp add: menu_step_def handler_defs read_grades_failed four del: grade_prompts_simps)
  with ins(2,3) show ?thesis
    by blast
qed

section \<open>Properties of the shell\<close>

definition session0 :: "string \<Rightarrow> session" where
  "session0 input = \<lparr>sys = world0, cin = istream_of input\<rparr>"

text \<open>
  C34. The shell runs the commands that are typed: when the input is the text of a
  sequence of add and delete commands, each field on its own line, followed by the
  choice 7, the loop of \<open>main\<close> returns, with the school and the disk that the
  sequence of commands gives, and the input read up to the newline after the 7.
\<close>

theorem shell_refines_run:
  assumes "\<forall>c \<in> set cs. typable c"
  shows "\<exists>p'. main_loop junk ch
        \<lparr>sys = w, cin = istream_of (concat (map typed cs) @ ''7'' @ NL # rest)\<rparr> = Some p' \<and>
      school (sys p') = school (run cs w) \<and> disk (sys p') = disk (run cs w) \<and>
      cin p' = \<lparr>unread = NL # rest, good = True\<rparr>"
  using main_loop_typed [OF assms same_data_refl(1), of junk ch w rest]
  by (simp add: istream_of_def same_data_def)

theorem shell_refines_run_witness:
  "\<exists>p'. main_loop 0 0 (session0 (concat (map typed [DeleteStudent 1, DeleteTeacher 7]) @ ''7'' @ [NL])) =
      Some p' \<and>
    students (school (sys p')) = [] \<and> teachers (school (sys p')) = []"
  using shell_refines_run [of "[DeleteStudent 1, DeleteTeacher 7]" 0 0 world0 "[]"]
  by (auto simp: session0_def deleteStudent_school deleteTeacher_school getId_def)

text \<open>
  C35. Whatever is typed, a run of the shell that returns keeps the invariant of the
  store: every student has four grades, the four fixed subjects and the average of
  its grades, because the grade loop of \<open>addStudent\<close> fills a vector of four whatever
  the extractions give.
\<close>

theorem shell_school_wf:
  assumes "main_loop junk ch p = Some p'" and "school_wf (school (sys p))"
  shows "school_wf (school (sys p'))"
proof -
  have "school_wf (school (sys p)) \<longrightarrow> school_wf (school (sys p'))"
  proof (rule main_loop.raw_induct
      [where P = "\<lambda>j c q r. school_wf (school (sys q)) \<longrightarrow> school_wf (school (sys r))",
        OF _ assms(1)], goal_cases)
    case (1 loop junk ch p y)
    obtain r q where run: "run_state (menu_step junk ch) p = (r, q)"
      by (cases "run_state (menu_step junk ch) p")
    show ?case
    proof
      assume "school_wf (school (sys p))"
      then have q: "school_wf (school (sys q))"
        using menu_step_school_wf [of p junk ch] run by simp
      show "school_wf (school (sys y))"
      proof (cases "fst r")
        case True
        with "1"(2) run q show ?thesis
          by simp
      next
        case False
        with "1"(2) run have "loop junk (snd r) q = Some y"
          by simp
        from "1"(1) [OF this] q show ?thesis
          by simp
      qed
    qed
  qed
  with assms(2) show ?thesis
    by simp
qed

theorem shell_school_wf_witness:
  "\<exists>p'. main_loop 0 0
       (session0 (typed (AddStudent ''Al'' 2 ''10B'' 1 2 3 4) @ typed (DeleteStudent 1) @
          ''7'' @ [NL])) = Some p' \<and>
     map name (students (school (sys p'))) = [''Al''] \<and> school_wf (school (sys p'))"
proof -
  let ?cs = "[AddStudent ''Al'' 2 ''10B'' 1 2 3 4, DeleteStudent 1]"
  let ?p = "session0 (typed (AddStudent ''Al'' 2 ''10B'' 1 2 3 4) @ typed (DeleteStudent 1) @
    ''7'' @ [NL])"
  from main_loop_typed [of ?cs world0 world0 0 0 "[]"] obtain p' where
    loop: "main_loop 0 0 ?p = Some p'" and data: "same_data (sys p') (run ?cs world0)"
    by (auto simp: session0_def istream_of_def)
  have "students (school (run ?cs world0)) = [Student_new ''Al'' 2 ''10B'' [1, 2, 3, 4]]"
    by (simp add: deleteStudent_school getId_def)
  with data have "map name (students (school (sys p'))) = [''Al'']"
    by (simp add: same_data_def)
  moreover have "school_wf (school (sys ?p))"
    by (simp add: session0_def school_wf_def)
  then have "school_wf (school (sys p'))"
    by (rule shell_school_wf [OF loop])
  ultimately have "main_loop 0 0 ?p = Some p' \<and>
      map name (students (school (sys p'))) = [''Al''] \<and> school_wf (school (sys p'))"
    using loop by (intro conjI)
  then show ?thesis
    by (rule exI)
qed

text \<open>
  C36. At the end of the input the program does not stop: when only white space is
  left to read and the last choice was not 7, the loop of \<open>main\<close> never returns. The
  extraction of the choice fails, the choice keeps its value, and the same branch of the
  switch is taken again for ever.
\<close>

theorem eof_never_returns:
  assumes "\<forall>c \<in> set s. isspace c" and "ch \<noteq> 7"
  shows "main_loop junk ch \<lparr>sys = w, cin = \<lparr>unread = s, good = True\<rparr>\<rparr> = None"
  using assms
  by (intro main_loop_fail_step [where ch' = ch and ins = "\<lparr>unread = [], good = False\<rparr>"])
    (simp_all add: cin_int_eof)

theorem eof_never_returns_witness: "main_loop 0 3 (session0 []) = None"
  using eof_never_returns [of "[]" 3 0 world0] by (simp add: session0_def istream_of_def)

text \<open>
  C37. A menu choice that is not a number makes the program loop for ever: when the
  next character is neither white space, a sign nor a digit, the extraction stores 0
  and sets the failure state, nothing is consumed, and the loop of \<open>main\<close> never
  returns.
\<close>

theorem not_a_number_never_returns:
  assumes "\<not> starts_number c"
  shows "main_loop junk ch \<lparr>sys = w, cin = \<lparr>unread = c # rest, good = True\<rparr>\<rparr> = None"
  using assms
  by (intro main_loop_fail_step [where ch' = 0 and ins = "\<lparr>unread = c # rest, good = False\<rparr>"])
    (simp_all add: cin_int_not_number)

theorem not_a_number_never_returns_witness: "main_loop 0 0 (session0 ''x'') = None"
  using not_a_number_never_returns [of "CHR ''x''" 0 0 world0 "[]"]
  by (simp add: session0_def istream_of_def starts_number_def isspace_def isdigit_def)

text \<open>
  C38. An id that is not a number: when, in the dialogue of \<open>addStudent\<close>, the text
  typed for the id starts with a character that cannot start a number, the student is
  stored with id 0, an empty class and four grades 0, without any of the remaining
  answers being read, and the loop of \<open>main\<close> never returns afterwards.
\<close>

theorem bad_id_never_returns:
  assumes "NL \<notin> set n" and "\<not> starts_number c"
  shows "run_state (menu_step junk ch)
       \<lparr>sys = w, cin = \<lparr>unread = ''1'' @ NL # n @ NL # c # rest, good = True\<rparr>\<rparr> =
       ((False, 1),
        \<lparr>sys = addStudent n 0 [] [0, 0, 0, 0]
           (w\<lparr>cout := cout w @ menu_prompt @ ''Enter Student Name: '' @ ''Enter Student ID: '' @
              ''Enter Student Class: '' @ grade_prompts 0 4\<rparr>),
         cin = \<lparr>unread = c # rest, good = False\<rparr>\<rparr>) \<and>
     main_loop junk ch
       \<lparr>sys = w, cin = \<lparr>unread = ''1'' @ NL # n @ NL # c # rest, good = True\<rparr>\<rparr> = None"
proof -
  let ?p' = "\<lparr>sys = addStudent n 0 [] [0, 0, 0, 0]
       (w\<lparr>cout := cout w @ menu_prompt @ ''Enter Student Name: '' @ ''Enter Student ID: '' @
          ''Enter Student Class: '' @ grade_prompts 0 4\<rparr>),
     cin = \<lparr>unread = c # rest, good = False\<rparr>\<rparr>"
  have four: "replicate 4 (0 :: cint) = [0, 0, 0, 0]" "Suc (Suc (Suc (Suc 0))) = 4"
    by (simp_all add: numeral_eq_Suc)
  from assms have step: "run_state (menu_step junk ch)
       \<lparr>sys = w, cin = \<lparr>unread = ''1'' @ NL # n @ NL # c # rest, good = True\<rparr>\<rparr> =
       ((False, 1), ?p')"
    by (simp add: menu_step_def handler_defs cin_getline_line cin_int_not_number
        read_grades_failed four del: grade_prompts_simps)
  moreover have "main_loop junk 1 ?p' = None"
    by (rule main_loop_stuck) simp_all
  ultimately show ?thesis
    using main_loop_step(1) [OF step] by simp
qed

theorem bad_id_never_returns_witness:
  "main_loop 0 0 (session0 (''1'' @ NL # ''Al'' @ NL # ''x1'' @ [NL])) = None"
  using bad_id_never_returns [of "''Al''" "CHR ''x''" 0 0 world0 "''1'' @ [NL]"]
  by (simp add: session0_def istream_of_def starts_number_def isspace_def isdigit_def)

text \<open>
  C11. At the end of the input after the choice 1 the program adds students for ever.
  When only white space is left to read and the choice is 1, the loop of \<open>main\<close>
  never returns, and each of its turns runs \<open>addStudent\<close> without reading
  anything: after \<open>k\<close> turns the vector holds \<open>k\<close> more students, each with an
  empty name, an empty class and four grades 0, the teachers are as before, and, when
  the file can be written, it has been rewritten with all of them.
\<close>

theorem end_of_input_adds_for_ever:
  assumes "\<forall>c \<in> set (unread (cin p)). isspace c"
  shows "main_loop junk 1 p = None \<and>
     (\<exists>q new. turns k junk 1 p = ((False, 1), q) \<and>
        students (school (sys q)) = students (school (sys p)) @ new \<and> length new = k \<and>
        (\<forall>s \<in> set new. name s = [] \<and> studentClass s = [] \<and> grades s = [0, 0, 0, 0]) \<and>
        teachers (school (sys q)) = teachers (school (sys p)) \<and>
        (can_save (sys p) \<and> 0 < k \<longrightarrow> synced (sys q)))"
proof -
  have "main_loop junk 1 p = None"
    using cin_int_at_end [OF assms, of 1] main_loop_fail_step [of 1 p 1 _ junk] by auto
  moreover from assms have "\<exists>q new. turns k junk 1 p = ((False, 1), q) \<and>
      students (school (sys q)) = students (school (sys p)) @ new \<and> length new = k \<and>
      (\<forall>s \<in> set new. name s = [] \<and> studentClass s = [] \<and> grades s = [0, 0, 0, 0]) \<and>
      teachers (school (sys q)) = teachers (school (sys p)) \<and>
      (can_save (sys p) \<and> 0 < k \<longrightarrow> synced (sys q))"
  proof (induction k arbitrary: p)
    case 0
    show ?case
      by (intro exI [of _ p] exI [of _ "[]"]) simp
  next
    case (Suc k)
    let ?w = "(sys p)\<lparr>cout := cout (sys p) @ menu_prompt @ ''Enter Student Name: '' @
      ''Enter Student ID: '' @ ''Enter Student Class: '' @ grade_prompts 0 4\<rparr>"
    let ?s = "Student_new [] junk [] [0, 0, 0, 0]"
    from menu_step_add_at_end [OF Suc.prems, of junk] obtain ins where
      step: "run_state (menu_step junk 1) p =
        ((False, 1), \<lparr>sys = exec (AddStudent [] junk [] 0 0 0 0) ?w, cin = ins\<rparr>)"
      and ins: "\<forall>c \<in> set (unread ins). isspace c"
      by blast
    let ?p = "\<lparr>sys = exec (AddStudent [] junk [] 0 0 0 0) ?w, cin = ins\<rparr>"
    from ins have "\<forall>c \<in> set (unread (cin ?p)). isspace c"
      by simp
    from Suc.IH [OF this] obtain q new where
      q: "turns k junk 1 ?p = ((False, 1), q)"
        "students (school (sys q)) = students (school (sys ?p)) @ new" "length new = k"
        "\<forall>s \<in> set new. name s = [] \<and> studentClass s = [] \<and> grades s = [0, 0, 0, 0]"
        "teachers (school (sys q)) = teachers (school (sys ?p))"
        "can_save (sys ?p) \<and> 0 < k \<longrightarrow> synced (sys q)"
      by blast
    have "can_save ?w = can_save (sys p)"
      by (simp add: can_save_def)
    then have "can_save (sys p) \<longrightarrow> synced (sys ?p) \<and> can_save (sys ?p)"
      using exec_add_synced(1) [of ?w "[]" junk "[]" 0 0 0 0]
      by (simp del: exec.simps grade_prompts_simps)
    with q(1,6) have "can_save (sys p) \<longrightarrow> synced (sys q)"
      by (cases k) auto
    moreover from step q(1) have "turns (Suc k) junk 1 p = ((False, 1), q)"
      by simp
    moreover from q(2) have "students (school (sys q)) = students (school (sys p)) @ ?s # new"
      by simp
    ultimately show ?case
      using q(3,4,5) by (intro exI [of _ q] exI [of _ "?s # new"]) simp
  qed
  ultimately show ?thesis
    by simp
qed

theorem end_of_input_adds_for_ever_witness:
  "main_loop 0 1 (session0 []) = None \<and>
   length (students (school (sys (snd (turns 3 0 1 (session0 [])))))) = 4 \<and>
   synced (sys (snd (turns 3 0 1 (session0 []))))"
  using end_of_input_adds_for_ever [of "session0 []" 0 3]
  by (auto simp: session0_def istream_of_def can_save_def)

end
