(* ===== verification/Heap.thy ===== *)
theory Heap
  imports Store_Runs
begin

text \<open>
  The ownership of the records. In the source the two vectors of \<open>School\<close> hold
  pointers to objects allocated with \<open>new\<close>; an add allocates, a delete frees the
  object with \<open>delete\<close> and erases the pointer, and the destructor frees every
  object that is left. This theory models the objects in an explicit store of cells,
  relates it to the lists of record values of the other theories by a simulation, and
  shows that no object leaks and no pointer dangles.
\<close>

section \<open>Objects and cells\<close>

type_synonym addr = nat

datatype object = StudentObj Student | TeacherObj Teacher

text \<open>
  \<open>getId\<close> called through a pointer to \<open>Person\<close>.
\<close>

fun object_id :: "object \<Rightarrow> cint" where
  "object_id (StudentObj s) = getId s"
| "object_id (TeacherObj t) = getId t"

record hschool =
  cells :: "addr \<Rightarrow> object option"
  next_free :: addr
  student_ptrs :: "addr list"
  teacher_ptrs :: "addr list"

definition hschool_init :: hschool where
  "hschool_init = \<lparr>cells = Map.empty, next_free = 0, student_ptrs = [], teacher_ptrs = []\<rparr>"

text \<open>
  \<open>new\<close> gives an address that holds no object; the model takes the addresses in
  increasing order. \<open>delete\<close> empties the cell.
\<close>

definition new_object :: "object \<Rightarrow> hschool \<Rightarrow> addr \<times> hschool" where
  "new_object ob st =
     (next_free st,
      st\<lparr>cells := (cells st)(next_free st \<mapsto> ob), next_free := Suc (next_free st)\<rparr>)"

definition delete_object :: "addr \<Rightarrow> hschool \<Rightarrow> hschool" where
  "delete_object a st = st\<lparr>cells := (cells st)(a := None)\<rparr>"

section \<open>The methods on the store of cells\<close>

definition h_push_student :: "Student \<Rightarrow> hschool \<Rightarrow> hschool" where
  "h_push_student s st =
     (let (a, st') = new_object (StudentObj s) st
      in st'\<lparr>student_ptrs := student_ptrs st' @ [a]\<rparr>)"

definition h_push_teacher :: "Teacher \<Rightarrow> hschool \<Rightarrow> hschool" where
  "h_push_teacher t st =
     (let (a, st') = new_object (TeacherObj t) st
      in st'\<lparr>teacher_ptrs := teacher_ptrs st' @ [a]\<rparr>)"

text \<open>
  The iterator loop of the delete methods on pointers: the id is read through the
  pointer, and the first pointer whose object has the id is returned together with
  the vector without it.
\<close>

fun h_erase_by_id :: "(addr \<Rightarrow> object option) \<Rightarrow> cint \<Rightarrow> addr list \<Rightarrow> (addr \<times> addr list) option" where
  "h_erase_by_id f i [] = None"
| "h_erase_by_id f i (a # as) =
     (if map_option object_id (f a) = Some i then Some (a, as)
      else map_option (\<lambda>(b, bs). (b, a # bs)) (h_erase_by_id f i as))"

definition h_deleteStudent :: "cint \<Rightarrow> hschool \<Rightarrow> hschool" where
  "h_deleteStudent i st =
     (case h_erase_by_id (cells st) i (student_ptrs st) of
        None \<Rightarrow> st
      | Some (a, ptrs) \<Rightarrow> (delete_object a st)\<lparr>student_ptrs := ptrs\<rparr>)"

definition h_deleteTeacher :: "cint \<Rightarrow> hschool \<Rightarrow> hschool" where
  "h_deleteTeacher i st =
     (case h_erase_by_id (cells st) i (teacher_ptrs st) of
        None \<Rightarrow> st
      | Some (a, ptrs) \<Rightarrow> (delete_object a st)\<lparr>teacher_ptrs := ptrs\<rparr>)"

fun h_exec :: "command \<Rightarrow> hschool \<Rightarrow> hschool" where
  "h_exec (AddStudent n i c g0 g1 g2 g3) st = h_push_student (Student_new n i c [g0, g1, g2, g3]) st"
| "h_exec (AddTeacher n i s g) st = h_push_teacher (Teacher_new n i s g) st"
| "h_exec (DeleteStudent i) st = h_deleteStudent i st"
| "h_exec (DeleteTeacher i) st = h_deleteTeacher i st"

definition h_run :: "command list \<Rightarrow> hschool \<Rightarrow> hschool" where
  "h_run cs st = foldl (\<lambda>s c. h_exec c s) st cs"

text \<open>
  The destructor of \<open>School\<close>: every pointer of the two vectors is deleted.
\<close>

definition h_destructor :: "hschool \<Rightarrow> hschool" where
  "h_destructor st =
     foldl (\<lambda>s a. delete_object a s) (foldl (\<lambda>s a. delete_object a s) st (student_ptrs st))
       (teacher_ptrs st)"

section \<open>Ownership and the simulation\<close>

text \<open>
  \<open>heap_ok\<close>: the pointers of the two vectors are pairwise different, the allocated
  cells are exactly the ones they point to, and every allocated address is below the
  next one to be given out. \<open>represents\<close>: the school of values that a store of cells
  stands for.
\<close>

definition owned :: "hschool \<Rightarrow> addr list" where
  "owned st = student_ptrs st @ teacher_ptrs st"

definition heap_ok :: "hschool \<Rightarrow> bool" where
  "heap_ok st \<longleftrightarrow>
     distinct (owned st) \<and> dom (cells st) = set (owned st) \<and>
     (\<forall>a \<in> set (owned st). a < next_free st)"

definition points_to :: "('r \<Rightarrow> object) \<Rightarrow> (addr \<Rightarrow> object option) \<Rightarrow> addr list \<Rightarrow> 'r list \<Rightarrow> bool" where
  "points_to mk f ptrs rs \<longleftrightarrow> list_all2 (\<lambda>a r. f a = Some (mk r)) ptrs rs"

definition represents :: "hschool \<Rightarrow> School \<Rightarrow> bool" where
  "represents st sch \<longleftrightarrow>
     points_to StudentObj (cells st) (student_ptrs st) (students sch) \<and>
     points_to TeacherObj (cells st) (teacher_ptrs st) (teachers sch)"

section \<open>Cells and pointers\<close>

lemma points_to_simps [simp]:
  "points_to mk f [] rs \<longleftrightarrow> rs = []"
  "points_to mk f ptrs [] \<longleftrightarrow> ptrs = []"
  "points_to mk f (a # ptrs) (r # rs) \<longleftrightarrow> f a = Some (mk r) \<and> points_to mk f ptrs rs"
  by (simp_all add: points_to_def)

lemma points_to_snoc:
  "points_to mk f ptrs rs \<Longrightarrow> f a = Some (mk r) \<Longrightarrow> points_to mk f (ptrs @ [a]) (rs @ [r])"
  by (simp add: points_to_def list_all2_appendI)

lemma points_to_Cons1:
  "points_to mk f (a # ptrs) rs \<longleftrightarrow>
     (\<exists>r rs'. rs = r # rs' \<and> f a = Some (mk r) \<and> points_to mk f ptrs rs')"
  by (cases rs) auto

lemma points_to_upd:
  "a \<notin> set ptrs \<Longrightarrow> points_to mk (f(a := x)) ptrs rs = points_to mk f ptrs rs"
  by (induction ptrs arbitrary: rs) (auto simp: points_to_Cons1)

lemma points_to_holds:
  "points_to mk f ptrs rs \<Longrightarrow> a \<in> set ptrs \<Longrightarrow> \<exists>r. f a = Some (mk r)"
  by (induction ptrs arbitrary: rs) (auto simp: points_to_Cons1)

lemma h_erase_by_id_sim:
  assumes "points_to mk f ptrs rs" and "\<And>r. object_id (mk r) = idn r"
  shows "(case h_erase_by_id f i ptrs of
            None \<Rightarrow> erase_by_id i rs = None
          | Some (a, ptrs') \<Rightarrow>
              set ptrs = insert a (set ptrs') \<and>
              (distinct ptrs \<longrightarrow> distinct ptrs' \<and> a \<notin> set ptrs') \<and>
              (\<exists>rs'. erase_by_id i rs = Some rs' \<and> points_to mk f ptrs' rs'))"
  using assms(1)
proof (induction ptrs arbitrary: rs)
  case Nil
  then show ?case by simp
next
  case (Cons a ptrs)
  then obtain r rs' where rs: "rs = r # rs'" and a: "f a = Some (mk r)"
    and rest: "points_to mk f ptrs rs'"
    by (auto simp: points_to_Cons1)
  show ?case
  proof (cases "idn r = i")
    case True
    with rs a rest assms(2) show ?thesis
      by (auto simp: getId_def)
  next
    case False
    with Cons.IH [OF rest] rs a assms(2) show ?thesis
      by (auto simp: getId_def split: option.splits)
  qed
qed

lemma delete_object_simps [simp]:
  "cells (delete_object a st) = (cells st)(a := None)"
  "student_ptrs (delete_object a st) = student_ptrs st"
  "teacher_ptrs (delete_object a st) = teacher_ptrs st"
  "next_free (delete_object a st) = next_free st"
  by (simp_all add: delete_object_def)

lemma foldl_delete_object [simp]:
  "cells (foldl (\<lambda>s a. delete_object a s) st as) = (\<lambda>b. if b \<in> set as then None else cells st b)"
  "student_ptrs (foldl (\<lambda>s a. delete_object a s) st as) = student_ptrs st"
  "teacher_ptrs (foldl (\<lambda>s a. delete_object a s) st as) = teacher_ptrs st"
  by (induction as arbitrary: st) (auto simp: fun_eq_iff)

lemmas heap_defs = heap_ok_def owned_def represents_def

section \<open>Each method keeps ownership and simulates the abstract store\<close>

lemma object_id_simps [simp]:
  "object_id (StudentObj s) = idn s" "object_id (TeacherObj t) = idn t"
  by (simp_all add: getId_def)

lemma h_push_student_sim:
  assumes "heap_ok st" and "represents st sch"
  shows "heap_ok (h_push_student s st)"
    and "represents (h_push_student s st) (sch\<lparr>students := students sch @ [s]\<rparr>)"
proof -
  from assms(1) have fresh: "next_free st \<notin> set (student_ptrs st)"
    "next_free st \<notin> set (teacher_ptrs st)"
    by (auto simp: heap_defs)
  with assms(1) show "heap_ok (h_push_student s st)"
    by (auto simp: heap_defs h_push_student_def new_object_def less_Suc_eq)
  from fresh assms(2) show "represents (h_push_student s st) (sch\<lparr>students := students sch @ [s]\<rparr>)"
    by (simp add: represents_def h_push_student_def new_object_def points_to_upd points_to_snoc)
qed

lemma h_push_teacher_sim:
  assumes "heap_ok st" and "represents st sch"
  shows "heap_ok (h_push_teacher t st)"
    and "represents (h_push_teacher t st) (sch\<lparr>teachers := teachers sch @ [t]\<rparr>)"
proof -
  from assms(1) have fresh: "next_free st \<notin> set (student_ptrs st)"
    "next_free st \<notin> set (teacher_ptrs st)"
    by (auto simp: heap_defs)
  with assms(1) show "heap_ok (h_push_teacher t st)"
    by (auto simp: heap_defs h_push_teacher_def new_object_def less_Suc_eq)
  from fresh assms(2) show "represents (h_push_teacher t st) (sch\<lparr>teachers := teachers sch @ [t]\<rparr>)"
    by (simp add: represents_def h_push_teacher_def new_object_def points_to_upd points_to_snoc)
qed

lemma h_deleteStudent_sim:
  assumes "heap_ok st" and "represents st sch"
  shows "heap_ok (h_deleteStudent i st)"
    and "represents (h_deleteStudent i st) (sch\<lparr>students := remove_first_id i (students sch)\<rparr>)"
proof -
  from assms(2) have pt: "points_to StudentObj (cells st) (student_ptrs st) (students sch)"
    and pt': "points_to TeacherObj (cells st) (teacher_ptrs st) (teachers sch)"
    by (simp_all add: represents_def)
  note sim = h_erase_by_id_sim [OF pt object_id_simps(1), of i]
  note rem = erase_by_id_remove_first [where i = i and ps = "students sch", symmetric]
  show "heap_ok (h_deleteStudent i st)"
    using sim assms(1)
    by (auto simp: h_deleteStudent_def heap_defs split: option.splits)
  show "represents (h_deleteStudent i st) (sch\<lparr>students := remove_first_id i (students sch)\<rparr>)"
    using sim assms pt'
    by (auto simp: h_deleteStudent_def heap_defs rem points_to_upd split: option.splits)
qed

lemma h_deleteTeacher_sim:
  assumes "heap_ok st" and "represents st sch"
  shows "heap_ok (h_deleteTeacher i st)"
    and "represents (h_deleteTeacher i st) (sch\<lparr>teachers := remove_first_id i (teachers sch)\<rparr>)"
proof -
  from assms(2) have pt: "points_to TeacherObj (cells st) (teacher_ptrs st) (teachers sch)"
    and pt': "points_to StudentObj (cells st) (student_ptrs st) (students sch)"
    by (simp_all add: represents_def)
  note sim = h_erase_by_id_sim [OF pt object_id_simps(2), of i]
  note rem = erase_by_id_remove_first [where i = i and ps = "teachers sch", symmetric]
  show "heap_ok (h_deleteTeacher i st)"
    using sim assms(1)
    by (auto simp: h_deleteTeacher_def heap_defs split: option.splits)
  show "represents (h_deleteTeacher i st) (sch\<lparr>teachers := remove_first_id i (teachers sch)\<rparr>)"
    using sim assms pt'
    by (auto simp: h_deleteTeacher_def heap_defs rem points_to_upd split: option.splits)
qed

lemma h_exec_sim:
  assumes "heap_ok st" and "represents st sch"
  shows "heap_ok (h_exec c st)" and "represents (h_exec c st) (store_exec c sch)"
  using assms
  by (cases c; simp add: h_push_student_sim h_push_teacher_sim h_deleteStudent_sim
      h_deleteTeacher_sim)+

lemma h_run_simps [simp]:
  "h_run [] st = st" "h_run (c # cs) st = h_run cs (h_exec c st)"
  by (simp_all add: h_run_def)

lemma h_run_sim:
  "heap_ok st \<Longrightarrow> represents st sch \<Longrightarrow>
     heap_ok (h_run cs st) \<and> represents (h_run cs st) (store_run cs sch)"
proof (induction cs arbitrary: st sch)
  case Nil
  then show ?case by simp
next
  case (Cons c cs)
  from Cons.prems have "heap_ok (h_exec c st)" and "represents (h_exec c st) (store_exec c sch)"
    by (rule h_exec_sim)+
  then show ?case
    using Cons.IH by simp
qed

lemma h_erase_by_id_found:
  "h_erase_by_id f i ptrs = Some (a, ptrs') \<Longrightarrow> \<exists>ob. f a = Some ob \<and> object_id ob = i"
  by (induction ptrs arbitrary: ptrs') (auto split: if_splits)

lemma hschool_init_ok [simp]:
  "heap_ok hschool_init"
  "represents hschool_init sch \<longleftrightarrow> students sch = [] \<and> teachers sch = []"
  by (auto simp: heap_defs hschool_init_def)

section \<open>Properties of the store of cells\<close>

text \<open>
  C13. The methods on pointers simulate the store of values: from a store of cells
  in which the vectors own the allocated objects and which stands for a school, every
  sequence of add and delete commands leads to a store of cells that again owns its
  objects and stands for the school the abstract store reaches by the same commands.
\<close>

theorem heap_simulates_store:
  assumes "heap_ok st" and "represents st sch"
  shows "heap_ok (h_run cs st) \<and> represents (h_run cs st) (store_run cs sch)"
  using assms by (rule h_run_sim)

theorem heap_simulates_store_witness:
  "represents (h_run [AddStudent ''Alice'' 1 ''10A'' 12 8 15 9, AddTeacher ''Bob'' 7 ''Maths'' ''Professor'',
       DeleteStudent 1] hschool_init)
     \<lparr>students = [], teachers = [bob], filePath = ''db.txt''\<rparr>"
  using heap_simulates_store [of hschool_init "\<lparr>students = [], teachers = [], filePath = ''db.txt''\<rparr>"
      "[AddStudent ''Alice'' 1 ''10A'' 12 8 15 9, AddTeacher ''Bob'' 7 ''Maths'' ''Professor'',
        DeleteStudent 1]"]
  by (simp add: remove_first_id_def bob_def)

text \<open>
  C20. Nothing leaks: after every sequence of add and delete commands, run from a
  store of cells in which the vectors own the allocated objects, the destructor of
  \<open>School\<close> leaves no allocated cell.
\<close>

theorem destructor_frees_all:
  assumes "heap_ok st" and "represents st sch"
  shows "cells (h_destructor (h_run cs st)) = Map.empty"
proof -
  from h_run_sim [OF assms, of cs] have "dom (cells (h_run cs st)) = set (owned (h_run cs st))"
    by (simp add: heap_ok_def)
  then have "cells (h_run cs st) b = None" if "b \<notin> set (owned (h_run cs st))" for b
    using that by (auto simp: dom_def)
  then show ?thesis
    by (auto simp: h_destructor_def owned_def fun_eq_iff)
qed

theorem destructor_frees_all_witness:
  "cells (h_destructor (h_run [AddStudent ''Alice'' 1 ''10A'' 12 8 15 9, DeleteTeacher 7] hschool_init)) =
     Map.empty"
  using destructor_frees_all [of hschool_init "\<lparr>students = [], teachers = [], filePath = ''db.txt''\<rparr>"
      "[AddStudent ''Alice'' 1 ''10A'' 12 8 15 9, DeleteTeacher 7]"]
  by simp

lemma h_erase_by_id_SomeD:
  "h_erase_by_id f i ptrs = Some (a, ptrs') \<Longrightarrow>
     \<exists>xs ys. ptrs = xs @ a # ys \<and> ptrs' = xs @ ys \<and>
       (\<forall>b \<in> set xs. map_option object_id (f b) \<noteq> Some i)"
proof (induction ptrs arbitrary: ptrs')
  case Nil
  then show ?case by simp
next
  case (Cons b ptrs)
  show ?case
  proof (cases "map_option object_id (f b) = Some i")
    case True
    with Cons.prems have "b # ptrs = [] @ a # ptrs \<and> ptrs' = [] @ ptrs"
      by simp
    then show ?thesis by fastforce
  next
    case False
    with Cons.prems obtain qs where qs: "h_erase_by_id f i ptrs = Some (a, qs)"
      and ptrs': "ptrs' = b # qs"
      by (cases "h_erase_by_id f i ptrs") (auto split: if_splits)
    from Cons.IH [OF qs] obtain xs ys where
      "ptrs = xs @ a # ys" "qs = xs @ ys" "\<forall>c \<in> set xs. map_option object_id (f c) \<noteq> Some i"
      by blast
    with False ptrs' have "b # ptrs = (b # xs) @ a # ys \<and> ptrs' = (b # xs) @ ys \<and>
        (\<forall>c \<in> set (b # xs). map_option object_id (f c) \<noteq> Some i)"
      by simp
    then show ?thesis by blast
  qed
qed

text \<open>
  C22. A delete frees one object that was allocated and that nothing points to
  afterwards: when \<open>deleteStudent\<close> finds the id, the cell that changes is the one
  of the first pointer of the vector whose object has the id, it is the only one that
  changes, it held a student with that id before, that pointer alone is erased from
  the vector, and its address is in neither vector after the call.
\<close>

theorem delete_frees_once:
  assumes "heap_ok st" and "represents st sch"
    and "h_erase_by_id (cells st) i (student_ptrs st) = Some (a, ptrs)"
  shows "cells (h_deleteStudent i st) = (cells st)(a := None) \<and> cells st a \<noteq> None \<and>
     a \<notin> set (owned (h_deleteStudent i st)) \<and>
     (\<exists>s. cells st a = Some (StudentObj s) \<and> idn s = i) \<and>
     (\<exists>xs ys. student_ptrs st = xs @ a # ys \<and> student_ptrs (h_deleteStudent i st) = xs @ ys \<and>
        (\<forall>b \<in> set xs. map_option object_id (cells st b) \<noteq> Some i))"
proof -
  from h_erase_by_id_SomeD [OF assms(3)] assms(3)
  have first: "\<exists>xs ys. student_ptrs st = xs @ a # ys \<and>
      student_ptrs (h_deleteStudent i st) = xs @ ys \<and>
      (\<forall>b \<in> set xs. map_option object_id (cells st b) \<noteq> Some i)"
    by (simp add: h_deleteStudent_def)
  from assms(2) have pt: "points_to StudentObj (cells st) (student_ptrs st) (students sch)"
    by (simp add: represents_def)
  from h_erase_by_id_sim [OF pt object_id_simps(1), of i] assms(3)
  have a: "set (student_ptrs st) = insert a (set ptrs)"
    and d: "distinct (student_ptrs st) \<longrightarrow> distinct ptrs \<and> a \<notin> set ptrs"
    by simp_all
  from assms(3) have id: "\<exists>ob. cells st a = Some ob \<and> object_id ob = i"
    by (rule h_erase_by_id_found)
  from a have "a \<in> set (student_ptrs st)"
    by simp
  with pt have "\<exists>s. cells st a = Some (StudentObj s)"
    by (rule points_to_holds)
  with id have "\<exists>s. cells st a = Some (StudentObj s) \<and> idn s = i"
    by (auto simp: getId_def)
  moreover from a d assms(1) have "a \<notin> set ptrs" "a \<notin> set (teacher_ptrs st)"
    by (auto simp: heap_defs)
  ultimately have "cells (h_deleteStudent i st) = (cells st)(a := None) \<and> cells st a \<noteq> None \<and>
      a \<notin> set (owned (h_deleteStudent i st)) \<and>
      (\<exists>s. cells st a = Some (StudentObj s) \<and> idn s = i)"
    using assms(3) by (auto simp: h_deleteStudent_def owned_def)
  with first show ?thesis
    by blast
qed

theorem delete_frees_once_witness:
  "cells (h_deleteStudent 1 (h_push_student alice hschool_init)) = Map.empty"
proof -
  let ?st = "h_push_student alice hschool_init"
  have "heap_ok ?st"
    and "represents ?st \<lparr>students = [alice], teachers = [], filePath = ''db.txt''\<rparr>"
    using h_push_student_sim
      [of hschool_init "\<lparr>students = [], teachers = [], filePath = ''db.txt''\<rparr>" alice]
    by simp_all
  moreover have "h_erase_by_id (cells ?st) 1 (student_ptrs ?st) = Some (0, [])"
    by (simp add: h_push_student_def new_object_def hschool_init_def getId_def)
  ultimately have "cells (h_deleteStudent 1 ?st) = (cells ?st)(0 := None)"
    using delete_frees_once [of ?st _ 1 0 "[]"] by blast
  then show ?thesis
    by (simp add: h_push_student_def new_object_def hschool_init_def)
qed

end
