(* ===== verification/Spec2Isabelle.thy ===== *)
theory Spec2Isabelle
  imports Store Store_Runs Spec_Loader Cxx_Console Display Shell Heap
begin

text \<open>
  \<^bold>\<open>A verification development for the school management program\<close>
  (\<^verbatim>\<open>src/baseCode.cpp\<close>, one C++ file).

  \<^bold>\<open>The program.\<close> A console program that keeps two collections, students and
  teachers, in memory and in one text file. Its parts are: the record classes
  \<open>Person\<close>, \<open>Student\<close> and \<open>Teacher\<close>; the class \<open>School\<close>, which owns
  two vectors of records and has methods to add, delete and display them and to save
  and load the file; and \<open>main\<close>, a menu loop that calls these methods. The
  constructor of \<open>School\<close> loads the file; every add and every successful delete
  rewrites it. The line format is comma separated: \<open>name,id,class,g0,g1,g2,g3\<close>
  under a line "Students" and \<open>name,id,subject,grade\<close> under a line "Teachers".

  \<^bold>\<open>The theories\<close>, in import order.
  \<^item> \<open>School_Prelude\<close>: the machine types. A C++ \<open>int\<close> is a \<open>32 word\<close>
    read with \<open>sint\<close>; the one \<open>double\<close> of the program, the average, is an exact
    rational or \<open>NaN\<close> (\<open>cdouble\<close>, with IEEE comparison as an instance of
    \<open>ord\<close>); the exceptions of \<open>stoi\<close> are the datatype \<open>exn\<close> and a
    computation that can raise returns \<open>exn + 'a\<close>. Shared lemmas on splitting a list
    at a separator.
  \<^item> \<open>Cxx_String\<close>: the library calls on strings, from the C++ standard:
    \<open>find_char\<close>, \<open>substr0\<close>, \<open>erase0\<close> with \<open>npos\<close> as \<open>None\<close> and the
    wrap-around of \<open>npos + 1\<close> written out (\<open>pos_succ\<close>); \<open>stoi\<close> (white
    space, sign, longest digit prefix, \<open>InvalidArgument\<close>, \<open>OutOfRange\<close>);
    \<open>show_cint\<close>, the decimal output of an \<open>int\<close>. Main lemma:
    \<open>stoi (show_cint w) = Inr w\<close> for every 32-bit value.
  \<^item> \<open>Cxx_Stream\<close>: \<open>getline\<close> on the unread text of an input stream,
    \<open>lines_of\<close>, and the file system \<open>filesys\<close> (contents by path, and which
    paths can be opened for writing). A path is the string the program passes; there
    is no working directory, so two different strings are two different files.
  \<^item> \<open>School_Records\<close>: \<open>Person\<close>, \<open>Student\<close>, \<open>Teacher\<close> as records, the
    derived classes as record extensions, so the accessors of \<open>Person\<close> apply to
    both. \<open>Student_new\<close>, \<open>calculateAverage\<close> (the total is added as 32-bit
    words, \<open>grades_total\<close>), \<open>isPassed\<close>, \<open>Student_saveToFile\<close> with its
    index loop \<open>save_grades\<close>, \<open>Teacher_new\<close>, \<open>Teacher_saveToFile\<close>, getters
    and setters. Lemmas: the class invariant \<open>average_consistent\<close>, the invariant
    \<open>student_wf\<close> of the students the program builds (four grades, the fixed
    subjects, consistent average), exactness of the average below the overflow bound,
    and the written line as fields joined by commas (\<open>Student_line\<close>,
    \<open>Teacher_line\<close>).
  \<^item> \<open>Serializer\<close>: the decoders inside \<open>School::loadFromFile\<close>:
    \<open>take_field\<close> (find, substr, erase), \<open>load_grades\<close> (the loop over four
    grades), \<open>parse_student\<close>, \<open>parse_teacher\<close>. Lemmas: a written line decodes
    to its record; what lines without commas, short lines and non-numeric fields give.
  \<^item> \<open>Persistence\<close>: the state (\<open>School\<close>: the two vectors and \<open>filePath\<close>;
    \<open>world\<close>: the school, the disk and the console output \<open>cout\<close>),
    \<open>saveToFile\<close>, and \<open>loadFromFile\<close> as the functions \<open>load_section\<close>
    (inner loops) and \<open>load_loop\<close> (outer loop) on the unread text, both total with
    the length of the unread text as measure. \<open>load_step\<close> and \<open>load_run\<close> give
    the loader as a state machine over lines with the modes \<open>NONE\<close>,
    \<open>STUDENTS\<close>, \<open>TEACHERS\<close>; \<open>load_machine_equiv\<close> is the refinement
    between the two.
  \<^item> \<open>Store\<close>: the constructor \<open>School_new\<close>, \<open>addStudent\<close>,
    \<open>addTeacher\<close>, \<open>deleteStudent\<close>, \<open>deleteTeacher\<close> with the delete loop
    \<open>erase_by_id\<close>, the datatype \<open>command\<close> of the mutating menu choices with
    \<open>exec\<close> and \<open>run\<close>, the invariant \<open>school_wf\<close> and its preservation by
    every command and by a load that returns.
  \<^item> \<open>Store_Runs\<close>: the states reachable by the commands as the inductive
    relation \<open>reaches\<close>; \<open>synced\<close>, the agreement of the file with the school in
    memory, as an invariant by rule induction; the abstract store \<open>store_exec\<close>
    on the two sequences, which the commands implement (\<open>run_refines_store\<close>); what
    an add does when the file cannot be written; the teacher side of delete; what a
    delete does to the student that was just added (\<open>delete_after_add\<close>).
  \<^item> \<open>Cxx_Console\<close>: \<open>cin\<close> as the unread text and whether the stream is
    good, with \<open>cin_ignore\<close>, \<open>cin_getline\<close> and \<open>cin_int\<close>
    (\<open>operator>>\<close> for an \<open>int\<close>), from the C++ standard. Lemmas: a stream that
    is not good stays so and gives nothing; what is read from a typed numeral, from a
    text that is not a number and at the end of the input.
  \<^item> \<open>Display\<close>: \<open>show_double\<close>, the default output of a \<open>double\<close>
    (the conversion \<open>%g\<close>: six significant digits, ties to even, fixed or
    scientific notation, trailing zeros dropped); \<open>Student_displayDetails\<close> with
    its loop \<open>display_grades\<close>, \<open>Teacher_displayDetails\<close>, and the two
    dashboards. Lemmas: the text of a dashboard; a whole average is printed like an
    \<open>int\<close>.
  \<^item> \<open>Shell\<close>: the state \<open>session\<close> (the world and \<open>cin\<close>), the methods
    as the source has them, with their prompts and reads, as computations in the
    state monad of \<open>HOL-Library.State_Monad\<close>: \<open>School_addStudent\<close> with the
    grade loop \<open>read_grades\<close>, \<open>School_addTeacher\<close>,
    \<open>School_deleteStudent\<close>, \<open>School_deleteTeacher\<close>; \<open>displayMenu\<close>; one
    turn of the loop of \<open>main\<close> (\<open>menu_step\<close>, \<open>dispatch\<close>); the loop
    \<open>main_loop\<close>, its first \<open>k\<close> turns \<open>turns\<close>, and \<open>main\<close>. Lemmas:
    the shell on typed commands refines \<open>run\<close>; the store invariant whatever is
    typed; the runs that never return, and what they do to the school on their way.
  \<^item> \<open>Heap\<close>: the objects behind the pointers. A store of cells
    (\<open>hschool\<close>: cells by address, the next free address, the two vectors of
    addresses), \<open>new_object\<close> and \<open>delete_object\<close>, the add and delete methods
    on pointers (\<open>h_push_student\<close>, \<open>h_deleteStudent\<close> with the loop
    \<open>h_erase_by_id\<close>, ...) and the destructor \<open>h_destructor\<close>. These are the
    statements of the methods that allocate, free and move pointers; the console
    message and the call of \<open>saveToFile\<close> of the same methods are in \<open>Store\<close>.
    Lemmas:
    ownership \<open>heap_ok\<close> is an invariant, the store of cells simulates the abstract
    store (\<open>represents\<close>), a delete frees one allocated object, the one of the
    first pointer with the id, and the destructor frees all.
  \<^item> \<open>Spec_Loader\<close>: the loader as the specification describes it, as a
    reference for the one of the code: the strict decoders \<open>spec_parse_student\<close>
    and \<open>spec_parse_teacher\<close> (split at every comma, at least seven or four
    fields, integer fields), and the machine \<open>spec_step\<close>, \<open>spec_run\<close>,
    \<open>spec_load\<close>, which enters the teacher section on its header from every mode
    and skips the lines it cannot decode. Lemmas: the decoders of the code accept what
    the strict ones accept, with the same record; the specified loader reads back the
    text that \<open>saveToFile\<close> writes.
  \<^item> This theory: the properties that span saving, loading, the store and the
    shell.

  \<^bold>\<open>Correspondence.\<close> A method that changes the object or prints is a function
  \<open>world \<Rightarrow> world\<close>; one from which an exception can escape returns
  \<open>world result\<close>, and \<open>Inl\<close> means the program has terminated, since it has no
  handler. The vectors hold pointers to objects that only the school reaches, so
  outside \<open>Heap\<close> they are lists of record values, and \<open>Heap\<close> justifies it by
  a simulation. Each of the four
  mutating methods is modelled twice: in \<open>Store\<close> from the point where the values
  have been read (\<open>addStudent\<close>, \<open>deleteStudent\<close>, ... take the values as
  parameters), and in \<open>Shell\<close> as the whole method (\<open>School_addStudent\<close>, ...),
  which prompts, reads from \<open>cin\<close> and then calls the former. An output stream is
  the text written so far, an input stream the text not yet read.

  \<^bold>\<open>Bounds.\<close> Nothing is bounded by fuel. Every loop of the model but one is a
  total function (\<open>save_grades\<close>, \<open>load_grades\<close>, \<open>load_section\<close>,
  \<open>load_loop\<close>, \<open>lines_of\<close>, \<open>display_grades\<close>, \<open>read_grades\<close> by a
  measure, the rest by structural recursion). The loop of \<open>main\<close> has no bound in
  the source; \<open>main_loop\<close> is a partial function into \<open>option\<close>, \<open>None\<close> is
  the run that never returns, and that a run returns is proved as
  \<open>main_loop \<dots> = Some p\<close>. The average is exact as a rational because the program
  divides by four only; the theorems on its value assume grades of magnitude at most
  \<open>2\<^sup>2\<^sup>9 - 1\<close>, which excludes overflow of the sum of four. Signed overflow is
  undefined in C++; the model takes the wrap-around of the usual compilers, and no
  theorem states a result that depends on it. An \<open>int\<close> that is read before it was
  given a value is a parameter of the shell: \<open>junk\<close> for the local \<open>id\<close> of the
  four methods, and a second one for \<open>choice\<close> of \<open>main\<close>. The theorems hold for
  all values of them, and none states the value of a field that was filled from
  \<open>junk\<close>. Reading a vector beyond its end is given the value 0
  (\<open>vector_at\<close>); the store invariant excludes it. Strings are shorter than
  \<open>npos\<close>, and the text mode translation of line ends on Windows is not modelled.

  \<^bold>\<open>Main results.\<close> A file written by \<open>saveToFile\<close> makes \<open>loadFromFile\<close>
  raise (\<open>load_after_save_raises\<close>), while the format with an empty line between
  the sections is read back exactly (\<open>load_separated_file\<close>); the path saved to is
  not the path loaded from, so a restart finds nothing (\<open>restart_loses_data\<close>);
  delete removes the first match only, so that deleting the id that was just added
  undoes the addition only when the id was new (\<open>delete_after_add\<close>); the store
  invariant holds along every run.
  Against the specification: the code decodes every line the specified decoder
  accepts (\<open>strict_student_accepted\<close>, \<open>strict_teacher_accepted\<close>), and the
  specified loader reads the written file that the code cannot
  (\<open>spec_load_saved\<close>). Of the shell: typed commands followed by the choice 7 make
  \<open>main\<close> return with the school and the disk of the run of the commands
  (\<open>shell_refines_run\<close>); at the end of the input, and after any input that is not
  a number, the loop never returns (\<open>eof_never_returns\<close>,
  \<open>not_a_number_never_returns\<close>, \<open>bad_id_never_returns\<close>), and after the
  choice 1 each of its turns appends an empty student and rewrites the file
  (\<open>end_of_input_adds_for_ever\<close>); and once the file the
  loader reads holds a saved school, the program ends in its constructor
  (\<open>main_crashes_on_saved_file\<close>).

  \<^bold>\<open>Not modelled\<close>: the reuse of freed addresses by the allocator and a failing
  allocation; the working directory of the process (were it the directory of the
  absolute path of the member \<open>filePath\<close>, the two paths of the program would name
  one file, and the program would then end as in \<open>main_crashes_on_saved_file\<close>);
  a write that fails after the file was opened; the destructor of the school at the
  \<open>return\<close> of \<open>main\<close>, which is \<open>h_destructor\<close> in \<open>Heap\<close> and not a part
  of \<open>main\<close>; the menu choices that do not change the school as commands of
  \<open>exec\<close> (they are branches of \<open>dispatch\<close>); values of a \<open>double\<close> that are not exact rationals (an average is a
  multiple of a quarter) and the sign of a NaN; the buffering of the streams; the
  saving and loading methods on the store of cells, which the simulation carries over
  from the lists of values.
\<close>

section \<open>Saving and loading together\<close>

lemma default_filePath_neq_load_path: "default_filePath \<noteq> load_path"
  by (simp add: default_filePath_def load_path_def)

text \<open>
  C1. A file written by \<open>saveToFile\<close> cannot be read by \<open>loadFromFile\<close>. Even
  when the school saves to the very path the loader reads, and every student has
  fields without commas and newlines, loading what was just saved ends with
  \<open>std::invalid_argument\<close>: the writer puts no empty line before the "Teachers"
  header, so the student loop takes the header for a student and hands it to
  \<open>stoi\<close>.
\<close>

theorem load_after_save_raises:
  assumes "writable (disk w) (filePath (school w))"
    and "filePath (school w) = load_path"
    and "\<forall>s \<in> set (students (school w)). student_storable s"
  shows "loadFromFile (saveToFile w) = Inl InvalidArgument"
  using assms
  by (simp add: loadFromFile_def ifstream_open_def saveToFile_writable load_loop_saved)

theorem load_after_save_raises_witness:
  "loadFromFile (saveToFile (world0\<lparr>school := school0\<lparr>filePath := load_path\<rparr>\<rparr>)) =
     Inl InvalidArgument"
  by (rule load_after_save_raises) (simp_all add: world0_defs storable_defs)

text \<open>
  C2. The loader reads back the format with an empty line between the sections:
  from a file that holds the header "Students", the lines of storable students, an
  empty line, the header "Teachers" and the lines of storable teachers,
  \<open>loadFromFile\<close> appends exactly these students and teachers, in the order of the
  file, to the vectors of the school and prints the success message.
\<close>

theorem load_separated_file:
  assumes "files (disk w) load_path =
      Some (''Students'' @ NL # students_text sts @ NL # ''Teachers'' @ NL # teachers_text tts)"
    and "\<forall>s \<in> set sts. student_storable s" and "\<forall>t \<in> set tts. teacher_storable t"
  shows "loadFromFile w =
     Inr (w\<lparr>school := (school w)\<lparr>students := students (school w) @ sts,
                                 teachers := teachers (school w) @ tts\<rparr>,
            cout := cout w @ ''Data loaded from file successfully!'' @ [NL]\<rparr>)"
proof -
  from assms(2,3) have "load_loop
      (''Students'' @ NL # students_text sts @ NL # ''Teachers'' @ NL # teachers_text tts)
      (school w) =
    Inr ((school w)\<lparr>students := students (school w) @ sts,
                    teachers := teachers (school w) @ tts\<rparr>)"
    by (rule load_loop_separated)
  with assms(1) show ?thesis
    by (simp add: loadFromFile_def ifstream_open_def println_def)
qed

theorem load_separated_file_witness:
  "loadFromFile
     \<lparr>school = School_init,
      disk = disk0\<lparr>files := [load_path \<mapsto>
        ''Students'' @ NL # students_text [alice] @ NL # ''Teachers'' @ NL # teachers_text [bob]]\<rparr>,
      cout = []\<rparr> =
   Inr \<lparr>school = School_init\<lparr>students := [alice], teachers := [bob]\<rparr>,
        disk = disk0\<lparr>files := [load_path \<mapsto>
          ''Students'' @ NL # students_text [alice] @ NL # ''Teachers'' @ NL # teachers_text [bob]]\<rparr>,
        cout = ''Data loaded from file successfully!'' @ [NL]\<rparr>"
  using load_separated_file [of
      "\<lparr>school = School_init,
        disk = disk0\<lparr>files := [load_path \<mapsto>
          ''Students'' @ NL # students_text [alice] @ NL # ''Teachers'' @ NL # teachers_text [bob]]\<rparr>,
        cout = []\<rparr>" "[alice]" "[bob]"]
  by (simp add: storable_defs School_init_def)

text \<open>
  C3. What the program saves, it never loads. The school saves to the absolute path
  of its \<open>filePath\<close> member, and the loader reads the relative path
  "school_DataBase.txt". Started on a disk without that file, and whatever
  commands are run, a restart of the program on the resulting disk finds no data and
  begins with an empty school.
\<close>

theorem restart_loses_data:
  assumes "files fs load_path = None" and "School_new fs out = Inr w"
  shows "School_new (disk (run cs w)) out' =
     Inr \<lparr>school = School_init, disk = disk (run cs w),
          cout = out' @ ''No existing data found. Starting fresh.'' @ [NL]\<rparr>"
proof -
  from assms have w: "w = println ''No existing data found. Starting fresh.''
      \<lparr>school = School_init, disk = fs, cout = out\<rparr>"
    by (simp add: School_new_def loadFromFile_def ifstream_open_def)
  then have "filePath (school w) = default_filePath"
    by (simp add: School_init_def)
  then have "files (disk (run cs w)) load_path = files (disk w) load_path"
    using default_filePath_neq_load_path by (intro run_other_path) simp
  with w assms(1) have "files (disk (run cs w)) load_path = None"
    by simp
  then show ?thesis
    by (simp add: School_new_def loadFromFile_def ifstream_open_def println_def)
qed

theorem restart_loses_data_witness:
  "\<exists>w. School_new disk0 [] = Inr w \<and>
     School_new (disk (run [AddStudent ''Alice'' 1 ''10A'' 12 8 15 9] w)) [] =
       Inr \<lparr>school = School_init,
            disk = disk (run [AddStudent ''Alice'' 1 ''10A'' 12 8 15 9] w),
            cout = ''No existing data found. Starting fresh.'' @ [NL]\<rparr>"
proof -
  have "School_new disk0 [] =
      Inr (println ''No existing data found. Starting fresh.''
        \<lparr>school = School_init, disk = disk0, cout = []\<rparr>)"
    by (simp add: School_new_def loadFromFile_def ifstream_open_def)
  then show ?thesis
    using restart_loses_data [of disk0 "[]" _ "[AddStudent ''Alice'' 1 ''10A'' 12 8 15 9]" "[]"]
    by simp
qed

section \<open>The whole program\<close>

lemma School_new_fresh:
  "files fs load_path = None \<Longrightarrow>
     School_new fs [] =
       Inr \<lparr>school = School_init, disk = fs,
            cout = ''No existing data found. Starting fresh.'' @ [NL]\<rparr>"
  by (simp add: School_new_def loadFromFile_def ifstream_open_def println_def)

text \<open>
  C39. A session of the whole program. Started on an empty disk, with the user
  choosing 1, answering Alice, 1, 10A, 12, 8, 15, 9 to the prompts and then choosing
  7, \<open>main\<close> returns; the school then holds the one student Alice, the file named by
  the member \<open>filePath\<close> holds her line between the two headers, and the file the
  loader reads still does not exist.
\<close>

theorem session_alice:
  "\<exists>p. main junk ch disk0
       (''1'' @ [NL] @ ''Alice'' @ [NL] @ ''1'' @ [NL] @ ''10A'' @ [NL] @ ''12'' @ [NL] @
        ''8'' @ [NL] @ ''15'' @ [NL] @ ''9'' @ [NL] @ ''7'' @ [NL]) = Inr (Some p) \<and>
     students (school (sys p)) = [alice] \<and> teachers (school (sys p)) = [] \<and>
     files (disk (sys p)) default_filePath =
       Some (''Students'' @ [NL] @ ''Alice,1,10A,12,8,15,9'' @ [NL] @ ''Teachers'' @ [NL]) \<and>
     files (disk (sys p)) load_path = None"
proof -
  let ?w = "\<lparr>school = School_init, disk = disk0,
    cout = ''No existing data found. Starting fresh.'' @ [NL]\<rparr>"
  let ?c = "AddStudent ''Alice'' 1 ''10A'' 12 8 15 9"
  from main_loop_typed [of "[?c]" ?w ?w junk ch "[]"] obtain p where
    loop: "main_loop junk ch \<lparr>sys = ?w, cin = \<lparr>unread = typed ?c @ ''7'' @ [NL], good = True\<rparr>\<rparr> =
      Some p"
    and data: "same_data (sys p) (exec ?c ?w)"
    by auto
  have "students (school (exec ?c ?w)) = [alice]" "teachers (school (exec ?c ?w)) = []"
    by (simp_all add: School_init_def alice_def)
  moreover have "files (disk (exec ?c ?w)) default_filePath =
      Some (''Students'' @ [NL] @ ''Alice,1,10A,12,8,15,9'' @ [NL] @ ''Teachers'' @ [NL])"
    by (simp add: addStudent_def saveToFile_writable push_student_def School_init_def
        save_text_eq students_text_def teachers_text_def alice_def [symmetric])
  moreover have "files (disk (exec ?c ?w)) load_path = None"
    using default_filePath_neq_load_path
    by (subst exec_other_path) (simp_all add: School_init_def)
  ultimately show ?thesis
    using loop data
    by (simp add: main_def School_new_fresh istream_of_def same_data_def)
qed

text \<open>
  C40. Once the file the loader reads holds what \<open>saveToFile\<close> writes, the
  program cannot be started any more: the constructor of \<open>School\<close> raises
  \<open>std::invalid_argument\<close>, which nothing catches, before the first menu is shown,
  whatever the school that was saved (with students whose fields hold no comma and no
  newline) and whatever is typed.
\<close>

theorem main_crashes_on_saved_file:
  assumes "files fs load_path = Some (save_text sch)"
    and "\<forall>s \<in> set (students sch). student_storable s"
  shows "main junk ch fs input = Inl InvalidArgument"
  using assms
  by (simp add: main_def School_new_def loadFromFile_def ifstream_open_def load_loop_saved)

theorem main_crashes_on_saved_file_witness:
  "main 0 0 (disk0\<lparr>files := (files disk0)(load_path \<mapsto> save_text school0)\<rparr>) (''7'' @ [NL]) =
     Inl InvalidArgument"
  by (rule main_crashes_on_saved_file [where sch = school0])
    (simp_all add: school0_def storable_defs)

end
